theory Spec2Isabelle
  imports Main "HOL-Library.Word" "HOL-Library.Char_ord" "HOL-Library.List_Lexorder"
begin

section \<open>Common types (include/lightoladb/common/types.h)\<close>

text \<open>
  The enumeration \<^verbatim>\<open>DataTypeID\<close>, in the order of the header.
\<close>

datatype DataTypeID =
  Null | Int8 | Int16 | Int32 | Int64 | UInt8 | UInt16 | UInt32 | UInt64
  | Float32 | Float64 | String | Date | DateTime | Array | Nullable

text \<open>
  C++ exceptions are values. Every \<^verbatim>\<open>throw\<close> of the repository raises a
  \<^verbatim>\<open>std::runtime_error\<close> with a message; the standard library adds
  \<^verbatim>\<open>std::invalid_argument\<close> and \<^verbatim>\<open>std::out_of_range\<close> (the numeric
  conversions) and \<^verbatim>\<open>std::bad_variant_access\<close> (\<^verbatim>\<open>std::get\<close> on the wrong
  alternative). An access the language leaves undefined (\<^verbatim>\<open>v[i]\<close> past the end of a
  vector, \<^verbatim>\<open>pop_back\<close> on an empty vector, a \<^verbatim>\<open>static_cast\<close> to the wrong
  column class) is the outcome \<open>undefined_behaviour\<close>: nothing is claimed about what
  the program does there.
\<close>

datatype error =
  runtime_error string
  | invalid_argument string
  | out_of_range string
  | bad_variant_access
  | undefined_behaviour

fun what :: "error \<Rightarrow> string" where
  "what (runtime_error m) = m"
| "what (invalid_argument m) = m"
| "what (out_of_range m) = m"
| "what bad_variant_access = ''bad variant access''"
| "what undefined_behaviour = []"

text \<open>
  A \<^verbatim>\<open>Field\<close> is a \<^verbatim>\<open>std::variant\<close> over \<^verbatim>\<open>std::monostate\<close> and the eleven
  scalar C++ types. Integers are machine words of their width; \<^verbatim>\<open>float\<close> and
  \<^verbatim>\<open>double\<close> are carried as their 32 and 64 bit patterns, and every floating-point
  operation is taken from the \<open>platform\<close> record below.
\<close>

datatype Field =
  F_monostate
  | F_int8 "8 word" | F_int16 "16 word" | F_int32 "32 word" | F_int64 "64 word"
  | F_uint8 "8 word" | F_uint16 "16 word" | F_uint32 "32 word" | F_uint64 "64 word"
  | F_float "32 word" | F_double "64 word"
  | F_string string

fun isNull :: "Field \<Rightarrow> bool" where
  "isNull F_monostate = True"
| "isNull _ = False"

fun Field_getTypeId :: "Field \<Rightarrow> DataTypeID" where
  "Field_getTypeId F_monostate = Null"
| "Field_getTypeId (F_int8 _) = Int8"
| "Field_getTypeId (F_int16 _) = Int16"
| "Field_getTypeId (F_int32 _) = Int32"
| "Field_getTypeId (F_int64 _) = Int64"
| "Field_getTypeId (F_uint8 _) = UInt8"
| "Field_getTypeId (F_uint16 _) = UInt16"
| "Field_getTypeId (F_uint32 _) = UInt32"
| "Field_getTypeId (F_uint64 _) = UInt64"
| "Field_getTypeId (F_float _) = Float32"
| "Field_getTypeId (F_double _) = Float64"
| "Field_getTypeId (F_string _) = String"

section \<open>Data type descriptors (include/lightoladb/common/data_types.h)\<close>

datatype IDataType =
  DataTypeInt8 | DataTypeInt16 | DataTypeInt32 | DataTypeInt64
  | DataTypeUInt8 | DataTypeUInt16 | DataTypeUInt32 | DataTypeUInt64
  | DataTypeFloat32 | DataTypeFloat64
  | DataTypeString
  | DataTypeNullable IDataType

fun getTypeId :: "IDataType \<Rightarrow> DataTypeID" where
  "getTypeId DataTypeInt8 = Int8"
| "getTypeId DataTypeInt16 = Int16"
| "getTypeId DataTypeInt32 = Int32"
| "getTypeId DataTypeInt64 = Int64"
| "getTypeId DataTypeUInt8 = UInt8"
| "getTypeId DataTypeUInt16 = UInt16"
| "getTypeId DataTypeUInt32 = UInt32"
| "getTypeId DataTypeUInt64 = UInt64"
| "getTypeId DataTypeFloat32 = Float32"
| "getTypeId DataTypeFloat64 = Float64"
| "getTypeId DataTypeString = String"
| "getTypeId (DataTypeNullable _) = Nullable"

fun getName :: "IDataType \<Rightarrow> string" where
  "getName DataTypeInt8 = ''Int8''"
| "getName DataTypeInt16 = ''Int16''"
| "getName DataTypeInt32 = ''Int32''"
| "getName DataTypeInt64 = ''Int64''"
| "getName DataTypeUInt8 = ''UInt8''"
| "getName DataTypeUInt16 = ''UInt16''"
| "getName DataTypeUInt32 = ''UInt32''"
| "getName DataTypeUInt64 = ''UInt64''"
| "getName DataTypeFloat32 = ''Float32''"
| "getName DataTypeFloat64 = ''Float64''"
| "getName DataTypeString = ''String''"
| "getName (DataTypeNullable nested_type) = ''Nullable('' @ getName nested_type @ '')''"

fun isNullable :: "IDataType \<Rightarrow> bool" where
  "isNullable (DataTypeNullable _) = True"
| "isNullable _ = False"

subsection \<open>The type factory (src/common/data_types.cpp)\<close>

text \<open>
  \<^verbatim>\<open>std::regex_match(type_name, match, std::regex(R"(^Nullable\((.+)\)$)"))\<close>:
  the whole name is \<^verbatim>\<open>Nullable(\<close>, then one or more characters, then \<^verbatim>\<open>)\<close>.
  The capture is everything between the ninth character and the last one. In the
  ECMAScript grammar \<^verbatim>\<open>.\<close> matches every character but a line terminator; on
  \<^verbatim>\<open>char\<close> these are line feed and carriage return.
\<close>

definition line_terminator :: "char \<Rightarrow> bool" where
  "line_terminator c = (c = CHR 0x0A \<or> c = CHR 0x0D)"

definition nullable_regex_match :: "string \<Rightarrow> string option" where
  "nullable_regex_match type_name =
     (if 11 \<le> length type_name
         \<and> take 9 type_name = ''Nullable(''
         \<and> last type_name = CHR '')''
         \<and> \<not> list_ex line_terminator (butlast (drop 9 type_name))
      then Some (butlast (drop 9 type_name))
      else None)"

function createDataType :: "string \<Rightarrow> error + IDataType" where
  "createDataType type_name =
     (if type_name = ''Int8'' then Inr DataTypeInt8
      else if type_name = ''Int16'' then Inr DataTypeInt16
      else if type_name = ''Int32'' then Inr DataTypeInt32
      else if type_name = ''Int64'' then Inr DataTypeInt64
      else if type_name = ''UInt8'' then Inr DataTypeUInt8
      else if type_name = ''UInt16'' then Inr DataTypeUInt16
      else if type_name = ''UInt32'' then Inr DataTypeUInt32
      else if type_name = ''UInt64'' then Inr DataTypeUInt64
      else if type_name = ''Float32'' then Inr DataTypeFloat32
      else if type_name = ''Float64'' then Inr DataTypeFloat64
      else if type_name = ''String'' then Inr DataTypeString
      else (case nullable_regex_match type_name of
              Some nested_type_name \<Rightarrow>
                (case createDataType nested_type_name of
                   Inl e \<Rightarrow> Inl e
                 | Inr nested_type \<Rightarrow> Inr (DataTypeNullable nested_type))
            | None \<Rightarrow> Inl (runtime_error (''Unknown data type: '' @ type_name))))"
  by pat_completeness auto
termination
proof (relation "measure length")
  show "wf (measure length)" by simp
next
  fix type_name x2 :: string
  assume "nullable_regex_match type_name = Some x2"
  then have "11 \<le> length type_name" and "x2 = butlast (drop 9 type_name)"
    by (auto simp: nullable_regex_match_def split: if_splits)
  then show "(x2, type_name) \<in> measure length" by simp
qed

declare createDataType.simps [simp del]

text \<open>
  The claim's own words, as an inductive predicate: a name is accepted when it is one of
  the eleven scalar keywords, or \<^verbatim>\<open>Nullable(X)\<close> for an accepted \<open>X\<close>.
\<close>

definition scalar_keywords :: "string list" where
  "scalar_keywords =
     [''Int8'', ''Int16'', ''Int32'', ''Int64'', ''UInt8'', ''UInt16'', ''UInt32'', ''UInt64'',
      ''Float32'', ''Float64'', ''String'']"

inductive accepted_name :: "string \<Rightarrow> bool" where
  scalar: "s \<in> set scalar_keywords \<Longrightarrow> accepted_name s"
| nullable: "accepted_name x \<Longrightarrow> accepted_name (''Nullable('' @ x @ '')'')"

fun kind_of_name :: "string \<Rightarrow> DataTypeID" where
  "kind_of_name s =
     (if s = ''Int8'' then Int8 else if s = ''Int16'' then Int16
      else if s = ''Int32'' then Int32 else if s = ''Int64'' then Int64
      else if s = ''UInt8'' then UInt8 else if s = ''UInt16'' then UInt16
      else if s = ''UInt32'' then UInt32 else if s = ''UInt64'' then UInt64
      else if s = ''Float32'' then Float32 else if s = ''Float64'' then Float64
      else if s = ''String'' then String else Nullable)"

subsection \<open>Binary codecs (data_types.h)\<close>

text \<open>
  \<^verbatim>\<open>memcpy\<close> of an integer writes its object representation. The model fixes the
  byte order of the usual targets (little-endian: least significant byte first) and
  a 64-bit \<^verbatim>\<open>size_t\<close>. A \<^verbatim>\<open>std::vector<char>\<close> and a \<^verbatim>\<open>std::string\<close> are
  both lists of \<open>char\<close>, the 8-bit bytes of HOL.
\<close>

fun le_bytes :: "nat \<Rightarrow> nat \<Rightarrow> char list" where
  "le_bytes 0 v = []"
| "le_bytes (Suc k) v = char_of (v mod 256) # le_bytes k (v div 256)"

fun le_value :: "char list \<Rightarrow> nat" where
  "le_value [] = 0"
| "le_value (c # cs) = of_char c + 256 * le_value cs"

definition not_enough_data :: error where
  "not_enough_data = runtime_error ''Not enough data for deserialization''"

text \<open>
  \<^verbatim>\<open>DataTypeNumber<T>\<close>: a value of a fixed-width type \<open>T\<close> is a word of
  \<open>8 * sizeof(T)\<close> bits (for the two floating types, the bit pattern).
  \<^verbatim>\<open>serializeBinary\<close> grows the buffer by \<open>sizeof(T)\<close> and copies the value there;
  \<^verbatim>\<open>deserializeBinary(value, buffer, size)\<close> is given the \<open>size\<close> bytes at
  \<open>buffer\<close> as a list.
\<close>

definition DataTypeNumber_getSize :: "'a::len word \<Rightarrow> nat" where
  "DataTypeNumber_getSize val = LENGTH('a) div 8"

definition DataTypeNumber_serializeBinary :: "'a::len word \<Rightarrow> char list \<Rightarrow> char list" where
  "DataTypeNumber_serializeBinary val buffer =
     buffer @ le_bytes (LENGTH('a) div 8) (unat val)"

definition DataTypeNumber_deserializeBinary :: "char list \<Rightarrow> error + 'a::len word" where
  "DataTypeNumber_deserializeBinary buffer =
     (if length buffer < LENGTH('a) div 8 then Inl not_enough_data
      else Inr (word_of_nat (le_value (take (LENGTH('a) div 8) buffer))))"

text \<open>
  \<^verbatim>\<open>DataTypeString\<close>: the length is cast to \<^verbatim>\<open>uint32_t\<close>
  (\<^verbatim>\<open>static_cast<uint32_t>(str->size())\<close>, so it is taken modulo \<open>2 ^ 32\<close>), written
  in four bytes, and followed by that many bytes of the string.
\<close>

definition DataTypeString_serializeBinary :: "string \<Rightarrow> char list \<Rightarrow> char list" where
  "DataTypeString_serializeBinary str buffer =
     (let size = length str mod 2 ^ 32
      in buffer @ le_bytes 4 size @ take size str)"

definition DataTypeString_deserializeBinary :: "char list \<Rightarrow> error + string" where
  "DataTypeString_deserializeBinary buffer =
     (if length buffer < 4 then Inl not_enough_data
      else let str_size = le_value (take 4 buffer)
           in if length buffer < 4 + str_size then Inl not_enough_data
              else Inr (take str_size (drop 4 buffer)))"

text \<open>\<^verbatim>\<open>DataTypeNullable\<close>: both directions throw.\<close>

definition DataTypeNullable_serializeBinary :: "'v \<Rightarrow> char list \<Rightarrow> error + char list" where
  "DataTypeNullable_serializeBinary val buffer = Inl (runtime_error ''Not implemented'')"

definition DataTypeNullable_deserializeBinary :: "char list \<Rightarrow> error + 'v" where
  "DataTypeNullable_deserializeBinary buffer = Inl (runtime_error ''Not implemented'')"

section \<open>Columns (include/lightoladb/core/column.h)\<close>

text \<open>
  \<^verbatim>\<open>ColumnVector<T>\<close> owns a \<^verbatim>\<open>std::vector<T>\<close> and a type descriptor;
  \<open>VectorData\<close> is the vector, one constructor per instantiation of \<open>T\<close>.
  \<^verbatim>\<open>ColumnNullable<T>\<close> owns a nested \<^verbatim>\<open>ColumnVector<T>\<close>, a null map
  (a \<^verbatim>\<open>ColumnVector<uint8_t>\<close>) and a type descriptor; the descriptors of the two inner
  columns cannot be observed through the interface and are left out.
  Columns are values here: \<^verbatim>\<open>clone\<close> is the identity, and a \<^verbatim>\<open>shared_ptr\<close> to a
  column that is never mutated after it is shared is that column.
\<close>

datatype VectorData =
  V_int8 "8 word list" | V_int16 "16 word list" | V_int32 "32 word list" | V_int64 "64 word list"
  | V_uint8 "8 word list" | V_uint16 "16 word list" | V_uint32 "32 word list"
  | V_uint64 "64 word list"
  | V_float "32 word list" | V_double "64 word list"
  | V_string "string list"

fun V_size :: "VectorData \<Rightarrow> nat" where
  "V_size (V_int8 d) = length d"
| "V_size (V_int16 d) = length d"
| "V_size (V_int32 d) = length d"
| "V_size (V_int64 d) = length d"
| "V_size (V_uint8 d) = length d"
| "V_size (V_uint16 d) = length d"
| "V_size (V_uint32 d) = length d"
| "V_size (V_uint64 d) = length d"
| "V_size (V_float d) = length d"
| "V_size (V_double d) = length d"
| "V_size (V_string d) = length d"

fun V_pop_back :: "VectorData \<Rightarrow> VectorData" where
  "V_pop_back (V_int8 d) = V_int8 (butlast d)"
| "V_pop_back (V_int16 d) = V_int16 (butlast d)"
| "V_pop_back (V_int32 d) = V_int32 (butlast d)"
| "V_pop_back (V_int64 d) = V_int64 (butlast d)"
| "V_pop_back (V_uint8 d) = V_uint8 (butlast d)"
| "V_pop_back (V_uint16 d) = V_uint16 (butlast d)"
| "V_pop_back (V_uint32 d) = V_uint32 (butlast d)"
| "V_pop_back (V_uint64 d) = V_uint64 (butlast d)"
| "V_pop_back (V_float d) = V_float (butlast d)"
| "V_pop_back (V_double d) = V_double (butlast d)"
| "V_pop_back (V_string d) = V_string (butlast d)"

text \<open>\<open>Field(data[n])\<close>, for \<open>n\<close> inside the vector.\<close>

fun V_fields :: "VectorData \<Rightarrow> Field list" where
  "V_fields (V_int8 d) = map F_int8 d"
| "V_fields (V_int16 d) = map F_int16 d"
| "V_fields (V_int32 d) = map F_int32 d"
| "V_fields (V_int64 d) = map F_int64 d"
| "V_fields (V_uint8 d) = map F_uint8 d"
| "V_fields (V_uint16 d) = map F_uint16 d"
| "V_fields (V_uint32 d) = map F_uint32 d"
| "V_fields (V_uint64 d) = map F_uint64 d"
| "V_fields (V_float d) = map F_float d"
| "V_fields (V_double d) = map F_double d"
| "V_fields (V_string d) = map F_string d"

datatype IColumn =
  ColumnVector VectorData IDataType
  | ColumnNullable VectorData "8 word list" IDataType

fun IColumn_size :: "IColumn \<Rightarrow> nat" where
  "IColumn_size (ColumnVector data type) = V_size data"
| "IColumn_size (ColumnNullable nested_column null_map type) = V_size nested_column"

fun clone :: "IColumn \<Rightarrow> IColumn" where
  "clone c = c"

fun getDataType :: "IColumn \<Rightarrow> IDataType" where
  "getDataType (ColumnVector data type) = type"
| "getDataType (ColumnNullable nested_column null_map type) = type"

text \<open>\<^verbatim>\<open>pop_back\<close> on an empty vector is undefined.\<close>

fun popBack :: "IColumn \<Rightarrow> error + IColumn" where
  "popBack (ColumnVector data type) =
     (if V_size data = 0 then Inl undefined_behaviour
      else Inr (ColumnVector (V_pop_back data) type))"
| "popBack (ColumnNullable nested_column null_map type) =
     (if V_size nested_column = 0 \<or> null_map = [] then Inl undefined_behaviour
      else Inr (ColumnNullable (V_pop_back nested_column) (butlast null_map) type))"

text \<open>
  \<^verbatim>\<open>operator[]\<close>. The nullable column first reads the null map
  (\<^verbatim>\<open>null_map->getValue(n) != 0\<close>), then the nested column.
\<close>

fun IColumn_at :: "IColumn \<Rightarrow> nat \<Rightarrow> error + Field" where
  "IColumn_at (ColumnVector data type) n =
     (if n < V_size data then Inr (V_fields data ! n) else Inl undefined_behaviour)"
| "IColumn_at (ColumnNullable nested_column null_map type) n =
     (if \<not> n < length null_map then Inl undefined_behaviour
      else if null_map ! n \<noteq> 0 then Inr F_monostate
      else if n < V_size nested_column then Inr (V_fields nested_column ! n)
      else Inl undefined_behaviour)"

section \<open>Blocks (include/lightoladb/core/block.h)\<close>

text \<open>
  Record fields live in one name space, so the members of each C++ class carry a short
  prefix of the class: \<open>cw_\<close> for \<^verbatim>\<open>ColumnWithName\<close>, \<open>b_\<close> for \<^verbatim>\<open>Block\<close>,
  and so on. A \<^verbatim>\<open>std::unordered_map\<close> is a map.
\<close>

definition sq :: string where
  "sq = [CHR 0x27]"

record ColumnWithName =
  cw_name :: string
  cw_column :: IColumn

record Block =
  b_columns :: "ColumnWithName list"
  b_column_indices :: "string \<rightharpoonup> nat"

definition Block_empty :: Block where
  "Block_empty = \<lparr>b_columns = [], b_column_indices = Map.empty\<rparr>"

definition addColumn :: "Block \<Rightarrow> string \<Rightarrow> IColumn \<Rightarrow> Block" where
  "addColumn block name column =
     \<lparr>b_columns = b_columns block @ [\<lparr>cw_name = name, cw_column = column\<rparr>],
      b_column_indices = (b_column_indices block)(name \<mapsto> length (b_columns block))\<rparr>"

definition getColumnCount :: "Block \<Rightarrow> nat" where
  "getColumnCount block = length (b_columns block)"

definition getColumnByIndex :: "Block \<Rightarrow> nat \<Rightarrow> error + ColumnWithName" where
  "getColumnByIndex block idx =
     (if idx < length (b_columns block) then Inr (b_columns block ! idx)
      else Inl undefined_behaviour)"

definition getColumnIndex :: "Block \<Rightarrow> string \<Rightarrow> error + nat" where
  "getColumnIndex block name =
     (case b_column_indices block name of
        None \<Rightarrow> Inl (runtime_error (''Column '' @ sq @ name @ sq @ '' not found in block''))
      | Some idx \<Rightarrow> Inr idx)"

definition getColumnByName :: "Block \<Rightarrow> string \<Rightarrow> error + ColumnWithName" where
  "getColumnByName block name =
     (case getColumnIndex block name of
        Inl e \<Rightarrow> Inl e
      | Inr idx \<Rightarrow> getColumnByIndex block idx)"

definition getRowCount :: "Block \<Rightarrow> nat" where
  "getRowCount block =
     (case b_columns block of [] \<Rightarrow> 0 | c # _ \<Rightarrow> IColumn_size (cw_column c))"

definition isValid :: "Block \<Rightarrow> bool" where
  "isValid block =
     (case b_columns block of
        [] \<Rightarrow> True
      | c # cs \<Rightarrow> list_all (\<lambda>c'. IColumn_size (cw_column c') = IColumn_size (cw_column c)) cs)"

section \<open>Table structure and storage (include/lightoladb/storage)\<close>

record ColumnDefinition =
  cd_name :: string
  cd_type :: IDataType

record TableStructure =
  ts_name :: string
  ts_columns :: "ColumnDefinition list"
  ts_column_indices :: "string \<rightharpoonup> nat"

definition TableStructure_new :: "string \<Rightarrow> TableStructure" where
  "TableStructure_new table_name =
     \<lparr>ts_name = table_name, ts_columns = [], ts_column_indices = Map.empty\<rparr>"

definition TableStructure_addColumn ::
  "TableStructure \<Rightarrow> string \<Rightarrow> IDataType \<Rightarrow> TableStructure" where
  "TableStructure_addColumn st name type =
     st\<lparr>ts_columns := ts_columns st @ [\<lparr>cd_name = name, cd_type = type\<rparr>],
        ts_column_indices := (ts_column_indices st)(name \<mapsto> length (ts_columns st))\<rparr>"

definition TableStructure_getColumnCount :: "TableStructure \<Rightarrow> nat" where
  "TableStructure_getColumnCount st = length (ts_columns st)"

definition TableStructure_getColumnByIndex ::
  "TableStructure \<Rightarrow> nat \<Rightarrow> error + ColumnDefinition" where
  "TableStructure_getColumnByIndex st idx =
     (if idx < length (ts_columns st) then Inr (ts_columns st ! idx)
      else Inl undefined_behaviour)"

definition TableStructure_getColumnIndex :: "TableStructure \<Rightarrow> string \<Rightarrow> error + nat" where
  "TableStructure_getColumnIndex st name =
     (case ts_column_indices st name of
        None \<Rightarrow>
          Inl (runtime_error (''Column '' @ sq @ name @ sq @ '' not found in table structure''))
      | Some idx \<Rightarrow> Inr idx)"

definition TableStructure_getColumnByName ::
  "TableStructure \<Rightarrow> string \<Rightarrow> error + ColumnDefinition" where
  "TableStructure_getColumnByName st name =
     (case TableStructure_getColumnIndex st name of
        Inl e \<Rightarrow> Inl e
      | Inr idx \<Rightarrow> TableStructure_getColumnByIndex st idx)"

definition hasColumn :: "TableStructure \<Rightarrow> string \<Rightarrow> bool" where
  "hasColumn st name = (ts_column_indices st name \<noteq> None)"

subsection \<open>The in-memory engine (memory_engine.h)\<close>

text \<open>
  The mutex serialises calls; with one caller at a time each call is a function of the
  storage. A call that throws leaves the storage as it was, so \<open>insert\<close> returns either
  the exception or the new storage.
\<close>

record MemoryStorage =
  ms_structure :: TableStructure
  ms_blocks :: "Block list"

text \<open>
  \<^verbatim>\<open>validateBlock\<close>: the loop over the block's columns, in index order. The lookup
  \<^verbatim>\<open>structure.getColumnByName(block_column.name)\<close> comes before the test
  \<^verbatim>\<open>hasColumn\<close> and throws when the name is absent.
\<close>

fun validate_columns :: "TableStructure \<Rightarrow> ColumnWithName list \<Rightarrow> error + bool" where
  "validate_columns st [] = Inr True"
| "validate_columns st (block_column # rest) =
     (case TableStructure_getColumnByName st (cw_name block_column) of
        Inl e \<Rightarrow> Inl e
      | Inr table_column \<Rightarrow>
          if \<not> hasColumn st (cw_name block_column) then Inr False
          else if getTypeId (getDataType (cw_column block_column))
                    \<noteq> getTypeId (cd_type table_column) then Inr False
          else validate_columns st rest)"

definition validateBlock :: "MemoryStorage \<Rightarrow> Block \<Rightarrow> error + bool" where
  "validateBlock storage block =
     (if getColumnCount block \<noteq> TableStructure_getColumnCount (ms_structure storage)
      then Inr False
      else validate_columns (ms_structure storage) (b_columns block))"

definition MemoryStorage_insert :: "MemoryStorage \<Rightarrow> Block \<Rightarrow> error + MemoryStorage" where
  "MemoryStorage_insert storage block =
     (case validateBlock storage block of
        Inl e \<Rightarrow> Inl e
      | Inr ok \<Rightarrow>
          if \<not> ok
          then Inl (runtime_error ''Block structure doesn't match table structure'')
          else Inr (storage\<lparr>ms_blocks := ms_blocks storage @ [block]\<rparr>))"

definition readAll :: "MemoryStorage \<Rightarrow> Block list" where
  "readAll storage = ms_blocks storage"

fun read_block :: "Block \<Rightarrow> string list \<Rightarrow> Block \<Rightarrow> error + Block" where
  "read_block block [] new_block = Inr new_block"
| "read_block block (col_name # rest) new_block =
     (case getColumnByName block col_name of
        Inl e \<Rightarrow> Inl e
      | Inr col \<Rightarrow> read_block block rest (addColumn new_block col_name (cw_column col)))"

fun read_blocks :: "Block list \<Rightarrow> string list \<Rightarrow> error + Block list" where
  "read_blocks [] column_names = Inr []"
| "read_blocks (block # rest) column_names =
     (case read_block block column_names Block_empty of
        Inl e \<Rightarrow> Inl e
      | Inr new_block \<Rightarrow>
          (case read_blocks rest column_names of
             Inl e \<Rightarrow> Inl e
           | Inr result \<Rightarrow> Inr (new_block # result)))"

definition MemoryStorage_read :: "MemoryStorage \<Rightarrow> string list \<Rightarrow> error + Block list" where
  "MemoryStorage_read storage column_names =
     (case find (\<lambda>col_name. \<not> hasColumn (ms_structure storage) col_name) column_names of
        Some col_name \<Rightarrow>
          Inl (runtime_error (''Column '' @ sq @ col_name @ sq @ '' not found in table''))
      | None \<Rightarrow>
          if ms_blocks storage = [] then Inr []
          else read_blocks (ms_blocks storage) column_names)"

text \<open>\<^verbatim>\<open>createStorage\<close> (src/storage/storage_factory.cpp).\<close>

definition createStorage :: "string \<Rightarrow> string \<Rightarrow> TableStructure \<Rightarrow> error + MemoryStorage" where
  "createStorage engine_name table_name st =
     (if engine_name = ''Memory'' then Inr \<lparr>ms_structure = st, ms_blocks = []\<rparr>
      else Inl (runtime_error (''Unknown storage engine: '' @ engine_name)))"

section \<open>What the executor takes from the C++ library and the hardware\<close>

text \<open>
  The numeric conversions of \<^verbatim>\<open><string>\<close> and the floating-point arithmetic are not
  code of the repository. They are parameters: every theorem below holds for any
  behaviour of them. \<^verbatim>\<open>int\<close> is 32 bits, \<^verbatim>\<open>long\<close> and \<^verbatim>\<open>long long\<close> are 64 bits.
  A conversion returns the value or the exception it throws.
\<close>

record platform =
  stoi :: "string \<Rightarrow> error + 32 word"
  stoll :: "string \<Rightarrow> error + 64 word"
  stoul :: "string \<Rightarrow> error + 64 word"
  stoull :: "string \<Rightarrow> error + 64 word"
  stof :: "string \<Rightarrow> error + 32 word"
  stod :: "string \<Rightarrow> error + 64 word"
  f64_add :: "64 word \<Rightarrow> 64 word \<Rightarrow> 64 word"
  f64_div :: "64 word \<Rightarrow> 64 word \<Rightarrow> 64 word"
  f64_of_int :: "int \<Rightarrow> 64 word"
  f64_of_f32 :: "32 word \<Rightarrow> 64 word"
  f32_less :: "32 word \<Rightarrow> 32 word \<Rightarrow> bool"
  f64_less :: "64 word \<Rightarrow> 64 word \<Rightarrow> bool"

section \<open>Commands (include/lightoladb/sql/parser.h)\<close>

datatype AggregateFunctionType = Agg_NONE | Agg_COUNT | Agg_SUM | Agg_AVG | Agg_MIN | Agg_MAX

record ColumnExpression =
  ce_column :: string
  ce_alias :: string
  ce_agg_type :: AggregateFunctionType

record CreateTableAST =
  ct_table_name :: string
  ct_columns :: "(string \<times> string) list"
  ct_engine :: string

record InsertAST =
  ins_table_name :: string
  ins_column_names :: "string list"
  ins_values :: "string list list"

record SelectAST =
  sel_select_all :: bool
  sel_columns :: "ColumnExpression list"
  sel_table_name :: string
  sel_where_expr :: string
  sel_group_by_columns :: "string list"
  sel_order_by_columns :: "(string \<times> bool) list"
  sel_limit :: nat

subsection \<open>Parsing SELECT (src/sql/parser.cpp)\<close>

text \<open>
  The parser is built on \<^verbatim>\<open>std::regex\<close>. The regular-expression engine is a
  parameter: for each pattern of \<^verbatim>\<open>parseSelect\<close> and
  \<^verbatim>\<open>parseColumnExpression\<close>, the captures it reports on a text. What the
  repository does with the captures is modelled in full. \<open>select_match\<close> holds the six
  captures of the SELECT pattern; an optional group that did not take part is \<open>None\<close>.
\<close>

record select_match =
  m_columns :: string
  m_table :: string
  m_where :: "string option"
  m_group_by :: "string option"
  m_order_by :: "string option"
  m_limit :: "string option"

record regex_engine =
  select_regex_search :: "string \<Rightarrow> select_match option"
  agg_regex_match :: "string \<Rightarrow> (string \<times> string \<times> string option) option"
  col_regex_match :: "string \<Rightarrow> (string \<times> string option) option"
  column_regex_matches :: "string \<Rightarrow> string list"
  order_regex_matches :: "string \<Rightarrow> (string \<times> string option) list"

text \<open>\<^verbatim>\<open>std::isspace\<close> and \<^verbatim>\<open>::toupper\<close> in the C locale.\<close>

definition isspace :: "char \<Rightarrow> bool" where
  "isspace c = (c = CHR '' '' \<or> (9 \<le> (of_char c :: nat) \<and> (of_char c :: nat) \<le> 13))"

definition trim :: "string \<Rightarrow> string" where
  "trim str = rev (dropWhile isspace (rev (dropWhile isspace str)))"

definition toupper :: "char \<Rightarrow> char" where
  "toupper c =
     (if 97 \<le> (of_char c :: nat) \<and> (of_char c :: nat) \<le> 122
      then char_of ((of_char c :: nat) - 32) else c)"

definition toUpper :: "string \<Rightarrow> string" where
  "toUpper str = map toupper str"

definition parseColumnExpression :: "regex_engine \<Rightarrow> string \<Rightarrow> error + ColumnExpression" where
  "parseColumnExpression E expr =
     (case agg_regex_match E expr of
        Some (m1, m2, m3) \<Rightarrow>
          (let func_name = toUpper m1;
               alias = (case m3 of Some a \<Rightarrow> a | None \<Rightarrow> [])
           in if func_name = ''COUNT''
              then Inr \<lparr>ce_column = m2, ce_alias = alias, ce_agg_type = Agg_COUNT\<rparr>
              else if func_name = ''SUM''
              then Inr \<lparr>ce_column = m2, ce_alias = alias, ce_agg_type = Agg_SUM\<rparr>
              else if func_name = ''AVG''
              then Inr \<lparr>ce_column = m2, ce_alias = alias, ce_agg_type = Agg_AVG\<rparr>
              else if func_name = ''MIN''
              then Inr \<lparr>ce_column = m2, ce_alias = alias, ce_agg_type = Agg_MIN\<rparr>
              else if func_name = ''MAX''
              then Inr \<lparr>ce_column = m2, ce_alias = alias, ce_agg_type = Agg_MAX\<rparr>
              else Inl (runtime_error (''Unsupported aggregate function: '' @ func_name)))
      | None \<Rightarrow>
          (case col_regex_match E expr of
             Some (m1, m2) \<Rightarrow>
               Inr \<lparr>ce_column = m1, ce_alias = (case m2 of Some a \<Rightarrow> a | None \<Rightarrow> []),
                    ce_agg_type = Agg_NONE\<rparr>
           | None \<Rightarrow> Inr \<lparr>ce_column = expr, ce_alias = [], ce_agg_type = Agg_NONE\<rparr>))"

text \<open>
  The loop that cuts the column list at the commas outside parentheses:
  the characters to come, \<open>current\<close> and \<open>bracket_count\<close>.
\<close>

fun split_column_exprs :: "string \<Rightarrow> string \<Rightarrow> int \<Rightarrow> string list" where
  "split_column_exprs [] current bracket_count =
     (if current \<noteq> [] then [trim current] else [])"
| "split_column_exprs (c # rest) current bracket_count =
     (let bracket_count' =
            (if c = CHR ''('' then bracket_count + 1
             else if c = CHR '')'' then bracket_count - 1
             else bracket_count)
      in if c = CHR '','' \<and> bracket_count' = 0
         then trim current # split_column_exprs rest [] bracket_count'
         else split_column_exprs rest (current @ [c]) bracket_count')"

fun parse_column_exprs :: "regex_engine \<Rightarrow> string list \<Rightarrow> error + ColumnExpression list" where
  "parse_column_exprs E [] = Inr []"
| "parse_column_exprs E (expr # rest) =
     (case parseColumnExpression E expr of
        Inl e \<Rightarrow> Inl e
      | Inr col_expr \<Rightarrow>
          (case parse_column_exprs E rest of
             Inl e \<Rightarrow> Inl e
           | Inr col_exprs \<Rightarrow> Inr (col_expr # col_exprs)))"

text \<open>
  \<^verbatim>\<open>parseSelect\<close> after the match of the SELECT pattern: the column list
  (\<open>select_all\<close> and \<open>columns\<close>), the limit (\<^verbatim>\<open>std::stoul\<close>), and the command.
\<close>

definition parse_select_columns ::
  "regex_engine \<Rightarrow> string \<Rightarrow> error + bool \<times> ColumnExpression list" where
  "parse_select_columns E columns_str =
     (if columns_str = ''*'' then Inr (True, [])
      else (case parse_column_exprs E (split_column_exprs columns_str [] 0) of
              Inl e \<Rightarrow> Inl e
            | Inr col_exprs \<Rightarrow> Inr (False, col_exprs)))"

definition parse_limit :: "platform \<Rightarrow> string option \<Rightarrow> error + nat" where
  "parse_limit P l =
     (case l of
        None \<Rightarrow> Inr 0
      | Some digits \<Rightarrow> (case stoul P digits of Inl e \<Rightarrow> Inl e | Inr v \<Rightarrow> Inr (unat v)))"

definition select_of_match ::
  "regex_engine \<Rightarrow> platform \<Rightarrow> select_match \<Rightarrow> error + SelectAST" where
  "select_of_match E P m =
     (case parse_select_columns E (m_columns m) of
        Inl e \<Rightarrow> Inl e
      | Inr (select_all, col_exprs) \<Rightarrow>
          (case parse_limit P (m_limit m) of
             Inl e \<Rightarrow> Inl e
           | Inr limit \<Rightarrow>
               Inr \<lparr>sel_select_all = select_all,
                    sel_columns = col_exprs,
                    sel_table_name = m_table m,
                    sel_where_expr = (case m_where m of Some w \<Rightarrow> w | None \<Rightarrow> []),
                    sel_group_by_columns =
                      (case m_group_by m of
                         Some g \<Rightarrow> column_regex_matches E g | None \<Rightarrow> []),
                    sel_order_by_columns =
                      (case m_order_by m of
                         Some ob \<Rightarrow>
                           map (\<lambda>(column_name, direction).
                                  (column_name,
                                   (case direction of
                                      Some d \<Rightarrow> toUpper d = ''DESC'' | None \<Rightarrow> False)))
                             (order_regex_matches E ob)
                       | None \<Rightarrow> []),
                    sel_limit = limit\<rparr>))"

definition parseSelect :: "regex_engine \<Rightarrow> platform \<Rightarrow> string \<Rightarrow> error + SelectAST" where
  "parseSelect E P query =
     (case select_regex_search E query of
        None \<Rightarrow> Inl (runtime_error ''Invalid SELECT statement'')
      | Some m \<Rightarrow> select_of_match E P m)"


section \<open>The executor (include/lightoladb/sql/executor.h, src/sql/executor.cpp)\<close>

record QueryResult =
  qr_success :: bool
  qr_error_message :: string
  qr_blocks :: "Block list"
  qr_column_names :: "string list"

text \<open>The two constructors of \<^verbatim>\<open>QueryResult\<close>.\<close>

definition QueryResult_message :: "bool \<Rightarrow> string \<Rightarrow> QueryResult" where
  "QueryResult_message success error_message =
     \<lparr>qr_success = success, qr_error_message = error_message,
      qr_blocks = [], qr_column_names = []\<rparr>"

definition QueryResult_blocks :: "Block list \<Rightarrow> string list \<Rightarrow> QueryResult" where
  "QueryResult_blocks blocks column_names =
     \<lparr>qr_success = True, qr_error_message = [],
      qr_blocks = blocks, qr_column_names = column_names\<rparr>"

definition rowCount :: "QueryResult \<Rightarrow> nat" where
  "rowCount result = sum_list (map getRowCount (qr_blocks result))"

definition columnCount :: "QueryResult \<Rightarrow> nat" where
  "columnCount result = length (qr_column_names result)"

text \<open>
  The registry \<^verbatim>\<open>tables_\<close>. A step of a statement has three outcomes: an exception
  leaves the function (\<open>Inl e\<close>), the function returns a result early
  (\<open>Inr (Inl result)\<close>), or it goes on with a value (\<open>Inr (Inr x)\<close>).
  \<^verbatim>\<open>catch (const std::exception&)\<close> turns an exception into an early result;
  undefined behaviour is not an exception and is not caught.
\<close>

type_synonym tables = "string \<rightharpoonup> MemoryStorage"

definition catch_exception ::
  "error + 'a \<Rightarrow> (error \<Rightarrow> QueryResult) \<Rightarrow> error + (QueryResult + 'a)" where
  "catch_exception body handler =
     (case body of
        Inl e \<Rightarrow> if e = undefined_behaviour then Inl e else Inr (Inl (handler e))
      | Inr x \<Rightarrow> Inr (Inr x))"

subsection \<open>CREATE TABLE\<close>

fun add_column_definitions ::
  "TableStructure \<Rightarrow> (string \<times> string) list \<Rightarrow> QueryResult + TableStructure" where
  "add_column_definitions st [] = Inr st"
| "add_column_definitions st ((col_name, type_name) # rest) =
     (case createDataType type_name of
        Inl e \<Rightarrow>
          Inl (QueryResult_message False
                 (''Error creating column '' @ sq @ col_name @ sq @ '': '' @ what e))
      | Inr data_type \<Rightarrow>
          add_column_definitions (TableStructure_addColumn st col_name data_type) rest)"

definition executeCreateTable :: "tables \<Rightarrow> CreateTableAST \<Rightarrow> QueryResult \<times> tables" where
  "executeCreateTable tables ast =
     (let table_name = ct_table_name ast in
      if tables table_name \<noteq> None
      then (QueryResult_message False
              (''Table '' @ sq @ table_name @ sq @ '' already exists''), tables)
      else (case add_column_definitions (TableStructure_new table_name) (ct_columns ast) of
              Inl result \<Rightarrow> (result, tables)
            | Inr st \<Rightarrow>
                (case createStorage (ct_engine ast) table_name st of
                   Inl e \<Rightarrow>
                     (QueryResult_message False
                        (''Error creating storage engine: '' @ what e), tables)
                 | Inr storage \<Rightarrow>
                     (QueryResult_message True ''Table created successfully'',
                      tables(table_name \<mapsto> storage)))))"

subsection \<open>INSERT\<close>

text \<open>The \<^verbatim>\<open>switch\<close> that makes an empty \<^verbatim>\<open>ColumnVector<T>\<close> for a schema type.\<close>

definition make_column :: "IDataType \<Rightarrow> IColumn option" where
  "make_column type =
     (case getTypeId type of
        Int8 \<Rightarrow> Some (ColumnVector (V_int8 []) type)
      | Int16 \<Rightarrow> Some (ColumnVector (V_int16 []) type)
      | Int32 \<Rightarrow> Some (ColumnVector (V_int32 []) type)
      | Int64 \<Rightarrow> Some (ColumnVector (V_int64 []) type)
      | UInt8 \<Rightarrow> Some (ColumnVector (V_uint8 []) type)
      | UInt16 \<Rightarrow> Some (ColumnVector (V_uint16 []) type)
      | UInt32 \<Rightarrow> Some (ColumnVector (V_uint32 []) type)
      | UInt64 \<Rightarrow> Some (ColumnVector (V_uint64 []) type)
      | Float32 \<Rightarrow> Some (ColumnVector (V_float []) type)
      | Float64 \<Rightarrow> Some (ColumnVector (V_double []) type)
      | String \<Rightarrow> Some (ColumnVector (V_string []) type)
      | _ \<Rightarrow> None)"

definition unsupported_column :: "string \<Rightarrow> QueryResult" where
  "unsupported_column col_name =
     QueryResult_message False (''Unsupported data type for column '' @ sq @ col_name @ sq)"

fun create_columns ::
  "TableStructure \<Rightarrow> string list \<Rightarrow> error + (QueryResult + IColumn list)" where
  "create_columns st [] = Inr (Inr [])"
| "create_columns st (col_name # rest) =
     (case TableStructure_getColumnByName st col_name of
        Inl e \<Rightarrow> Inl e
      | Inr col_def \<Rightarrow>
          (case make_column (cd_type col_def) of
             None \<Rightarrow> Inr (Inl (unsupported_column col_name))
           | Some column \<Rightarrow>
               (case create_columns st rest of
                  Inl e \<Rightarrow> Inl e
                | Inr (Inl result) \<Rightarrow> Inr (Inl result)
                | Inr (Inr columns) \<Rightarrow> Inr (Inr (column # columns)))))"

text \<open>
  The conversion of one textual value for a schema type: \<open>None\<close> is the
  \<^verbatim>\<open>default\<close> branch, otherwise the value as a field or the exception of the
  conversion. \<^verbatim>\<open>static_cast<int8_t>(std::stoi(s))\<close> keeps the low bits.
\<close>

definition convert_value :: "platform \<Rightarrow> DataTypeID \<Rightarrow> string \<Rightarrow> (error + Field) option" where
  "convert_value P type_id value_str =
     (case type_id of
        Int8 \<Rightarrow> Some (map_sum id (\<lambda>v. F_int8 (ucast v)) (stoi P value_str))
      | Int16 \<Rightarrow> Some (map_sum id (\<lambda>v. F_int16 (ucast v)) (stoi P value_str))
      | Int32 \<Rightarrow> Some (map_sum id F_int32 (stoi P value_str))
      | Int64 \<Rightarrow> Some (map_sum id F_int64 (stoll P value_str))
      | UInt8 \<Rightarrow> Some (map_sum id (\<lambda>v. F_uint8 (ucast v)) (stoul P value_str))
      | UInt16 \<Rightarrow> Some (map_sum id (\<lambda>v. F_uint16 (ucast v)) (stoul P value_str))
      | UInt32 \<Rightarrow> Some (map_sum id (\<lambda>v. F_uint32 (ucast v)) (stoul P value_str))
      | UInt64 \<Rightarrow> Some (map_sum id F_uint64 (stoull P value_str))
      | Float32 \<Rightarrow> Some (map_sum id F_float (stof P value_str))
      | Float64 \<Rightarrow> Some (map_sum id F_double (stod P value_str))
      | String \<Rightarrow> Some (Inr (F_string value_str))
      | _ \<Rightarrow> None)"

text \<open>
  \<^verbatim>\<open>static_cast<ColumnVector<T>&>(*columns[i]).insertValue(v)\<close>: the value is appended
  when the column is a \<^verbatim>\<open>ColumnVector<T>\<close>; the cast is undefined otherwise.
\<close>

definition V_push_back :: "VectorData \<Rightarrow> Field \<Rightarrow> VectorData option" where
  "V_push_back data v =
     (case data of
        V_int8 d \<Rightarrow> (case v of F_int8 x \<Rightarrow> Some (V_int8 (d @ [x])) | _ \<Rightarrow> None)
      | V_int16 d \<Rightarrow> (case v of F_int16 x \<Rightarrow> Some (V_int16 (d @ [x])) | _ \<Rightarrow> None)
      | V_int32 d \<Rightarrow> (case v of F_int32 x \<Rightarrow> Some (V_int32 (d @ [x])) | _ \<Rightarrow> None)
      | V_int64 d \<Rightarrow> (case v of F_int64 x \<Rightarrow> Some (V_int64 (d @ [x])) | _ \<Rightarrow> None)
      | V_uint8 d \<Rightarrow> (case v of F_uint8 x \<Rightarrow> Some (V_uint8 (d @ [x])) | _ \<Rightarrow> None)
      | V_uint16 d \<Rightarrow> (case v of F_uint16 x \<Rightarrow> Some (V_uint16 (d @ [x])) | _ \<Rightarrow> None)
      | V_uint32 d \<Rightarrow> (case v of F_uint32 x \<Rightarrow> Some (V_uint32 (d @ [x])) | _ \<Rightarrow> None)
      | V_uint64 d \<Rightarrow> (case v of F_uint64 x \<Rightarrow> Some (V_uint64 (d @ [x])) | _ \<Rightarrow> None)
      | V_float d \<Rightarrow> (case v of F_float x \<Rightarrow> Some (V_float (d @ [x])) | _ \<Rightarrow> None)
      | V_double d \<Rightarrow> (case v of F_double x \<Rightarrow> Some (V_double (d @ [x])) | _ \<Rightarrow> None)
      | V_string d \<Rightarrow> (case v of F_string x \<Rightarrow> Some (V_string (d @ [x])) | _ \<Rightarrow> None))"

definition insertValue :: "IColumn \<Rightarrow> Field \<Rightarrow> error + IColumn" where
  "insertValue column v =
     (case column of
        ColumnVector data type \<Rightarrow>
          (case V_push_back data v of
             None \<Rightarrow> Inl undefined_behaviour
           | Some data' \<Rightarrow> Inr (ColumnVector data' type))
      | ColumnNullable _ _ _ \<Rightarrow> Inl undefined_behaviour)"

definition conversion_error :: "string \<Rightarrow> string \<Rightarrow> error \<Rightarrow> QueryResult" where
  "conversion_error value_str col_name e =
     QueryResult_message False
       (''Error converting value '' @ sq @ value_str @ sq @ '' for column '' @ sq @ col_name @ sq
          @ '': '' @ what e)"

text \<open>
  The inner loop \<^verbatim>\<open>for (size_t i = 0; i < row.size(); ++i)\<close>: the values of the row
  still to come, the index \<open>i\<close> of the first of them, and the columns so far.
\<close>

fun fill_row ::
  "platform \<Rightarrow> TableStructure \<Rightarrow> string list \<Rightarrow> string list \<Rightarrow> nat \<Rightarrow> IColumn list
     \<Rightarrow> error + (QueryResult + IColumn list)" where
  "fill_row P st column_names [] i columns = Inr (Inr columns)"
| "fill_row P st column_names (value_str # rest) i columns =
     (if \<not> i < length column_names \<or> \<not> i < length columns then Inl undefined_behaviour
      else
        let col_name = column_names ! i in
        (case TableStructure_getColumnByName st col_name of
           Inl e \<Rightarrow> Inl e
         | Inr col_def \<Rightarrow>
             (case convert_value P (getTypeId (cd_type col_def)) value_str of
                None \<Rightarrow> Inr (Inl (unsupported_column col_name))
              | Some (Inl e) \<Rightarrow> Inr (Inl (conversion_error value_str col_name e))
              | Some (Inr v) \<Rightarrow>
                  (case insertValue (columns ! i) v of
                     Inl e \<Rightarrow> Inl e
                   | Inr column \<Rightarrow>
                       fill_row P st column_names rest (Suc i) (columns[i := column])))))"

fun fill_rows ::
  "platform \<Rightarrow> TableStructure \<Rightarrow> string list \<Rightarrow> string list list \<Rightarrow> IColumn list
     \<Rightarrow> error + (QueryResult + IColumn list)" where
  "fill_rows P st column_names [] columns = Inr (Inr columns)"
| "fill_rows P st column_names (row # rest) columns =
     (case fill_row P st column_names row 0 columns of
        Inl e \<Rightarrow> Inl e
      | Inr (Inl result) \<Rightarrow> Inr (Inl result)
      | Inr (Inr columns') \<Rightarrow> fill_rows P st column_names rest columns')"

text \<open>
  The block holds pointers to the columns that the fill loop then grows, so after the
  loop it is the block of the filled columns under the target names, added in order.
\<close>

definition make_block :: "string list \<Rightarrow> IColumn list \<Rightarrow> Block" where
  "make_block column_names columns =
     foldl (\<lambda>block (col_name, column). addColumn block col_name column) Block_empty
       (zip column_names columns)"

function to_decimal :: "nat \<Rightarrow> string" where
  "to_decimal n =
     (if n < 10 then [char_of (48 + n)]
      else to_decimal (n div 10) @ [char_of (48 + n mod 10)])"
  by pat_completeness auto
termination
  by (relation "measure id") auto

declare to_decimal.simps [simp del]

definition table_missing :: "string \<Rightarrow> QueryResult" where
  "table_missing table_name =
     QueryResult_message False (''Table '' @ sq @ table_name @ sq @ '' doesn't exist'')"

definition column_missing :: "string \<Rightarrow> QueryResult" where
  "column_missing col_name =
     QueryResult_message False
       (''Column '' @ sq @ col_name @ sq @ '' doesn't exist in table'')"

definition executeInsert ::
  "platform \<Rightarrow> tables \<Rightarrow> InsertAST \<Rightarrow> error + (QueryResult \<times> tables)" where
  "executeInsert P tables ast =
     (let table_name = ins_table_name ast in
      case tables table_name of
        None \<Rightarrow> Inr (table_missing table_name, tables)
      | Some storage \<Rightarrow>
          let st = ms_structure storage;
              column_names =
                (if ins_column_names ast = [] then map cd_name (ts_columns st)
                 else ins_column_names ast)
          in
          (case (if ins_column_names ast = [] then None
                 else find (\<lambda>col_name. \<not> hasColumn st col_name) column_names) of
             Some col_name \<Rightarrow> Inr (column_missing col_name, tables)
           | None \<Rightarrow>
               if ins_values ast = []
               then Inr (QueryResult_message False ''No values to insert'', tables)
               else if list_ex (\<lambda>row. length row \<noteq> length column_names) (ins_values ast)
               then Inr (QueryResult_message False
                           ''Values count doesn't match columns count'', tables)
               else
                 (case create_columns st column_names of
                    Inl e \<Rightarrow> Inl e
                  | Inr (Inl result) \<Rightarrow> Inr (result, tables)
                  | Inr (Inr columns) \<Rightarrow>
                      (case fill_rows P st column_names (ins_values ast) columns of
                         Inl e \<Rightarrow> Inl e
                       | Inr (Inl result) \<Rightarrow> Inr (result, tables)
                       | Inr (Inr columns') \<Rightarrow>
                           (case catch_exception
                                   (MemoryStorage_insert storage
                                      (make_block column_names columns'))
                                   (\<lambda>e. QueryResult_message False
                                           (''Error inserting data: '' @ what e)) of
                              Inl e \<Rightarrow> Inl e
                            | Inr (Inl result) \<Rightarrow> Inr (result, tables)
                            | Inr (Inr storage') \<Rightarrow>
                                Inr (QueryResult_message True
                                       (to_decimal (length (ins_values ast))
                                          @ '' row(s) inserted successfully''),
                                     tables(table_name \<mapsto> storage')))))))"

subsection \<open>Aggregate functions\<close>

definition getAggregateFunctionName :: "AggregateFunctionType \<Rightarrow> string" where
  "getAggregateFunctionName type =
     (case type of
        Agg_COUNT \<Rightarrow> ''COUNT'' | Agg_SUM \<Rightarrow> ''SUM'' | Agg_AVG \<Rightarrow> ''AVG''
      | Agg_MIN \<Rightarrow> ''MIN'' | Agg_MAX \<Rightarrow> ''MAX'' | Agg_NONE \<Rightarrow> [])"

text \<open>
  The template parameter \<open>T\<close> (and \<open>ValueT\<close>) of the aggregate templates is given by
  the \<^verbatim>\<open>DataTypeID\<close> it is instantiated for. \<^verbatim>\<open>Field::get<ValueT>()\<close> is
  \<^verbatim>\<open>std::get<ValueT>\<close>: it throws when the field holds another alternative.
\<close>

definition Field_get :: "DataTypeID \<Rightarrow> Field \<Rightarrow> error + Field" where
  "Field_get ValueT field =
     (if Field_getTypeId field = ValueT then Inr field else Inl bad_variant_access)"

definition is_signed_integral :: "DataTypeID \<Rightarrow> bool" where
  "is_signed_integral T = (T = Int8 \<or> T = Int16 \<or> T = Int32 \<or> T = Int64)"

definition is_unsigned_integral :: "DataTypeID \<Rightarrow> bool" where
  "is_unsigned_integral T = (T = UInt8 \<or> T = UInt16 \<or> T = UInt32 \<or> T = UInt64)"

definition is_floating_point :: "DataTypeID \<Rightarrow> bool" where
  "is_floating_point T = (T = Float32 \<or> T = Float64)"

definition is_arithmetic :: "DataTypeID \<Rightarrow> bool" where
  "is_arithmetic T = (is_signed_integral T \<or> is_unsigned_integral T \<or> is_floating_point T)"

text \<open>
  \<^verbatim>\<open>static_cast<ResultT>(v)\<close> for the three result types of the sums. All three are
  64 bits wide; the result is the value of an \<^verbatim>\<open>int64_t\<close> or \<^verbatim>\<open>uint64_t\<close>, or the
  bit pattern of a \<^verbatim>\<open>double\<close>. The last equation of each function is never reached:
  the template is not instantiated there.
\<close>

fun cast_int64 :: "Field \<Rightarrow> 64 word" where
  "cast_int64 (F_int8 v) = scast v"
| "cast_int64 (F_int16 v) = scast v"
| "cast_int64 (F_int32 v) = scast v"
| "cast_int64 (F_int64 v) = v"
| "cast_int64 _ = 0"

fun cast_uint64 :: "Field \<Rightarrow> 64 word" where
  "cast_uint64 (F_uint8 v) = ucast v"
| "cast_uint64 (F_uint16 v) = ucast v"
| "cast_uint64 (F_uint32 v) = ucast v"
| "cast_uint64 (F_uint64 v) = v"
| "cast_uint64 _ = 0"

fun cast_double :: "platform \<Rightarrow> Field \<Rightarrow> 64 word" where
  "cast_double P (F_int8 v) = f64_of_int P (sint v)"
| "cast_double P (F_int16 v) = f64_of_int P (sint v)"
| "cast_double P (F_int32 v) = f64_of_int P (sint v)"
| "cast_double P (F_int64 v) = f64_of_int P (sint v)"
| "cast_double P (F_uint8 v) = f64_of_int P (uint v)"
| "cast_double P (F_uint16 v) = f64_of_int P (uint v)"
| "cast_double P (F_uint32 v) = f64_of_int P (uint v)"
| "cast_double P (F_uint64 v) = f64_of_int P (uint v)"
| "cast_double P (F_float v) = f64_of_f32 P v"
| "cast_double P (F_double v) = v"
| "cast_double P _ = 0"

text \<open>
  The shape shared by the five accumulators: for every block that has a column and a
  row, look the column up by name (this throws when the block lacks it) and visit its
  entries from index 0.
\<close>

fun fold_entries ::
  "(Field \<Rightarrow> 's \<Rightarrow> error + 's) \<Rightarrow> IColumn \<Rightarrow> nat list \<Rightarrow> 's \<Rightarrow> error + 's" where
  "fold_entries step column [] acc = Inr acc"
| "fold_entries step column (i # rest) acc =
     (case IColumn_at column i of
        Inl e \<Rightarrow> Inl e
      | Inr field \<Rightarrow>
          (case step field acc of
             Inl e \<Rightarrow> Inl e
           | Inr acc' \<Rightarrow> fold_entries step column rest acc'))"

fun fold_blocks ::
  "(Field \<Rightarrow> 's \<Rightarrow> error + 's) \<Rightarrow> Block list \<Rightarrow> string \<Rightarrow> 's \<Rightarrow> error + 's" where
  "fold_blocks step [] column_name acc = Inr acc"
| "fold_blocks step (block # rest) column_name acc =
     (if getColumnCount block = 0 \<or> getRowCount block = 0
      then fold_blocks step rest column_name acc
      else
        (case getColumnByName block column_name of
           Inl e \<Rightarrow> Inl e
         | Inr col \<Rightarrow>
             (case fold_entries step (cw_column col)
                     [0..<IColumn_size (cw_column col)] acc of
                Inl e \<Rightarrow> Inl e
              | Inr acc' \<Rightarrow> fold_blocks step rest column_name acc')))"

definition computeCount :: "Block list \<Rightarrow> string \<Rightarrow> error + 64 word" where
  "computeCount blocks column_name =
     fold_blocks (\<lambda>field count. Inr (if \<not> isNull field then count + 1 else count))
       blocks column_name 0"

datatype ResultT = R_int64 | R_uint64 | R_double

definition static_cast :: "platform \<Rightarrow> ResultT \<Rightarrow> Field \<Rightarrow> 64 word" where
  "static_cast P R v =
     (case R of R_int64 \<Rightarrow> cast_int64 v | R_uint64 \<Rightarrow> cast_uint64 v
      | R_double \<Rightarrow> cast_double P v)"

definition plus_result :: "platform \<Rightarrow> ResultT \<Rightarrow> 64 word \<Rightarrow> 64 word \<Rightarrow> 64 word" where
  "plus_result P R a b = (case R of R_double \<Rightarrow> f64_add P a b | _ \<Rightarrow> a + b)"

definition computeSum ::
  "platform \<Rightarrow> ResultT \<Rightarrow> DataTypeID \<Rightarrow> Block list \<Rightarrow> string \<Rightarrow> error + 64 word" where
  "computeSum P R ValueT blocks column_name =
     fold_blocks
       (\<lambda>field running_sum.
          if \<not> isNull field
          then (case Field_get ValueT field of
                  Inl e \<Rightarrow> Inl e
                | Inr v \<Rightarrow> Inr (plus_result P R running_sum (static_cast P R v)))
          else Inr running_sum)
       blocks column_name 0"

definition computeAvg ::
  "platform \<Rightarrow> DataTypeID \<Rightarrow> Block list \<Rightarrow> string \<Rightarrow> error + 64 word" where
  "computeAvg P ValueT blocks column_name =
     (case fold_blocks
             (\<lambda>field (running_sum, count).
                if \<not> isNull field
                then (case Field_get ValueT field of
                        Inl e \<Rightarrow> Inl e
                      | Inr v \<Rightarrow> Inr (f64_add P running_sum (cast_double P v), Suc count))
                else Inr (running_sum, count))
             blocks column_name (0, 0::nat) of
        Inl e \<Rightarrow> Inl e
      | Inr (running_sum, count) \<Rightarrow>
          Inr (if count > 0 then f64_div P running_sum (f64_of_int P (int count)) else 0))"

text \<open>
  \<open>MIN\<close> and \<open>MAX\<close> keep the element type. \<open>zero_value T\<close> is the initial
  \<^verbatim>\<open>ResultT min_value = 0\<close>; \<open>value_less\<close> is \<^verbatim>\<open><\<close> on two values of one type.
\<close>

definition zero_value :: "DataTypeID \<Rightarrow> Field" where
  "zero_value T =
     (case T of
        Int8 \<Rightarrow> F_int8 0 | Int16 \<Rightarrow> F_int16 0 | Int32 \<Rightarrow> F_int32 0 | Int64 \<Rightarrow> F_int64 0
      | UInt8 \<Rightarrow> F_uint8 0 | UInt16 \<Rightarrow> F_uint16 0 | UInt32 \<Rightarrow> F_uint32 0
      | UInt64 \<Rightarrow> F_uint64 0
      | Float32 \<Rightarrow> F_float 0 | Float64 \<Rightarrow> F_double 0
      | _ \<Rightarrow> F_monostate)"

definition value_less :: "platform \<Rightarrow> Field \<Rightarrow> Field \<Rightarrow> bool" where
  "value_less P x y =
     (case x of
        F_int8 a \<Rightarrow> (case y of F_int8 b \<Rightarrow> sint a < sint b | _ \<Rightarrow> False)
      | F_int16 a \<Rightarrow> (case y of F_int16 b \<Rightarrow> sint a < sint b | _ \<Rightarrow> False)
      | F_int32 a \<Rightarrow> (case y of F_int32 b \<Rightarrow> sint a < sint b | _ \<Rightarrow> False)
      | F_int64 a \<Rightarrow> (case y of F_int64 b \<Rightarrow> sint a < sint b | _ \<Rightarrow> False)
      | F_uint8 a \<Rightarrow> (case y of F_uint8 b \<Rightarrow> a < b | _ \<Rightarrow> False)
      | F_uint16 a \<Rightarrow> (case y of F_uint16 b \<Rightarrow> a < b | _ \<Rightarrow> False)
      | F_uint32 a \<Rightarrow> (case y of F_uint32 b \<Rightarrow> a < b | _ \<Rightarrow> False)
      | F_uint64 a \<Rightarrow> (case y of F_uint64 b \<Rightarrow> a < b | _ \<Rightarrow> False)
      | F_float a \<Rightarrow> (case y of F_float b \<Rightarrow> f32_less P a b | _ \<Rightarrow> False)
      | F_double a \<Rightarrow> (case y of F_double b \<Rightarrow> f64_less P a b | _ \<Rightarrow> False)
      | _ \<Rightarrow> False)"

definition computeMin ::
  "platform \<Rightarrow> DataTypeID \<Rightarrow> Block list \<Rightarrow> string \<Rightarrow> error + Field" where
  "computeMin P ValueT blocks column_name =
     (if blocks = [] then Inl (runtime_error ''No data to compute minimum'')
      else
        (case fold_blocks
                (\<lambda>field (found_value, min_value).
                   if \<not> isNull field
                   then (case Field_get ValueT field of
                           Inl e \<Rightarrow> Inl e
                         | Inr current \<Rightarrow>
                             Inr (if \<not> found_value \<or> value_less P current min_value
                                  then (True, current) else (found_value, min_value)))
                   else Inr (found_value, min_value))
                blocks column_name (False, zero_value ValueT) of
           Inl e \<Rightarrow> Inl e
         | Inr (found_value, min_value) \<Rightarrow>
             if \<not> found_value
             then Inl (runtime_error ''No non-NULL values found for MIN calculation'')
             else Inr min_value))"

definition computeMax ::
  "platform \<Rightarrow> DataTypeID \<Rightarrow> Block list \<Rightarrow> string \<Rightarrow> error + Field" where
  "computeMax P ValueT blocks column_name =
     (if blocks = [] then Inl (runtime_error ''No data to compute maximum'')
      else
        (case fold_blocks
                (\<lambda>field (found_value, max_value).
                   if \<not> isNull field
                   then (case Field_get ValueT field of
                           Inl e \<Rightarrow> Inl e
                         | Inr current \<Rightarrow>
                             Inr (if \<not> found_value \<or> value_less P max_value current
                                  then (True, current) else (found_value, max_value)))
                   else Inr (found_value, max_value))
                blocks column_name (False, zero_value ValueT) of
           Inl e \<Rightarrow> Inl e
         | Inr (found_value, max_value) \<Rightarrow>
             if \<not> found_value
             then Inl (runtime_error ''No non-NULL values found for MAX calculation'')
             else Inr max_value))"

text \<open>
  The one-row result column of \<open>MIN\<close> and \<open>MAX\<close>:
  \<^verbatim>\<open>ColumnVector<T>(std::make_shared<DataTypeT>())\<close> with the value inserted.
\<close>

fun result_column :: "Field \<Rightarrow> IColumn option" where
  "result_column (F_int8 v) = Some (ColumnVector (V_int8 [v]) DataTypeInt8)"
| "result_column (F_int16 v) = Some (ColumnVector (V_int16 [v]) DataTypeInt16)"
| "result_column (F_int32 v) = Some (ColumnVector (V_int32 [v]) DataTypeInt32)"
| "result_column (F_int64 v) = Some (ColumnVector (V_int64 [v]) DataTypeInt64)"
| "result_column (F_uint8 v) = Some (ColumnVector (V_uint8 [v]) DataTypeUInt8)"
| "result_column (F_uint16 v) = Some (ColumnVector (V_uint16 [v]) DataTypeUInt16)"
| "result_column (F_uint32 v) = Some (ColumnVector (V_uint32 [v]) DataTypeUInt32)"
| "result_column (F_uint64 v) = Some (ColumnVector (V_uint64 [v]) DataTypeUInt64)"
| "result_column (F_float v) = Some (ColumnVector (V_float [v]) DataTypeFloat32)"
| "result_column (F_double v) = Some (ColumnVector (V_double [v]) DataTypeFloat64)"
| "result_column _ = None"

definition result_name :: "ColumnExpression \<Rightarrow> string" where
  "result_name col_expr =
     (if ce_alias col_expr = []
      then getAggregateFunctionName (ce_agg_type col_expr) @ ''('' @ ce_column col_expr @ '')''
      else ce_alias col_expr)"

definition computeAggregate ::
  "platform \<Rightarrow> DataTypeID \<Rightarrow> ColumnExpression \<Rightarrow> Block list \<Rightarrow> error + (string \<times> IColumn)"
  where
  "computeAggregate P T col_expr blocks =
     (case ce_agg_type col_expr of
        Agg_COUNT \<Rightarrow>
          (case (if ce_column col_expr = ''*''
                 then Inr (word_of_nat (sum_list (map getRowCount blocks)))
                 else computeCount blocks (ce_column col_expr)) of
             Inl e \<Rightarrow> Inl e
           | Inr count \<Rightarrow>
               Inr (result_name col_expr, ColumnVector (V_uint64 [count]) DataTypeUInt64))
      | Agg_SUM \<Rightarrow>
          if is_signed_integral T
          then (case computeSum P R_int64 T blocks (ce_column col_expr) of
                  Inl e \<Rightarrow> Inl e
                | Inr running_sum \<Rightarrow>
                    Inr (result_name col_expr, ColumnVector (V_int64 [running_sum]) DataTypeInt64))
          else if is_unsigned_integral T
          then (case computeSum P R_uint64 T blocks (ce_column col_expr) of
                  Inl e \<Rightarrow> Inl e
                | Inr running_sum \<Rightarrow>
                    Inr (result_name col_expr, ColumnVector (V_uint64 [running_sum]) DataTypeUInt64))
          else if is_floating_point T
          then (case computeSum P R_double T blocks (ce_column col_expr) of
                  Inl e \<Rightarrow> Inl e
                | Inr running_sum \<Rightarrow>
                    Inr (result_name col_expr, ColumnVector (V_double [running_sum]) DataTypeFloat64))
          else Inl (runtime_error ''SUM doesn't support this data type'')
      | Agg_AVG \<Rightarrow>
          if is_arithmetic T
          then (case computeAvg P T blocks (ce_column col_expr) of
                  Inl e \<Rightarrow> Inl e
                | Inr avg \<Rightarrow>
                    Inr (result_name col_expr, ColumnVector (V_double [avg]) DataTypeFloat64))
          else Inl (runtime_error ''AVG doesn't support this data type'')
      | Agg_MIN \<Rightarrow>
          if is_arithmetic T
          then (case computeMin P T blocks (ce_column col_expr) of
                  Inl e \<Rightarrow> Inl e
                | Inr m \<Rightarrow>
                    (case result_column m of
                       None \<Rightarrow> Inl undefined_behaviour
                     | Some column \<Rightarrow> Inr (result_name col_expr, column)))
          else Inl (runtime_error ''MIN doesn't support this data type'')
      | Agg_MAX \<Rightarrow>
          if is_arithmetic T
          then (case computeMax P T blocks (ce_column col_expr) of
                  Inl e \<Rightarrow> Inl e
                | Inr m \<Rightarrow>
                    (case result_column m of
                       None \<Rightarrow> Inl undefined_behaviour
                     | Some column \<Rightarrow> Inr (result_name col_expr, column)))
          else Inl (runtime_error ''MAX doesn't support this data type'')
      | Agg_NONE \<Rightarrow> Inl (runtime_error ''Unsupported aggregate function''))"

subsection \<open>SELECT\<close>

text \<open>
  The first loop of \<^verbatim>\<open>executeSelect\<close>: the names to read and whether an aggregate
  occurs. \<^verbatim>\<open>structure.getColumnByIndex(0)\<close> is undefined on a schema without columns.
\<close>

fun resolve_columns ::
  "TableStructure \<Rightarrow> ColumnExpression list \<Rightarrow> string list \<Rightarrow> bool
     \<Rightarrow> error + (QueryResult + string list \<times> bool)" where
  "resolve_columns st [] column_names has_aggregates =
     Inr (Inr (column_names, has_aggregates))"
| "resolve_columns st (col_expr # rest) column_names has_aggregates =
     (if ce_agg_type col_expr \<noteq> Agg_NONE
      then
        (if ce_agg_type col_expr = Agg_COUNT \<and> ce_column col_expr = ''*''
         then (case TableStructure_getColumnByIndex st 0 of
                 Inl e \<Rightarrow> Inl e
               | Inr first \<Rightarrow> resolve_columns st rest (column_names @ [cd_name first]) True)
         else if \<not> hasColumn st (ce_column col_expr)
         then Inr (Inl (column_missing (ce_column col_expr)))
         else resolve_columns st rest (column_names @ [ce_column col_expr]) True)
      else if \<not> hasColumn st (ce_column col_expr)
      then Inr (Inl (column_missing (ce_column col_expr)))
      else resolve_columns st rest (column_names @ [ce_column col_expr]) has_aggregates)"

text \<open>The \<^verbatim>\<open>switch (type_id)\<close> of the aggregate path.\<close>

definition aggregate_dispatch ::
  "platform \<Rightarrow> DataTypeID \<Rightarrow> ColumnExpression \<Rightarrow> Block list
     \<Rightarrow> error + (QueryResult + string \<times> IColumn)" where
  "aggregate_dispatch P type_id col_expr blocks =
     (let compute = (case computeAggregate P type_id col_expr blocks of
                       Inl e \<Rightarrow> Inl e
                     | Inr agg_result \<Rightarrow> Inr (Inr agg_result))
      in case type_id of
           Int8 \<Rightarrow> compute | Int16 \<Rightarrow> compute | Int32 \<Rightarrow> compute | Int64 \<Rightarrow> compute
         | UInt8 \<Rightarrow> compute | UInt16 \<Rightarrow> compute | UInt32 \<Rightarrow> compute | UInt64 \<Rightarrow> compute
         | Float32 \<Rightarrow> compute | Float64 \<Rightarrow> compute
         | String \<Rightarrow>
             if ce_agg_type col_expr \<noteq> Agg_COUNT
             then Inr (Inl (QueryResult_message False
                              (''Aggregate function ''
                                 @ getAggregateFunctionName (ce_agg_type col_expr)
                                 @ '' not supported for String type'')))
             else compute
         | _ \<Rightarrow> Inr (Inl (QueryResult_message False
                             ''Unsupported data type for aggregate function'')))"

fun aggregate_columns ::
  "platform \<Rightarrow> TableStructure \<Rightarrow> Block list \<Rightarrow> ColumnExpression list \<Rightarrow> Block \<Rightarrow> string list
     \<Rightarrow> error + (QueryResult + Block \<times> string list)" where
  "aggregate_columns P st blocks [] agg_block result_column_names =
     Inr (Inr (agg_block, result_column_names))"
| "aggregate_columns P st blocks (col_expr # rest) agg_block result_column_names =
     (let col_name =
            (if ce_alias col_expr = []
             then (if ce_agg_type col_expr \<noteq> Agg_NONE
                   then getAggregateFunctionName (ce_agg_type col_expr)
                          @ ''('' @ ce_column col_expr @ '')''
                   else ce_column col_expr)
             else ce_alias col_expr)
      in
      if ce_agg_type col_expr \<noteq> Agg_NONE
      then
        (case (if ce_column col_expr = ''*'' \<and> ce_agg_type col_expr = Agg_COUNT
               then Inr UInt64
               else (case TableStructure_getColumnByName st (ce_column col_expr) of
                       Inl e \<Rightarrow> Inl e
                     | Inr col_def \<Rightarrow> Inr (getTypeId (cd_type col_def)))) of
           Inl e \<Rightarrow> Inl e
         | Inr type_id \<Rightarrow>
             (case aggregate_dispatch P type_id col_expr blocks of
                Inl e \<Rightarrow> Inl e
              | Inr (Inl result) \<Rightarrow> Inr (Inl result)
              | Inr (Inr agg_result) \<Rightarrow>
                  aggregate_columns P st blocks rest
                    (addColumn agg_block col_name (snd agg_result))
                    (result_column_names @ [col_name])))
      else aggregate_columns P st blocks rest agg_block result_column_names)"

text \<open>
  \<open>LIMIT\<close>: \<^verbatim>\<open>while (new_column->size() > remaining) new_column->popBack();\<close>
\<close>

function truncate_column :: "nat \<Rightarrow> IColumn \<Rightarrow> error + IColumn" where
  "truncate_column remaining new_column =
     (if IColumn_size new_column > remaining
      then (case popBack new_column of
              Inl e \<Rightarrow> Inl e
            | Inr popped \<Rightarrow> truncate_column remaining popped)
      else Inr new_column)"
  by pat_completeness auto
termination
proof (relation "measure (\<lambda>(remaining, c). IColumn_size c)")
  show "wf (measure (\<lambda>(remaining, c). IColumn_size c))" by simp
next
  fix remaining :: nat and new_column x2 :: IColumn
  assume "remaining < IColumn_size new_column" and "popBack new_column = Inr x2"
  moreover have "\<And>d. V_size d \<noteq> 0 \<Longrightarrow> V_size (V_pop_back d) < V_size d"
  proof -
    fix d show "V_size d \<noteq> 0 \<Longrightarrow> V_size (V_pop_back d) < V_size d"
      by (cases d) simp_all
  qed
  ultimately have "IColumn_size x2 < IColumn_size new_column"
    by (cases new_column) (auto split: if_splits)
  then show "((remaining, x2), (remaining, new_column))
               \<in> measure (\<lambda>(remaining, c). IColumn_size c)"
    by simp
qed

declare truncate_column.simps [simp del]

fun limit_block :: "nat \<Rightarrow> ColumnWithName list \<Rightarrow> Block \<Rightarrow> error + Block" where
  "limit_block remaining [] limited_block = Inr limited_block"
| "limit_block remaining (col # rest) limited_block =
     (case truncate_column remaining (clone (cw_column col)) of
        Inl e \<Rightarrow> Inl e
      | Inr new_column \<Rightarrow>
          limit_block remaining rest (addColumn limited_block (cw_name col) new_column))"

fun limit_blocks :: "nat \<Rightarrow> Block list \<Rightarrow> error + Block list" where
  "limit_blocks remaining [] = Inr []"
| "limit_blocks remaining (block # rest) =
     (if getRowCount block \<le> remaining
      then (case limit_blocks (remaining - getRowCount block) rest of
              Inl e \<Rightarrow> Inl e
            | Inr limited_blocks \<Rightarrow> Inr (block # limited_blocks))
      else (case limit_block remaining (b_columns block) Block_empty of
              Inl e \<Rightarrow> Inl e
            | Inr limited_block \<Rightarrow> Inr [limited_block]))"

definition apply_limit :: "nat \<Rightarrow> Block list \<Rightarrow> error + Block list" where
  "apply_limit limit blocks =
     (if limit > 0 \<and> blocks \<noteq> []
      then (if sum_list (map getRowCount blocks) > limit
            then limit_blocks limit blocks
            else Inr blocks)
      else Inr blocks)"

definition executeSelect :: "platform \<Rightarrow> tables \<Rightarrow> SelectAST \<Rightarrow> error + QueryResult" where
  "executeSelect P tables ast =
     (let table_name = sel_table_name ast in
      case tables table_name of
        None \<Rightarrow> Inr (table_missing table_name)
      | Some storage \<Rightarrow>
          let st = ms_structure storage in
          (case (if sel_select_all ast
                 then Inr (Inr (map cd_name (ts_columns st), False))
                 else resolve_columns st (sel_columns ast) [] False) of
             Inl e \<Rightarrow> Inl e
           | Inr (Inl result) \<Rightarrow> Inr result
           | Inr (Inr (requested, has_aggregates)) \<Rightarrow>
               let column_names = remdups_adj (sort requested) in
               (case catch_exception (MemoryStorage_read storage column_names)
                       (\<lambda>e. QueryResult_message False
                               (''Error reading data: '' @ what e)) of
                  Inl e \<Rightarrow> Inl e
                | Inr (Inl result) \<Rightarrow> Inr result
                | Inr (Inr blocks) \<Rightarrow>
                    if has_aggregates \<and> blocks \<noteq> []
                    then
                      (case aggregate_columns P st blocks (sel_columns ast) Block_empty [] of
                         Inl e \<Rightarrow> Inl e
                       | Inr (Inl result) \<Rightarrow> Inr result
                       | Inr (Inr (agg_block, result_column_names)) \<Rightarrow>
                           Inr (QueryResult_blocks [agg_block] result_column_names))
                    else
                      let result_column_names =
                            (if sel_select_all ast then map cd_name (ts_columns st)
                             else map (\<lambda>col_expr.
                                         if ce_alias col_expr \<noteq> [] then ce_alias col_expr
                                         else ce_column col_expr) (sel_columns ast))
                      in
                      (case apply_limit (sel_limit ast) blocks of
                         Inl e \<Rightarrow> Inl e
                       | Inr blocks' \<Rightarrow>
                           Inr (QueryResult_blocks blocks' result_column_names)))))"

text \<open>
  \<^verbatim>\<open>SQLExecutor::execute\<close> catches every exception of a statement and returns
  \<^verbatim>\<open>QueryResult(false, e.what())\<close>.
\<close>

definition execute_Select :: "platform \<Rightarrow> tables \<Rightarrow> SelectAST \<Rightarrow> error + QueryResult" where
  "execute_Select P tables ast =
     (case executeSelect P tables ast of
        Inl e \<Rightarrow> if e = undefined_behaviour then Inl e
                 else Inr (QueryResult_message False (what e))
      | Inr result \<Rightarrow> Inr result)"

definition execute_Insert ::
  "platform \<Rightarrow> tables \<Rightarrow> InsertAST \<Rightarrow> error + (QueryResult \<times> tables)" where
  "execute_Insert P tables ast =
     (case executeInsert P tables ast of
        Inl e \<Rightarrow> if e = undefined_behaviour then Inl e
                 else Inr (QueryResult_message False (what e), tables)
      | Inr result \<Rightarrow> Inr result)"

text \<open>A SELECT from the captures of its text to its result.\<close>

definition run_select ::
  "regex_engine \<Rightarrow> platform \<Rightarrow> tables \<Rightarrow> select_match \<Rightarrow> error + QueryResult" where
  "run_select E P tables m =
     (case select_of_match E P m of
        Inl e \<Rightarrow> Inl e
      | Inr ast \<Rightarrow> executeSelect P tables ast)"

section \<open>Words of the claims\<close>

text \<open>
  The row view of a block list, as a consumer reads it: for every block, the rows
  \<open>0 \<dots> getRowCount - 1\<close>, each row the entries of the columns in index order.
  \<open>column_fields\<close> lists the entries \<^verbatim>\<open>operator[]\<close> returns for a column whose
  null map is as long as its values (\<open>column_ok\<close>).
\<close>

fun column_fields :: "IColumn \<Rightarrow> Field list" where
  "column_fields (ColumnVector data type) = V_fields data"
| "column_fields (ColumnNullable nested_column null_map type) =
     map (\<lambda>(is_null, v). if is_null \<noteq> 0 then F_monostate else v)
       (zip null_map (V_fields nested_column))"

fun column_ok :: "IColumn \<Rightarrow> bool" where
  "column_ok (ColumnVector data type) = True"
| "column_ok (ColumnNullable nested_column null_map type) =
     (length null_map = V_size nested_column)"


definition block_rows :: "Block \<Rightarrow> Field list list" where
  "block_rows block =
     map (\<lambda>row. map (\<lambda>c. column_fields (cw_column c) ! row) (b_columns block))
       [0..<getRowCount block]"

definition rows_of :: "Block list \<Rightarrow> Field list list" where
  "rows_of blocks = concat (map block_rows blocks)"





text \<open>The column a block holds under a name, when the lookup by name succeeds.\<close>

definition column_named :: "Block \<Rightarrow> string \<Rightarrow> IColumn option" where
  "column_named block name =
     (case getColumnByName block name of Inl e \<Rightarrow> None | Inr col \<Rightarrow> Some (cw_column col))"

text \<open>
  The result the COUNT claim describes: one block of one column, named \<open>name\<close>, with
  one row holding the count.
\<close>

definition count_result :: "string \<Rightarrow> nat \<Rightarrow> QueryResult" where
  "count_result name n =
     QueryResult_blocks
       [addColumn Block_empty name (ColumnVector (V_uint64 [word_of_nat n]) DataTypeUInt64)]
       [name]"


text \<open>
  A column without a non-null entry in a list of blocks: every block that the
  accumulators visit has the column, and each of its entries reads as null.
\<close>

definition no_non_null :: "Block list \<Rightarrow> string \<Rightarrow> bool" where
  "no_non_null blocks column_name =
     list_all
       (\<lambda>block.
          getColumnCount block = 0 \<or> getRowCount block = 0
          \<or> (case getColumnByName block column_name of
                Inl e \<Rightarrow> False
              | Inr col \<Rightarrow>
                  list_all (\<lambda>i. IColumn_at (cw_column col) i = Inr F_monostate)
                    [0..<IColumn_size (cw_column col)]))
       blocks"

text \<open>
  A stored block that holds the column, every entry of which reads as null (a column
  without rows among them).
\<close>

definition column_all_null :: "Block \<Rightarrow> string \<Rightarrow> bool" where
  "column_all_null block column_name =
     (case column_named block column_name of
        None \<Rightarrow> False
      | Some column \<Rightarrow>
          list_all (\<lambda>i. IColumn_at column i = Inr F_monostate) [0..<IColumn_size column])"

text \<open>
  A block that does not fit a schema, in the three ways the storage engine tests: another
  number of columns, a column whose name the schema does not have, a column whose type
  kind differs from the kind of the schema column of its name.
\<close>

definition block_mismatch :: "TableStructure \<Rightarrow> Block \<Rightarrow> bool" where
  "block_mismatch st block =
     (getColumnCount block \<noteq> TableStructure_getColumnCount st
      \<or> list_ex (\<lambda>c. \<not> hasColumn st (cw_name c)) (b_columns block)
      \<or> list_ex
           (\<lambda>c. case TableStructure_getColumnByName st (cw_name c) of
                  Inl e \<Rightarrow> False
                | Inr table_column \<Rightarrow>
                    getTypeId (getDataType (cw_column c)) \<noteq> getTypeId (cd_type table_column))
           (b_columns block))"

text \<open>The target columns of an INSERT, and the type kind a target name resolves to.\<close>

definition target_columns :: "TableStructure \<Rightarrow> InsertAST \<Rightarrow> string list" where
  "target_columns st ast =
     (if ins_column_names ast = [] then map cd_name (ts_columns st) else ins_column_names ast)"

definition column_kind :: "TableStructure \<Rightarrow> string \<Rightarrow> DataTypeID option" where
  "column_kind st col_name =
     (case TableStructure_getColumnByName st col_name of
        Inl e \<Rightarrow> None
      | Inr col_def \<Rightarrow> Some (getTypeId (cd_type col_def)))"

definition scalar_kind :: "DataTypeID \<Rightarrow> bool" where
  "scalar_kind T = (is_arithmetic T \<or> T = String)"

text \<open>
  The element kind of a vector, and a column that fits the schema entry of a name: a
  \<^verbatim>\<open>ColumnVector<T>\<close> for the scalar kind \<open>T\<close> of the entry, with the entry's
  descriptor.
\<close>

fun V_kind :: "VectorData \<Rightarrow> DataTypeID" where
  "V_kind (V_int8 d) = Int8"
| "V_kind (V_int16 d) = Int16"
| "V_kind (V_int32 d) = Int32"
| "V_kind (V_int64 d) = Int64"
| "V_kind (V_uint8 d) = UInt8"
| "V_kind (V_uint16 d) = UInt16"
| "V_kind (V_uint32 d) = UInt32"
| "V_kind (V_uint64 d) = UInt64"
| "V_kind (V_float d) = Float32"
| "V_kind (V_double d) = Float64"
| "V_kind (V_string d) = String"

definition column_fits :: "TableStructure \<Rightarrow> string \<Rightarrow> IColumn \<Rightarrow> bool" where
  "column_fits st col_name column =
     (case TableStructure_getColumnByName st col_name of
        Inl e \<Rightarrow> False
      | Inr col_def \<Rightarrow>
          (case column of
             ColumnVector data type \<Rightarrow>
               type = cd_type col_def \<and> V_kind data = getTypeId type \<and> scalar_kind (V_kind data)
           | ColumnNullable _ _ _ \<Rightarrow> False))"

text \<open>
  The field a textual value is converted to for a target column, when the conversion
  returns one.
\<close>

definition converted :: "platform \<Rightarrow> TableStructure \<Rightarrow> string \<Rightarrow> string \<Rightarrow> Field option" where
  "converted P st col_name value_str =
     (case column_kind st col_name of
        None \<Rightarrow> None
      | Some T \<Rightarrow>
          (case convert_value P T value_str of
             Some (Inr v) \<Rightarrow> Some v
           | _ \<Rightarrow> None))"

definition conversion_fails :: "platform \<Rightarrow> TableStructure \<Rightarrow> string \<Rightarrow> string \<Rightarrow> error option" where
  "conversion_fails P st col_name value_str =
     (case column_kind st col_name of
        None \<Rightarrow> None
      | Some T \<Rightarrow>
          (case convert_value P T value_str of
             Some (Inl e) \<Rightarrow> Some e
           | _ \<Rightarrow> None))"

text \<open>
  A statement that reaches the construction of the columns: every target name
  resolves, there is a row, and every row has one value per target column.
\<close>

definition insert_well_formed :: "TableStructure \<Rightarrow> InsertAST \<Rightarrow> bool" where
  "insert_well_formed st ast =
     (list_all (\<lambda>c. hasColumn st c \<and> column_kind st c \<noteq> None) (target_columns st ast)
      \<and> ins_values ast \<noteq> []
      \<and> list_all (\<lambda>row. length row = length (target_columns st ast)) (ins_values ast))"

section \<open>A small platform and sample tables\<close>

text \<open>
  To evaluate the model at concrete statements: a platform whose integer conversions
  read a plain run of decimal digits. No floating-point value occurs in the samples,
  so the floating-point fields are placeholders.
\<close>

fun parse_digits :: "string \<Rightarrow> nat \<Rightarrow> nat option" where
  "parse_digits [] acc = Some acc"
| "parse_digits (c # cs) acc =
     (if 48 \<le> (of_char c :: nat) \<and> (of_char c :: nat) \<le> 57
      then parse_digits cs (10 * acc + (of_char c - 48))
      else None)"

definition sample_conversion :: "string \<Rightarrow> nat \<Rightarrow> string \<Rightarrow> error + 'a::len word" where
  "sample_conversion fn bound s =
     (if s = [] then Inl (invalid_argument fn)
      else (case parse_digits s 0 of
              None \<Rightarrow> Inl (invalid_argument fn)
            | Some n \<Rightarrow> if n < bound then Inr (word_of_nat n) else Inl (out_of_range fn)))"

definition sample_platform :: platform where
  "sample_platform =
     \<lparr>stoi = sample_conversion ''stoi'' (2 ^ 31),
      stoll = sample_conversion ''stoll'' (2 ^ 63),
      stoul = sample_conversion ''stoul'' (2 ^ 64),
      stoull = sample_conversion ''stoull'' (2 ^ 64),
      stof = (\<lambda>s. Inl (invalid_argument ''stof'')),
      stod = (\<lambda>s. Inl (invalid_argument ''stod'')),
      f64_add = (\<lambda>a b. 0),
      f64_div = (\<lambda>a b. 0),
      f64_of_int = (\<lambda>i. 0),
      f64_of_f32 = (\<lambda>a. 0),
      f32_less = (\<lambda>a b. False),
      f64_less = (\<lambda>a b. False)\<rparr>"

text \<open>
  \<^verbatim>\<open>CREATE TABLE t (b Int32, a Int32)\<close>, then
  \<^verbatim>\<open>INSERT INTO t VALUES (1, 2), (3, 4)\<close>.
\<close>

definition create_t :: CreateTableAST where
  "create_t =
     \<lparr>ct_table_name = ''t'', ct_columns = [(''b'', ''Int32''), (''a'', ''Int32'')],
      ct_engine = ''Memory''\<rparr>"

definition insert_t :: InsertAST where
  "insert_t =
     \<lparr>ins_table_name = ''t'', ins_column_names = [],
      ins_values = [[''1'', ''2''], [''3'', ''4'']]\<rparr>"

definition schema_t :: TableStructure where
  "schema_t =
     \<lparr>ts_name = ''t'',
      ts_columns = [\<lparr>cd_name = ''b'', cd_type = DataTypeInt32\<rparr>,
                    \<lparr>cd_name = ''a'', cd_type = DataTypeInt32\<rparr>],
      ts_column_indices = [''b'' \<mapsto> 0, ''a'' \<mapsto> 1]\<rparr>"

definition block_t :: Block where
  "block_t =
     \<lparr>b_columns = [\<lparr>cw_name = ''b'', cw_column = ColumnVector (V_int32 [1, 3]) DataTypeInt32\<rparr>,
                   \<lparr>cw_name = ''a'', cw_column = ColumnVector (V_int32 [2, 4]) DataTypeInt32\<rparr>],
      b_column_indices = [''b'' \<mapsto> 0, ''a'' \<mapsto> 1]\<rparr>"

definition tables_empty_t :: tables where
  "tables_empty_t = [''t'' \<mapsto> \<lparr>ms_structure = schema_t, ms_blocks = []\<rparr>]"

definition tables_t :: tables where
  "tables_t = [''t'' \<mapsto> \<lparr>ms_structure = schema_t, ms_blocks = [block_t]\<rparr>]"

text \<open>A block whose only column, \<open>x\<close>, is a nullable column of two nulls.\<close>

definition all_null_block :: Block where
  "all_null_block =
     addColumn Block_empty ''x'' (ColumnNullable (V_int32 [0, 0]) [1, 1] DataTypeInt32)"

text \<open>
  The table \<open>t\<close> holding one block of two rows whose columns are nullable columns of
  nulls, carrying the descriptor of the schema.
\<close>

definition block_null :: Block where
  "block_null =
     \<lparr>b_columns =
        [\<lparr>cw_name = ''b'', cw_column = ColumnNullable (V_int32 [0, 0]) [1, 1] DataTypeInt32\<rparr>,
         \<lparr>cw_name = ''a'', cw_column = ColumnNullable (V_int32 [0, 0]) [1, 1] DataTypeInt32\<rparr>],
      b_column_indices = [''b'' \<mapsto> 0, ''a'' \<mapsto> 1]\<rparr>"

definition tables_null :: tables where
  "tables_null = [''t'' \<mapsto> \<lparr>ms_structure = schema_t, ms_blocks = [block_null]\<rparr>]"

text \<open>\<^verbatim>\<open>SELECT COUNT(*) FROM t\<close>, \<^verbatim>\<open>SELECT MIN(a) FROM t\<close>,
  \<^verbatim>\<open>SELECT b, a FROM t\<close> and \<^verbatim>\<open>SELECT a FROM t LIMIT 1\<close>.\<close>

definition select_ast :: "ColumnExpression list \<Rightarrow> nat \<Rightarrow> SelectAST" where
  "select_ast cols limit =
     \<lparr>sel_select_all = False, sel_columns = cols, sel_table_name = ''t'',
      sel_where_expr = [], sel_group_by_columns = [], sel_order_by_columns = [],
      sel_limit = limit\<rparr>"

definition select_count_star :: SelectAST where
  "select_count_star =
     select_ast [\<lparr>ce_column = ''*'', ce_alias = [], ce_agg_type = Agg_COUNT\<rparr>] 0"

definition select_min_a :: SelectAST where
  "select_min_a =
     select_ast [\<lparr>ce_column = ''a'', ce_alias = [], ce_agg_type = Agg_MIN\<rparr>] 0"

definition select_agg_a :: "AggregateFunctionType \<Rightarrow> SelectAST" where
  "select_agg_a f = select_ast [\<lparr>ce_column = ''a'', ce_alias = [], ce_agg_type = f\<rparr>] 0"

definition select_b_a :: SelectAST where
  "select_b_a =
     select_ast [\<lparr>ce_column = ''b'', ce_alias = [], ce_agg_type = Agg_NONE\<rparr>,
                 \<lparr>ce_column = ''a'', ce_alias = [], ce_agg_type = Agg_NONE\<rparr>] 0"

definition select_a_limit_1 :: SelectAST where
  "select_a_limit_1 =
     select_ast [\<lparr>ce_column = ''a'', ce_alias = [], ce_agg_type = Agg_NONE\<rparr>] 1"

text \<open>
  The table \<open>t\<close> after the INSERT above was executed twice, and
  \<^verbatim>\<open>SELECT a FROM t LIMIT 3\<close>.
\<close>

definition tables_tt :: tables where
  "tables_tt = [''t'' \<mapsto> \<lparr>ms_structure = schema_t, ms_blocks = [block_t, block_t]\<rparr>]"

definition select_a_limit_3 :: SelectAST where
  "select_a_limit_3 =
     select_ast [\<lparr>ce_column = ''a'', ce_alias = [], ce_agg_type = Agg_NONE\<rparr>] 3"

text \<open>
  \<^verbatim>\<open>INSERT INTO t (a, a) VALUES (1, 2)\<close>, the block it builds, the table \<open>t\<close>
  holding that block, and \<^verbatim>\<open>SELECT b FROM t\<close>.
\<close>

definition insert_t_aa :: InsertAST where
  "insert_t_aa =
     \<lparr>ins_table_name = ''t'', ins_column_names = [''a'', ''a''], ins_values = [[''1'', ''2'']]\<rparr>"

definition block_aa :: Block where
  "block_aa =
     \<lparr>b_columns = [\<lparr>cw_name = ''a'', cw_column = ColumnVector (V_int32 [1]) DataTypeInt32\<rparr>,
                   \<lparr>cw_name = ''a'', cw_column = ColumnVector (V_int32 [2]) DataTypeInt32\<rparr>],
      b_column_indices = [''a'' \<mapsto> 1]\<rparr>"

definition tables_aa :: tables where
  "tables_aa = [''t'' \<mapsto> \<lparr>ms_structure = schema_t, ms_blocks = [block_aa]\<rparr>]"

definition select_b :: SelectAST where
  "select_b = select_ast [\<lparr>ce_column = ''b'', ce_alias = [], ce_agg_type = Agg_NONE\<rparr>] 0"

text \<open>\<^verbatim>\<open>INSERT INTO t VALUES (1, x)\<close>: the second value is no number.\<close>

definition insert_t_bad :: InsertAST where
  "insert_t_bad =
     \<lparr>ins_table_name = ''t'', ins_column_names = [], ins_values = [[''1'', ''x'']]\<rparr>"

text \<open>
  \<^verbatim>\<open>CREATE TABLE tn (n Nullable(Int32))\<close>, as the executor receives it, and two
  INSERT statements for it: one row of one value, and one row of two values.
\<close>

definition create_tn :: CreateTableAST where
  "create_tn =
     \<lparr>ct_table_name = ''tn'', ct_columns = [(''n'', ''Nullable(Int32)'')],
      ct_engine = ''Memory''\<rparr>"

definition schema_tn :: TableStructure where
  "schema_tn =
     \<lparr>ts_name = ''tn'',
      ts_columns = [\<lparr>cd_name = ''n'', cd_type = DataTypeNullable DataTypeInt32\<rparr>],
      ts_column_indices = [''n'' \<mapsto> 0]\<rparr>"

definition tables_tn :: tables where
  "tables_tn = [''tn'' \<mapsto> \<lparr>ms_structure = schema_tn, ms_blocks = []\<rparr>]"

definition insert_tn :: "string list list \<Rightarrow> InsertAST" where
  "insert_tn rows = \<lparr>ins_table_name = ''tn'', ins_column_names = [''n''], ins_values = rows\<rparr>"

section \<open>The type factory accepts exactly the type names\<close>

lemma nullable_regex_match_Some:
  "nullable_regex_match s = Some x \<longleftrightarrow>
     (s = ''Nullable('' @ x @ '')'' \<and> x \<noteq> [] \<and> \<not> list_ex line_terminator x)"
proof
  assume m: "nullable_regex_match s = Some x"
  then have len: "11 \<le> length s" and pre: "take 9 s = ''Nullable(''"
    and lst: "last s = CHR '')''" and nl: "\<not> list_ex line_terminator (butlast (drop 9 s))"
    and x: "x = butlast (drop 9 s)"
    by (auto simp: nullable_regex_match_def split: if_splits)
  have d: "drop 9 s \<noteq> []" using len by simp
  have a: "s = take 9 s @ drop 9 s" by simp
  have b: "drop 9 s = butlast (drop 9 s) @ [last (drop 9 s)]"
    by (rule append_butlast_last_id[OF d, symmetric])
  have c: "last (drop 9 s) = last s" using len by (simp add: last_drop)
  have "s = take 9 s @ butlast (drop 9 s) @ [last s]"
    using a b c by (simp only:)
  then have "s = ''Nullable('' @ x @ '')''"
    by (simp only: pre lst x)
  moreover have "x \<noteq> []" using len x by (auto simp: butlast_conv_take)
  ultimately show "s = ''Nullable('' @ x @ '')'' \<and> x \<noteq> [] \<and> \<not> list_ex line_terminator x"
    using nl x by simp
next
  assume "s = ''Nullable('' @ x @ '')'' \<and> x \<noteq> [] \<and> \<not> list_ex line_terminator x"
  then show "nullable_regex_match s = Some x"
    by (cases x) (auto simp: nullable_regex_match_def butlast_append)
qed

lemma accepted_name_shape:
  "accepted_name s \<Longrightarrow> s \<noteq> [] \<and> \<not> list_ex line_terminator s"
  by (induction rule: accepted_name.induct)
     (auto simp: scalar_keywords_def line_terminator_def list_ex_iff)

lemma createDataType_scalar:
  "s \<in> set scalar_keywords \<Longrightarrow>
     \<exists>t. createDataType s = Inr t \<and> getName t = s \<and> getTypeId t = kind_of_name s"
  unfolding scalar_keywords_def
  by (subst createDataType.simps) auto

lemma createDataType_not_scalar:
  "s \<notin> set scalar_keywords \<Longrightarrow>
   createDataType s =
     (case nullable_regex_match s of
        Some n \<Rightarrow> (case createDataType n of Inl e \<Rightarrow> Inl e | Inr t \<Rightarrow> Inr (DataTypeNullable t))
      | None \<Rightarrow> Inl (runtime_error (''Unknown data type: '' @ s)))"
  unfolding scalar_keywords_def
  by (subst createDataType.simps) simp

lemma Nullable_not_scalar: "''Nullable('' @ x @ '')'' \<notin> set scalar_keywords"
  by (simp add: scalar_keywords_def)

lemma kind_of_name_Nullable: "kind_of_name (''Nullable('' @ x @ '')'') = Nullable"
  by simp

lemma createDataType_Nullable:
  assumes "x \<noteq> []" and "\<not> list_ex line_terminator x"
  shows "createDataType (''Nullable('' @ x @ '')'') =
     (case createDataType x of Inl e \<Rightarrow> Inl e | Inr t \<Rightarrow> Inr (DataTypeNullable t))"
proof -
  have "nullable_regex_match (''Nullable('' @ x @ '')'') = Some x"
    using assms by (simp only: nullable_regex_match_Some simp_thms)
  then show ?thesis
    by (simp only: createDataType_not_scalar[OF Nullable_not_scalar] option.case)
qed

lemma accepted_name_created:
  "accepted_name s \<Longrightarrow> \<exists>t. createDataType s = Inr t"
proof (induction rule: accepted_name.induct)
  case (scalar s)
  then show ?case using createDataType_scalar by blast
next
  case (nullable x)
  then obtain t where t: "createDataType x = Inr t" by blast
  from accepted_name_shape[OF nullable.hyps]
  have "x \<noteq> []" and "\<not> list_ex line_terminator x" by simp_all
  then have "createDataType (''Nullable('' @ x @ '')'') =
     (case createDataType x of Inl e \<Rightarrow> Inl e | Inr t \<Rightarrow> Inr (DataTypeNullable t))"
    by (rule createDataType_Nullable)
  then have "createDataType (''Nullable('' @ x @ '')'') = Inr (DataTypeNullable t)"
    by (simp only: t sum.case)
  then show ?case by blast
qed

lemma not_scalar_keyword:
  assumes "type_name \<notin> set scalar_keywords"
  shows "type_name \<noteq> ''Int8''" "type_name \<noteq> ''Int16''" "type_name \<noteq> ''Int32''"
    "type_name \<noteq> ''Int64''" "type_name \<noteq> ''UInt8''" "type_name \<noteq> ''UInt16''"
    "type_name \<noteq> ''UInt32''" "type_name \<noteq> ''UInt64''" "type_name \<noteq> ''Float32''"
    "type_name \<noteq> ''Float64''" "type_name \<noteq> ''String''"
  using assms by (auto simp: scalar_keywords_def)

lemma createDataType_sound:
  "createDataType s = Inr t \<Longrightarrow> accepted_name s \<and> getName t = s \<and> getTypeId t = kind_of_name s"
proof (induction s arbitrary: t rule: createDataType.induct)
  case (1 type_name)
  show ?case
  proof (cases "type_name \<in> set scalar_keywords")
    case True
    then show ?thesis using "1.prems" accepted_name.scalar[OF True] createDataType_scalar[OF True]
      by auto
  next
    case False
    note nk = not_scalar_keyword[OF False]
    from "1.prems" obtain x t' where m: "nullable_regex_match type_name = Some x"
      and c: "createDataType x = Inr t'" and t: "t = DataTypeNullable t'"
      by (auto simp: createDataType_not_scalar[OF False] split: option.splits sum.splits)
    from "1.IH"[OF nk m c] have ih: "accepted_name x" "getName t' = x" by simp_all
    from m have s: "type_name = ''Nullable('' @ x @ '')''" by (simp add: nullable_regex_match_Some)
    have "accepted_name type_name" unfolding s by (rule accepted_name.nullable[OF ih(1)])
    moreover have "getName t = type_name" using ih(2) s t by simp
    moreover have "getTypeId t = kind_of_name type_name"
      unfolding s t kind_of_name_Nullable by simp
    ultimately show ?thesis by blast
  qed
qed

lemma createDataType_error:
  "createDataType s = Inl e \<Longrightarrow> \<exists>n. e = runtime_error (''Unknown data type: '' @ n)"
proof (induction s arbitrary: e rule: createDataType.induct)
  case (1 type_name)
  show ?case
  proof (cases "type_name \<in> set scalar_keywords")
    case True
    then show ?thesis using "1.prems" createDataType_scalar[OF True] by auto
  next
    case False
    note nk = not_scalar_keyword[OF False]
    show ?thesis
    proof (cases "nullable_regex_match type_name")
      case None
      then show ?thesis using "1.prems" by (auto simp: createDataType_not_scalar[OF False])
    next
      case (Some x)
      then have "createDataType x = Inl e" using "1.prems"
        by (auto simp: createDataType_not_scalar[OF False] split: sum.splits)
      from "1.IH"[OF nk Some this] show ?thesis .
    qed
  qed
qed

text \<open>
  Claim C7. \<open>createDataType name\<close> succeeds exactly when \<open>name\<close> is one of the eleven
  scalar keywords or \<^verbatim>\<open>Nullable(X)\<close> for a name \<open>X\<close> that it accepts; for every other
  string it fails with the unknown-type error; on success the descriptor renders to the
  input name and has the kind that belongs to the name.
\<close>

theorem createDataType_accepts_exactly:
  "(accepted_name s \<longrightarrow>
      (\<exists>t. createDataType s = Inr t \<and> getName t = s \<and> getTypeId t = kind_of_name s))
   \<and> (\<not> accepted_name s \<longrightarrow>
      (\<exists>n. createDataType s = Inl (runtime_error (''Unknown data type: '' @ n))))"
proof (intro conjI impI)
  assume "accepted_name s"
  then obtain t where "createDataType s = Inr t" using accepted_name_created by blast
  then show "\<exists>t. createDataType s = Inr t \<and> getName t = s \<and> getTypeId t = kind_of_name s"
    using createDataType_sound by blast
next
  assume n: "\<not> accepted_name s"
  show "\<exists>n. createDataType s = Inl (runtime_error (''Unknown data type: '' @ n))"
  proof (cases "createDataType s")
    case (Inl e)
    then show ?thesis using createDataType_error by blast
  next
    case (Inr t)
    then show ?thesis using createDataType_sound n by blast
  qed
qed

theorem createDataType_accepts_exactly_witness:
  "accepted_name ''Nullable(Nullable(Int8))''
   \<and> (\<exists>t. createDataType ''Nullable(Nullable(Int8))'' = Inr t
         \<and> getName t = ''Nullable(Nullable(Int8))''
         \<and> getTypeId t = kind_of_name ''Nullable(Nullable(Int8))'')
   \<and> \<not> accepted_name ''Nullable(int8)''
   \<and> (\<exists>n. createDataType ''Nullable(int8)'' = Inl (runtime_error (''Unknown data type: '' @ n)))"
proof -
  have "accepted_name ''Int8''"
    by (rule accepted_name.scalar) (simp add: scalar_keywords_def)
  from accepted_name.nullable[OF accepted_name.nullable[OF this]]
  have a: "accepted_name ''Nullable(Nullable(Int8))''" by simp
  have "createDataType ''Nullable(int8)'' = Inl (runtime_error ''Unknown data type: int8'')"
    by (simp add: createDataType.simps nullable_regex_match_def line_terminator_def)
  then have b: "\<not> accepted_name ''Nullable(int8)''"
    using accepted_name_created by fastforce
  show ?thesis
    using a b createDataType_accepts_exactly [of "''Nullable(Nullable(Int8))''"]
      createDataType_accepts_exactly [of "''Nullable(int8)''"]
    by blast
qed

section \<open>Binary codecs\<close>

lemma length_le_bytes: "length (le_bytes k v) = k"
  by (induction k arbitrary: v) simp_all

lemma le_value_le_bytes: "v < 256 ^ k \<Longrightarrow> le_value (le_bytes k v) = v"
proof (induction k arbitrary: v)
  case 0
  then show ?case by simp
next
  case (Suc k)
  then have "v div 256 < 256 ^ k"
    by (simp add: less_mult_imp_div_less mult.commute)
  then have "le_value (le_bytes k (v div 256)) = v div 256" by (rule Suc.IH)
  then show ?case by simp
qed

lemma le_bytes_closed_form:
  "le_bytes k v = map (\<lambda>i. char_of (v div 256 ^ i)) [0..<k]"
proof (induction k arbitrary: v)
  case 0
  then show ?case by simp
next
  case (Suc k)
  have "map (\<lambda>i. char_of (v div 256 ^ i)) [0..<Suc k]
          = char_of v # map (\<lambda>i. char_of (v div 256 ^ Suc i)) [0..<k]"
    by (simp add: upt_conv_Cons map_Suc_upt[symmetric] del: upt_Suc power_Suc)
  also have "map (\<lambda>i. char_of (v div 256 ^ Suc i)) [0..<k]
          = map (\<lambda>i. char_of (v div 256 div 256 ^ i)) [0..<k]"
    by (simp add: div_mult2_eq)
  finally show ?case
    using Suc.IH[of "v div 256"] by (simp add: char_of_mod_256 del: upt_Suc)
qed

lemma le_bytes_4:
  "le_bytes 4 v = [char_of v, char_of (v div 2 ^ 8), char_of (v div 2 ^ 16), char_of (v div 2 ^ 24)]"
proof -
  have "[0..<4] = [0, 1, 2, 3::nat]" by (simp add: upt_rec)
  then show ?thesis by (simp add: le_bytes_closed_form)
qed

lemma string_round_trip:
  "DataTypeString_deserializeBinary
     (drop (length buffer) (DataTypeString_serializeBinary str buffer) @ rest)
   = Inr (take (length str mod 2 ^ 32) str)"
proof -
  define n where "n = length str mod 2 ^ 32"
  have "n < 256 ^ 4" by (simp add: n_def)
  then have v: "le_value (le_bytes 4 n) = n" by (rule le_value_le_bytes)
  have "n \<le> length str" unfolding n_def by (rule mod_less_eq_dividend)
  then have l: "length (take n str) = n" by simp
  have d: "drop (length buffer) (DataTypeString_serializeBinary str buffer) @ rest
             = le_bytes 4 n @ take n str @ rest"
    by (simp add: DataTypeString_serializeBinary_def Let_def n_def)
  have t: "take 4 (le_bytes 4 n @ take n str @ rest) = le_bytes 4 n"
    by (simp add: length_le_bytes)
  have e: "drop 4 (le_bytes 4 n @ take n str @ rest) = take n str @ rest"
    by (simp add: length_le_bytes)
  have f: "take n (take n str @ rest) = take n str"
    using l by simp
  have g: "\<not> length (le_bytes 4 n @ take n str @ rest) < 4"
    by (simp add: length_le_bytes)
  have h: "\<not> length (le_bytes 4 n @ take n str @ rest) < 4 + n"
    using l by (simp add: length_le_bytes)
  have "DataTypeString_deserializeBinary (le_bytes 4 n @ take n str @ rest)
          = Inr (take n str)"
    unfolding DataTypeString_deserializeBinary_def Let_def t v e f
    using g h by simp
  then show ?thesis unfolding d n_def .
qed

lemma string_truncated:
  "length b < 4 \<or> length b < 4 + le_value (take 4 b) \<Longrightarrow>
     DataTypeString_deserializeBinary b = Inl not_enough_data"
  by (auto simp: DataTypeString_deserializeBinary_def Let_def)

lemma string_complete:
  "4 + le_value (take 4 b) \<le> length b \<Longrightarrow>
     DataTypeString_deserializeBinary b = Inr (take (le_value (take 4 b)) (drop 4 b))"
  by (auto simp: DataTypeString_deserializeBinary_def Let_def)

lemma number_round_trip:
  fixes val :: "'a::len word"
  assumes "8 dvd LENGTH('a)"
  shows "DataTypeNumber_deserializeBinary
           (drop (length buffer) (DataTypeNumber_serializeBinary val buffer) @ rest) = Inr val"
proof -
  let ?k = "LENGTH('a) div 8"
  have "(256::nat) ^ ?k = 2 ^ (8 * ?k)" by (simp add: power_mult)
  also have "8 * ?k = LENGTH('a)" using assms by simp
  finally have "unat val < 256 ^ ?k" by simp
  then have v: "le_value (le_bytes ?k (unat val)) = unat val" by (rule le_value_le_bytes)
  show ?thesis
    by (simp add: DataTypeNumber_serializeBinary_def DataTypeNumber_deserializeBinary_def
        length_le_bytes v)
qed

text \<open>
  Claim C8, as amended. For every string, the String codec appends the four bytes of the
  length taken modulo \<open>2 ^ 32\<close>, least significant first, and then that many
  bytes of the string; reading what was appended, whatever follows it in the buffer,
  gives those bytes back, which is the string itself when it is shorter than
  \<open>2 ^ 32\<close> bytes. Deserialization fails with the truncation error when the
  buffer has fewer than 4 bytes or fewer than 4 plus the encoded length, and otherwise
  returns the bytes after the prefix, as many as the prefix encodes. A fixed-width codec
  appends the \<open>sizeof(T)\<close> bytes of the value, least significant first, reads them
  back to the same value, and fails when fewer than \<open>sizeof(T)\<close> bytes are supplied.
\<close>

theorem binary_codecs:
  fixes val :: "'a::len word"
  shows
  "DataTypeString_serializeBinary str buffer
     = buffer
       @ [char_of (length str mod 2 ^ 32), char_of (length str mod 2 ^ 32 div 2 ^ 8),
          char_of (length str mod 2 ^ 32 div 2 ^ 16), char_of (length str mod 2 ^ 32 div 2 ^ 24)]
       @ take (length str mod 2 ^ 32) str
   \<and> DataTypeString_deserializeBinary
        (drop (length buffer) (DataTypeString_serializeBinary str buffer) @ rest)
       = Inr (take (length str mod 2 ^ 32) str)
   \<and> (length str < 2 ^ 32 \<longrightarrow>
        DataTypeString_serializeBinary str buffer
          = buffer
            @ [char_of (length str), char_of (length str div 2 ^ 8),
               char_of (length str div 2 ^ 16), char_of (length str div 2 ^ 24)]
            @ str
        \<and> DataTypeString_deserializeBinary
            (drop (length buffer) (DataTypeString_serializeBinary str buffer) @ rest) = Inr str)
   \<and> (length b < 4 \<or> length b < 4 + le_value (take 4 b) \<longrightarrow>
        DataTypeString_deserializeBinary b = Inl not_enough_data)
   \<and> (4 + le_value (take 4 b) \<le> length b \<longrightarrow>
        DataTypeString_deserializeBinary b = Inr (take (le_value (take 4 b)) (drop 4 b)))
   \<and> le_value [c0, c1, c2, c3]
       = of_char c0 + 2 ^ 8 * of_char c1 + 2 ^ 16 * of_char c2 + 2 ^ 24 * of_char c3
   \<and> DataTypeNumber_serializeBinary val buffer
       = buffer @ map (\<lambda>i. char_of (unat val div 256 ^ i)) [0..<DataTypeNumber_getSize val]
   \<and> (8 dvd LENGTH('a) \<longrightarrow>
        8 * DataTypeNumber_getSize val = LENGTH('a)
        \<and> DataTypeNumber_deserializeBinary
            (drop (length buffer) (DataTypeNumber_serializeBinary val buffer) @ rest) = Inr val)
   \<and> (length b < DataTypeNumber_getSize val \<longrightarrow>
        (DataTypeNumber_deserializeBinary b :: error + 'a word) = Inl not_enough_data)"
proof -
  have s: "DataTypeString_serializeBinary str buffer
     = buffer
       @ [char_of (length str mod 2 ^ 32), char_of (length str mod 2 ^ 32 div 2 ^ 8),
          char_of (length str mod 2 ^ 32 div 2 ^ 16), char_of (length str mod 2 ^ 32 div 2 ^ 24)]
       @ take (length str mod 2 ^ 32) str"
    unfolding DataTypeString_serializeBinary_def Let_def le_bytes_4 ..
  have r: "DataTypeString_deserializeBinary
        (drop (length buffer) (DataTypeString_serializeBinary str buffer) @ rest)
       = Inr (take (length str mod 2 ^ 32) str)"
    by (rule string_round_trip)
  have m: "length str < 2 ^ 32 \<Longrightarrow> length str mod 2 ^ 32 = length str" by simp
  have t: "length b < 4 \<or> length b < 4 + le_value (take 4 b) \<longrightarrow>
        DataTypeString_deserializeBinary b = Inl not_enough_data"
    using string_truncated by blast
  have c: "4 + le_value (take 4 b) \<le> length b \<longrightarrow>
        DataTypeString_deserializeBinary b = Inr (take (le_value (take 4 b)) (drop 4 b))"
    using string_complete by blast
  have v: "le_value [c0, c1, c2, c3]
       = of_char c0 + 2 ^ 8 * of_char c1 + 2 ^ 16 * of_char c2 + 2 ^ 24 * of_char c3"
    by simp
  have n: "DataTypeNumber_serializeBinary val buffer
       = buffer @ map (\<lambda>i. char_of (unat val div 256 ^ i)) [0..<DataTypeNumber_getSize val]"
    unfolding DataTypeNumber_serializeBinary_def DataTypeNumber_getSize_def le_bytes_closed_form ..
  have g: "8 dvd LENGTH('a) \<longrightarrow> 8 * DataTypeNumber_getSize val = LENGTH('a)"
    by (simp add: DataTypeNumber_getSize_def)
  have q: "8 dvd LENGTH('a) \<longrightarrow> DataTypeNumber_deserializeBinary
            (drop (length buffer) (DataTypeNumber_serializeBinary val buffer) @ rest) = Inr val"
    using number_round_trip[where val = val and buffer = buffer and rest = rest] by blast
  have u: "length b < DataTypeNumber_getSize val \<longrightarrow>
        (DataTypeNumber_deserializeBinary b :: error + 'a word) = Inl not_enough_data"
    by (simp add: DataTypeNumber_getSize_def DataTypeNumber_deserializeBinary_def)
  have s': "length str < 2 ^ 32 \<longrightarrow>
        DataTypeString_serializeBinary str buffer
          = buffer
            @ [char_of (length str), char_of (length str div 2 ^ 8),
               char_of (length str div 2 ^ 16), char_of (length str div 2 ^ 24)]
            @ str"
    using s m by simp
  have r': "length str < 2 ^ 32 \<longrightarrow> DataTypeString_deserializeBinary
            (drop (length buffer) (DataTypeString_serializeBinary str buffer) @ rest) = Inr str"
    using r m by simp
  show ?thesis
    using s r s' r' t c v n g q u by blast
qed

theorem binary_codecs_witness:
  "length ''ab'' < (2::nat) ^ 32
   \<and> (length [CHR 0x02, CHR 0x00, CHR 0x00] < (4::nat)
        \<or> length [CHR 0x02, CHR 0x00, CHR 0x00]
             < 4 + le_value (take 4 [CHR 0x02, CHR 0x00, CHR 0x00]))
   \<and> 4 + le_value (take 4 [CHR 0x02, CHR 0x00, CHR 0x00, CHR 0x00, CHR ''a'', CHR ''b'', CHR ''c''])
        \<le> length [CHR 0x02, CHR 0x00, CHR 0x00, CHR 0x00, CHR ''a'', CHR ''b'', CHR ''c'']
   \<and> 8 dvd LENGTH(32)
   \<and> length [CHR 0x02, CHR 0x00, CHR 0x00] < DataTypeNumber_getSize (258 :: 32 word)
   \<and> DataTypeString_serializeBinary ''ab'' ''xy''
        = ''xy'' @ [CHR 0x02, CHR 0x00, CHR 0x00, CHR 0x00] @ ''ab''
   \<and> DataTypeString_deserializeBinary
        (drop (length ''xy'') (DataTypeString_serializeBinary ''ab'' ''xy'') @ ''z'') = Inr ''ab''
   \<and> DataTypeString_deserializeBinary [CHR 0x02, CHR 0x00, CHR 0x00] = Inl not_enough_data
   \<and> DataTypeString_deserializeBinary
        [CHR 0x02, CHR 0x00, CHR 0x00, CHR 0x00, CHR ''a'', CHR ''b'', CHR ''c''] = Inr ''ab''
   \<and> DataTypeNumber_serializeBinary (258 :: 32 word) ''xy''
        = ''xy'' @ [CHR 0x02, CHR 0x01, CHR 0x00, CHR 0x00]
   \<and> DataTypeNumber_deserializeBinary
        (drop (length ''xy'') (DataTypeNumber_serializeBinary (258 :: 32 word) ''xy'') @ ''z'')
        = Inr (258 :: 32 word)
   \<and> (DataTypeNumber_deserializeBinary [CHR 0x02, CHR 0x00, CHR 0x00] :: error + 32 word)
        = Inl not_enough_data"
proof -
  let ?short = "[CHR 0x02, CHR 0x00, CHR 0x00]"
  let ?long = "[CHR 0x02, CHR 0x00, CHR 0x00, CHR 0x00, CHR ''a'', CHR ''b'', CHR ''c'']"
  have a: "length ''ab'' < (2::nat) ^ 32" by simp
  have b: "length ?short < (4::nat) \<or> length ?short < 4 + le_value (take 4 ?short)" by simp
  have l: "le_value (take 4 ?long) = 2" by simp
  have l': "4 + le_value (take 4 ?long) \<le> length ?long" unfolding l by simp
  have c: "8 dvd LENGTH(32)" by simp
  have g: "DataTypeNumber_getSize (258 :: 32 word) = 4"
    by (simp add: DataTypeNumber_getSize_def)
  have d: "length ?short < DataTypeNumber_getSize (258 :: 32 word)"
    unfolding g by simp
  have len: "length ''ab'' = 2" by simp
  have p: "[char_of (length ''ab''), char_of (length ''ab'' div 2 ^ 8),
            char_of (length ''ab'' div 2 ^ 16), char_of (length ''ab'' div 2 ^ 24)]
           = [CHR 0x02, CHR 0x00, CHR 0x00, CHR 0x00]"
    unfolding len by (simp add: char_of_def bit_0)
  have n0: "[char_of (258::nat), char_of ((258::nat) div 256),
             char_of ((258::nat) div 256 ^ 2), char_of ((258::nat) div 256 ^ 3)]
           = [CHR 0x02, CHR 0x01, CHR 0x00, CHR 0x00]"
    by (simp add: char_of_def bit_0)
  have upt4: "[0..<4] = [0, 1, 2, 3::nat]" by (simp add: upt_rec)
  have n: "map (\<lambda>i. char_of (unat (258 :: 32 word) div 256 ^ i)) [0..<4]
           = [CHR 0x02, CHR 0x01, CHR 0x00, CHR 0x00]"
    using n0 upt4 by simp
  have k: "take 2 (drop 4 ?long) = ''ab''" by simp
  note w1 = binary_codecs [of "''ab''" "''xy''" "''z''" ?short _ _ _ _ "258 :: 32 word"]
  note w2 = binary_codecs [of "''ab''" "''xy''" "''z''" ?long _ _ _ _ "258 :: 32 word"]
  have e1: "DataTypeString_serializeBinary ''ab'' ''xy''
        = ''xy'' @ [char_of (length ''ab''), char_of (length ''ab'' div 2 ^ 8),
            char_of (length ''ab'' div 2 ^ 16), char_of (length ''ab'' div 2 ^ 24)] @ ''ab''"
    using w1 a by blast
  have e2: "DataTypeString_deserializeBinary
        (drop (length ''xy'') (DataTypeString_serializeBinary ''ab'' ''xy'') @ ''z'') = Inr ''ab''"
    using w1 a by blast
  have e3: "DataTypeString_deserializeBinary ?short = Inl not_enough_data"
    using w1 b by blast
  have e4: "DataTypeString_deserializeBinary ?long
              = Inr (take (le_value (take 4 ?long)) (drop 4 ?long))"
    using w2 l' by blast
  have e5: "DataTypeNumber_serializeBinary (258 :: 32 word) ''xy''
        = ''xy'' @ map (\<lambda>i. char_of (unat (258 :: 32 word) div 256 ^ i))
                    [0..<DataTypeNumber_getSize (258 :: 32 word)]"
    using w1 by blast
  have e6: "DataTypeNumber_deserializeBinary
        (drop (length ''xy'') (DataTypeNumber_serializeBinary (258 :: 32 word) ''xy'') @ ''z'')
        = Inr (258 :: 32 word)"
    using w1 c by blast
  have e7: "(DataTypeNumber_deserializeBinary ?short :: error + 32 word) = Inl not_enough_data"
    using w1 d by blast
  note e1' = e1[unfolded p]
  note e4' = e4[unfolded l k]
  note e5' = e5[unfolded g n]
  show ?thesis
    using a b l' c d e1' e2 e3 e4' e5' e6 e7 by blast
qed

text \<open>
  The claim as stated, for every string, fails at a string of \<open>2 ^ 32\<close> bytes: its
  length is cast to 0, four zero bytes are written, and the empty string is read back.
\<close>

theorem string_codec_round_trip_counterexample:
  "DataTypeString_deserializeBinary
     (DataTypeString_serializeBinary (replicate (2 ^ 32) CHR ''a'') [])
   \<noteq> Inr (replicate (2 ^ 32) CHR ''a'')"
proof -
  have c1: "DataTypeString_serializeBinary (replicate (2 ^ 32) CHR ''a'') [] = le_bytes 4 0"
    unfolding DataTypeString_serializeBinary_def Let_def by simp
  have c2: "le_bytes 4 0 = [CHR 0x00, CHR 0x00, CHR 0x00, CHR 0x00]"
    by code_simp
  have c3: "DataTypeString_deserializeBinary [CHR 0x00, CHR 0x00, CHR 0x00, CHR 0x00] = Inr []"
    unfolding DataTypeString_deserializeBinary_def by simp
  have c4: "Inr [] \<noteq> (Inr (replicate (2 ^ 32) CHR ''a'') :: error + string)"
    by simp
  show ?thesis unfolding c1 c2 c3 by (rule c4)
qed

section \<open>Blocks\<close>

text \<open>
  Claim C9. In a block that already has a column under the name \<open>n\<close>, at index \<open>i\<close>,
  \<open>addColumn n c2\<close> appends the new column (the count grows by one, the stored list
  is the old one followed by the new entry), the old column stays at index \<open>i\<close>,
  the lookup of \<open>n\<close> by name now gives \<open>c2\<close>, and no other name is rebound.
\<close>

theorem addColumn_existing_name:
  assumes "getColumnIndex block n = Inr i" and "getColumnByIndex block i = Inr old"
  shows "getColumnCount (addColumn block n c2) = getColumnCount block + 1
    \<and> getColumnByName (addColumn block n c2) n = Inr \<lparr>cw_name = n, cw_column = c2\<rparr>
    \<and> getColumnByIndex (addColumn block n c2) i = Inr old
    \<and> b_columns (addColumn block n c2) = b_columns block @ [\<lparr>cw_name = n, cw_column = c2\<rparr>]
    \<and> (\<forall>m. m \<noteq> n \<longrightarrow> getColumnIndex (addColumn block n c2) m = getColumnIndex block m)"
  using assms(2)
  by (auto simp: getColumnByIndex_def addColumn_def nth_append getColumnCount_def
      getColumnByName_def getColumnIndex_def split: if_splits)

theorem addColumn_existing_name_witness:
  "getColumnIndex (addColumn Block_empty ''a'' (ColumnVector (V_int32 [1]) DataTypeInt32)) ''a''
     = Inr 0
   \<and> getColumnByIndex (addColumn Block_empty ''a'' (ColumnVector (V_int32 [1]) DataTypeInt32)) 0
     = Inr \<lparr>cw_name = ''a'', cw_column = ColumnVector (V_int32 [1]) DataTypeInt32\<rparr>
   \<and> getColumnCount
        (addColumn (addColumn Block_empty ''a'' (ColumnVector (V_int32 [1]) DataTypeInt32))
           ''a'' (ColumnVector (V_int32 [2]) DataTypeInt32)) = 2
   \<and> getColumnByName
        (addColumn (addColumn Block_empty ''a'' (ColumnVector (V_int32 [1]) DataTypeInt32))
           ''a'' (ColumnVector (V_int32 [2]) DataTypeInt32)) ''a''
     = Inr \<lparr>cw_name = ''a'', cw_column = ColumnVector (V_int32 [2]) DataTypeInt32\<rparr>
   \<and> getColumnByIndex
        (addColumn (addColumn Block_empty ''a'' (ColumnVector (V_int32 [1]) DataTypeInt32))
           ''a'' (ColumnVector (V_int32 [2]) DataTypeInt32)) 0
     = Inr \<lparr>cw_name = ''a'', cw_column = ColumnVector (V_int32 [1]) DataTypeInt32\<rparr>"
proof -
  let ?b = "addColumn Block_empty ''a'' (ColumnVector (V_int32 [1]) DataTypeInt32)"
  have h1: "getColumnIndex ?b ''a'' = Inr 0"
    by (simp add: getColumnIndex_def addColumn_def Block_empty_def)
  have h2: "getColumnByIndex ?b 0
     = Inr \<lparr>cw_name = ''a'', cw_column = ColumnVector (V_int32 [1]) DataTypeInt32\<rparr>"
    by (simp add: getColumnByIndex_def addColumn_def Block_empty_def)
  have h3: "getColumnCount ?b = 1"
    by (simp add: getColumnCount_def addColumn_def Block_empty_def)
  show ?thesis
    using h1 h2 h3
      addColumn_existing_name [OF h1 h2, of "ColumnVector (V_int32 [2]) DataTypeInt32"]
    by simp
qed

section \<open>The sample statements, evaluated\<close>

lemmas block_defs = Block_empty_def addColumn_def getColumnCount_def getColumnByIndex_def
  getColumnIndex_def getColumnByName_def getRowCount_def isValid_def
lemmas structure_defs = TableStructure_new_def TableStructure_addColumn_def
  TableStructure_getColumnCount_def TableStructure_getColumnByIndex_def
  TableStructure_getColumnIndex_def TableStructure_getColumnByName_def hasColumn_def
lemmas storage_defs = validateBlock_def MemoryStorage_insert_def MemoryStorage_read_def
  createStorage_def
lemmas result_defs = QueryResult_message_def QueryResult_blocks_def rowCount_def
  catch_exception_def table_missing_def column_missing_def unsupported_column_def
  conversion_error_def
lemmas sample_defs = create_t_def insert_t_def schema_t_def block_t_def tables_empty_t_def
  tables_t_def select_ast_def select_count_star_def select_min_a_def select_b_a_def
  select_a_limit_1_def create_tn_def schema_tn_def tables_tn_def insert_tn_def
  sample_platform_def sample_conversion_def tables_tt_def select_a_limit_3_def
  insert_t_aa_def block_aa_def tables_aa_def select_b_def insert_t_bad_def
  block_null_def tables_null_def select_agg_a_def

lemma createDataType_Int32: "createDataType ''Int32'' = Inr DataTypeInt32"
  by (subst createDataType.simps) simp


lemma to_decimal_2: "to_decimal (Suc (Suc 0)) = ''2''"
  by code_simp

lemma create_t_result:
  "executeCreateTable Map.empty create_t
     = (QueryResult_message True ''Table created successfully'', tables_empty_t)"
  by (simp add: executeCreateTable_def sample_defs structure_defs storage_defs
      createDataType_Int32 Let_def)


lemma insert_t_result:
  "executeInsert sample_platform tables_empty_t insert_t
     = Inr (QueryResult_message True ''2 row(s) inserted successfully'', tables_t)"
  by (simp add: executeInsert_def sample_defs structure_defs storage_defs block_defs
      result_defs make_column_def convert_value_def insertValue_def V_push_back_def
      make_block_def to_decimal_2 Let_def fun_upd_twist)

lemma count_star_empty:
  "executeSelect sample_platform tables_empty_t select_count_star
     = Inr (QueryResult_blocks [] [''*''])"
  by (simp add: executeSelect_def sample_defs structure_defs storage_defs block_defs
      result_defs Let_def apply_limit_def)

lemma min_empty:
  "executeSelect sample_platform tables_empty_t select_min_a
     = Inr (QueryResult_blocks [] [''a''])"
  by (simp add: executeSelect_def sample_defs structure_defs storage_defs block_defs
      result_defs Let_def apply_limit_def)

lemma to_decimal_1: "to_decimal (Suc 0) = ''1''"
  by code_simp

lemma insert_t_bad_result:
  "executeInsert sample_platform tables_empty_t insert_t_bad
     = Inr (conversion_error ''x'' ''a'' (invalid_argument ''stoi''), tables_empty_t)"
  by (simp add: executeInsert_def sample_defs structure_defs storage_defs block_defs
      result_defs make_column_def convert_value_def insertValue_def V_push_back_def
      make_block_def Let_def)

lemma insert_t_aa_result:
  "executeInsert sample_platform tables_empty_t insert_t_aa
     = Inr (QueryResult_message True ''1 row(s) inserted successfully'', tables_aa)"
  by (simp add: executeInsert_def sample_defs structure_defs storage_defs block_defs
      result_defs make_column_def convert_value_def insertValue_def V_push_back_def
      make_block_def to_decimal_1 Let_def fun_upd_twist)

lemma select_b_aa_result:
  "executeSelect sample_platform tables_aa select_b
     = Inr (QueryResult_message False
              (''Error reading data: Column '' @ sq @ ''b'' @ sq @ '' not found in block''))"
  by (simp add: executeSelect_def sample_defs structure_defs storage_defs block_defs
      result_defs Let_def apply_limit_def)

lemma count_star_aa_result:
  "executeSelect sample_platform tables_aa select_count_star
     = Inr (QueryResult_message False
              (''Error reading data: Column '' @ sq @ ''b'' @ sq @ '' not found in block''))"
  by (simp add: executeSelect_def sample_defs structure_defs storage_defs block_defs
      result_defs Let_def apply_limit_def)

lemma select_b_a_result:
  "executeSelect sample_platform tables_t select_b_a
     = Inr (QueryResult_blocks
              [\<lparr>b_columns =
                  [\<lparr>cw_name = ''a'', cw_column = ColumnVector (V_int32 [2, 4]) DataTypeInt32\<rparr>,
                   \<lparr>cw_name = ''b'', cw_column = ColumnVector (V_int32 [1, 3]) DataTypeInt32\<rparr>],
                b_column_indices = [''a'' \<mapsto> 0, ''b'' \<mapsto> 1]\<rparr>]
              [''b'', ''a''])"
  by (simp add: executeSelect_def sample_defs structure_defs storage_defs block_defs
      result_defs Let_def apply_limit_def)




lemma all_null_block_no_non_null: "no_non_null [all_null_block] ''x''"
  by (simp add: no_non_null_def all_null_block_def block_defs upt_rec)

section \<open>WHERE, GROUP BY and ORDER BY\<close>

lemma executeSelect_ignores_clauses:
  "executeSelect P tables
     (ast\<lparr>sel_where_expr := w, sel_group_by_columns := g, sel_order_by_columns := ob\<rparr>)
     = executeSelect P tables ast"
  by (simp add: executeSelect_def Let_def
      cong: option.case_cong sum.case_cong prod.case_cong if_cong)

lemma select_of_match_clauses:
  "select_of_match E P (m\<lparr>m_where := w', m_group_by := g', m_order_by := ob'\<rparr>) =
     (case select_of_match E P m of
        Inl e \<Rightarrow> Inl e
      | Inr ast \<Rightarrow>
          Inr (ast\<lparr>sel_where_expr := (case w' of Some w \<Rightarrow> w | None \<Rightarrow> []),
                   sel_group_by_columns :=
                     (case g' of Some g \<Rightarrow> column_regex_matches E g | None \<Rightarrow> []),
                   sel_order_by_columns :=
                     (case ob' of
                        Some ob \<Rightarrow>
                          map (\<lambda>(column_name, direction).
                                 (column_name,
                                  (case direction of
                                     Some d \<Rightarrow> toUpper d = ''DESC'' | None \<Rightarrow> False)))
                            (order_regex_matches E ob)
                      | None \<Rightarrow> [])\<rparr>))"
proof (cases "parse_select_columns E (m_columns m)")
  case (Inl e)
  then show ?thesis by (simp add: select_of_match_def)
next
  case c: (Inr p)
  obtain sa ce where p: "p = (sa, ce)" by (cases p)
  show ?thesis
    using c p by (cases "parse_limit P (m_limit m)") (simp_all add: select_of_match_def)
qed

text \<open>
  Claim C6. The executor never reads the WHERE expression, the GROUP BY columns or the
  ORDER BY columns of a SELECT: replacing them by any others leaves the result, blocks
  and row values, as it was. The same holds from the captures of the statement's text:
  the three captures of the clauses do not reach the result.
\<close>

theorem where_group_order_ignored:
  "executeSelect P tables
     (ast\<lparr>sel_where_expr := w, sel_group_by_columns := g, sel_order_by_columns := ob\<rparr>)
     = executeSelect P tables ast
   \<and> run_select E P tables (m\<lparr>m_where := w', m_group_by := g', m_order_by := ob'\<rparr>)
     = run_select E P tables m"
  unfolding run_select_def select_of_match_clauses
  by (cases "select_of_match E P m") (simp_all add: executeSelect_ignores_clauses)

theorem where_group_order_ignored_witness:
  "executeSelect sample_platform tables_t
     (select_b_a\<lparr>sel_where_expr := ''a > 2'', sel_group_by_columns := [''b''],
                 sel_order_by_columns := [(''a'', True)]\<rparr>)
     = executeSelect sample_platform tables_t select_b_a"
  using where_group_order_ignored
    [where P = sample_platform and tables = tables_t and ast = select_b_a
       and w = "''a > 2''" and g = "[''b'']" and ob = "[(''a'', True)]"]
  by blast

section \<open>Aggregates over a column without values\<close>

lemma fold_entries_all_null:
  assumes "\<And>acc. step F_monostate acc = Inr acc"
    and "list_all (\<lambda>i. IColumn_at column i = Inr F_monostate) is"
  shows "fold_entries step column is acc = Inr acc"
  using assms(2) by (induction "is" arbitrary: acc) (simp_all add: assms(1))

lemma fold_blocks_no_non_null:
  assumes "\<And>acc. step F_monostate acc = Inr acc"
    and "no_non_null blocks column_name"
  shows "fold_blocks step blocks column_name acc = Inr acc"
  using assms(2)
proof (induction blocks)
  case Nil
  then show ?case by simp
next
  case (Cons block blocks)
  then have rest: "fold_blocks step blocks column_name acc = Inr acc"
    by (simp add: no_non_null_def)
  show ?case
  proof (cases "getColumnCount block = 0 \<or> getRowCount block = 0")
    case True
    then show ?thesis using rest by simp
  next
    case False
    with Cons.prems obtain col where col: "getColumnByName block column_name = Inr col"
      and nulls: "list_all (\<lambda>i. IColumn_at (cw_column col) i = Inr F_monostate)
                    [0..<IColumn_size (cw_column col)]"
      by (auto simp: no_non_null_def split: sum.splits)
    have "fold_entries step (cw_column col) [0..<IColumn_size (cw_column col)] acc = Inr acc"
      using assms(1) nulls by (rule fold_entries_all_null)
    then show ?thesis using False col rest by simp
  qed
qed

lemma accumulators_without_non_null:
  assumes "no_non_null blocks column_name"
  shows "computeSum P R T blocks column_name = Inr 0
    \<and> computeAvg P T blocks column_name = Inr 0
    \<and> (blocks \<noteq> [] \<longrightarrow>
         computeMin P T blocks column_name
           = Inl (runtime_error ''No non-NULL values found for MIN calculation'')
         \<and> computeMax P T blocks column_name
           = Inl (runtime_error ''No non-NULL values found for MAX calculation''))
    \<and> (blocks = [] \<longrightarrow>
         computeMin P T blocks column_name = Inl (runtime_error ''No data to compute minimum'')
         \<and> computeMax P T blocks column_name = Inl (runtime_error ''No data to compute maximum''))"
proof (intro conjI impI)
  show "computeSum P R T blocks column_name = Inr 0"
    unfolding computeSum_def by (rule fold_blocks_no_non_null[OF _ assms]) simp
  show "computeAvg P T blocks column_name = Inr 0"
    unfolding computeAvg_def
    by (subst fold_blocks_no_non_null[OF _ assms]) (simp_all add: split_def)
  show "computeMin P T blocks column_name
           = Inl (runtime_error ''No non-NULL values found for MIN calculation'')"
    if "blocks \<noteq> []"
    unfolding computeMin_def using that
    by (subst fold_blocks_no_non_null[OF _ assms]) (simp_all add: split_def)
  show "computeMax P T blocks column_name
           = Inl (runtime_error ''No non-NULL values found for MAX calculation'')"
    if "blocks \<noteq> []"
    unfolding computeMax_def using that
    by (subst fold_blocks_no_non_null[OF _ assms]) (simp_all add: split_def)
  show "computeMin P T blocks column_name = Inl (runtime_error ''No data to compute minimum'')"
    if "blocks = []"
    using that by (simp add: computeMin_def)
  show "computeMax P T blocks column_name = Inl (runtime_error ''No data to compute maximum'')"
    if "blocks = []"
    using that by (simp add: computeMax_def)
qed

lemma column_all_null_D:
  assumes "column_all_null b c"
  obtains col where "getColumnByName b c = Inr col"
    and "list_all (\<lambda>i. IColumn_at (cw_column col) i = Inr F_monostate)
           [0..<IColumn_size (cw_column col)]"
  using assms
  by (auto simp: column_all_null_def column_named_def split: sum.splits option.splits)

lemma getColumnByName_single:
  "getColumnByName (addColumn Block_empty c column) c
     = Inr \<lparr>cw_name = c, cw_column = column\<rparr>"
  by (simp add: getColumnByName_def getColumnIndex_def getColumnByIndex_def addColumn_def
      Block_empty_def)

lemma read_blocks_all_null:
  assumes "list_all (\<lambda>b. column_all_null b c) bs"
  shows "\<exists>rs. read_blocks bs [c] = Inr rs \<and> length rs = length bs \<and> no_non_null rs c"
  using assms
proof (induction bs)
  case Nil
  then show ?case by (simp add: no_non_null_def)
next
  case (Cons b bs)
  then obtain rs where rs: "read_blocks bs [c] = Inr rs" "length rs = length bs"
      "no_non_null rs c"
    by auto
  from Cons.prems have "column_all_null b c" by simp
  then obtain col where col: "getColumnByName b c = Inr col"
    and nulls: "list_all (\<lambda>i. IColumn_at (cw_column col) i = Inr F_monostate)
                  [0..<IColumn_size (cw_column col)]"
    by (rule column_all_null_D)
  let ?x = "addColumn Block_empty c (cw_column col)"
  have r: "read_blocks (b # bs) [c] = Inr (?x # rs)"
    using rs(1) col by simp
  have "no_non_null (?x # rs) c"
    using rs(3) nulls by (simp add: no_non_null_def getColumnByName_single)
  then show ?case using r rs(2) by simp
qed

lemma aggregate_dispatch_arithmetic:
  "is_arithmetic T \<Longrightarrow>
     aggregate_dispatch P T e bs =
       (case computeAggregate P T e bs of Inl x \<Rightarrow> Inl x | Inr r \<Rightarrow> Inr (Inr r))"
  by (cases T)
     (simp_all add: aggregate_dispatch_def is_arithmetic_def is_signed_integral_def
        is_unsigned_integral_def is_floating_point_def)

lemma aggregate_single:
  assumes "f \<in> {Agg_SUM, Agg_AVG, Agg_MIN, Agg_MAX}"
    and "column_kind st c = Some T" and "is_arithmetic T"
  shows "aggregate_columns P st bs [\<lparr>ce_column = c, ce_alias = alias, ce_agg_type = f\<rparr>]
           Block_empty [] =
     (case computeAggregate P T \<lparr>ce_column = c, ce_alias = alias, ce_agg_type = f\<rparr> bs of
        Inl x \<Rightarrow> Inl x
      | Inr r \<Rightarrow>
          Inr (Inr (addColumn Block_empty
                      (if alias = [] then getAggregateFunctionName f @ ''('' @ c @ '')''
                       else alias) (snd r),
                    [if alias = [] then getAggregateFunctionName f @ ''('' @ c @ '')''
                     else alias])))"
proof -
  from assms(2) obtain col_def where d: "TableStructure_getColumnByName st c = Inr col_def"
    and T: "getTypeId (cd_type col_def) = T"
    by (auto simp: column_kind_def split: sum.splits)
  have n: "f \<noteq> Agg_NONE" and k: "f \<noteq> Agg_COUNT" using assms(1) by auto
  show ?thesis
    using n k d T aggregate_dispatch_arithmetic[OF assms(3)]
    by (simp add: Let_def split: sum.splits)
qed

lemma select_single_aggregate:
  assumes t: "tables (sel_table_name ast) = Some storage"
    and a: "\<not> sel_select_all ast"
    and c: "sel_columns ast = [\<lparr>ce_column = c, ce_alias = alias, ce_agg_type = f\<rparr>]"
    and f: "f \<in> {Agg_SUM, Agg_AVG, Agg_MIN, Agg_MAX}"
    and h: "hasColumn (ms_structure storage) c"
    and k: "column_kind (ms_structure storage) c = Some T"
    and ar: "is_arithmetic T"
    and n: "list_all (\<lambda>b. column_all_null b c) (ms_blocks storage)"
  shows "(ms_blocks storage = [] \<longrightarrow>
            executeSelect P tables ast
              = Inr (QueryResult_blocks [] [if alias \<noteq> [] then alias else c]))
       \<and> (ms_blocks storage \<noteq> [] \<longrightarrow>
            (\<exists>rs. rs \<noteq> [] \<and> no_non_null rs c
               \<and> executeSelect P tables ast =
                   (case computeAggregate P T
                           \<lparr>ce_column = c, ce_alias = alias, ce_agg_type = f\<rparr> rs of
                      Inl x \<Rightarrow> Inl x
                    | Inr r \<Rightarrow>
                        Inr (QueryResult_blocks
                               [addColumn Block_empty
                                  (if alias = []
                                   then getAggregateFunctionName f @ ''('' @ c @ '')''
                                   else alias) (snd r)]
                               [if alias = []
                                then getAggregateFunctionName f @ ''('' @ c @ '')''
                                else alias]))))"
proof -
  let ?e = "\<lparr>ce_column = c, ce_alias = alias, ce_agg_type = f\<rparr>"
  let ?st = "ms_structure storage"
  have nn: "f \<noteq> Agg_NONE" and nc: "f \<noteq> Agg_COUNT" using f by auto
  have r: "resolve_columns ?st [?e] [] False = Inr (Inr ([c], True))"
    using nn nc h by simp
  have fnd: "find (\<lambda>col_name. \<not> hasColumn ?st col_name) [c] = None"
    using h by simp
  show ?thesis
  proof (intro conjI impI)
    assume "ms_blocks storage = []"
    then show "executeSelect P tables ast
              = Inr (QueryResult_blocks [] [if alias \<noteq> [] then alias else c])"
      using t a h
      by (simp add: executeSelect_def c r MemoryStorage_read_def catch_exception_def
          apply_limit_def Let_def del: resolve_columns.simps)
  next
    assume ne: "ms_blocks storage \<noteq> []"
    from read_blocks_all_null[OF n] obtain rs where
      rs: "read_blocks (ms_blocks storage) [c] = Inr rs"
        "length rs = length (ms_blocks storage)" "no_non_null rs c"
      by blast
    have rne: "rs \<noteq> []" using ne rs(2) by auto
    have "executeSelect P tables ast =
                   (case computeAggregate P T ?e rs of
                      Inl x \<Rightarrow> Inl x
                    | Inr r \<Rightarrow>
                        Inr (QueryResult_blocks
                               [addColumn Block_empty
                                  (if alias = []
                                   then getAggregateFunctionName f @ ''('' @ c @ '')''
                                   else alias) (snd r)]
                               [if alias = []
                                then getAggregateFunctionName f @ ''('' @ c @ '')''
                                else alias]))"
      using ne rne rs(1) t a h
      by (simp add: executeSelect_def c r MemoryStorage_read_def catch_exception_def
          aggregate_single[OF f k ar] Let_def
          del: resolve_columns.simps aggregate_columns.simps split: sum.splits)
    then show "\<exists>rs. rs \<noteq> [] \<and> no_non_null rs c
               \<and> executeSelect P tables ast =
                   (case computeAggregate P T ?e rs of
                      Inl x \<Rightarrow> Inl x
                    | Inr r \<Rightarrow>
                        Inr (QueryResult_blocks
                               [addColumn Block_empty
                                  (if alias = []
                                   then getAggregateFunctionName f @ ''('' @ c @ '')''
                                   else alias) (snd r)]
                               [if alias = []
                                then getAggregateFunctionName f @ ''('' @ c @ '')''
                                else alias]))"
      using rne rs(3) by blast
  qed
qed

lemma computeAggregate_no_non_null:
  assumes nn: "no_non_null rs c" and ne: "rs \<noteq> []" and ar: "is_arithmetic T"
  shows "computeAggregate P T \<lparr>ce_column = c, ce_alias = alias, ce_agg_type = Agg_MIN\<rparr> rs
           = Inl (runtime_error ''No non-NULL values found for MIN calculation'')"
    and "computeAggregate P T \<lparr>ce_column = c, ce_alias = alias, ce_agg_type = Agg_MAX\<rparr> rs
           = Inl (runtime_error ''No non-NULL values found for MAX calculation'')"
    and "computeAggregate P T \<lparr>ce_column = c, ce_alias = alias, ce_agg_type = Agg_AVG\<rparr> rs
           = Inr (if alias = [] then ''AVG('' @ c @ '')'' else alias,
                  ColumnVector (V_double [0]) DataTypeFloat64)"
    and "computeAggregate P T \<lparr>ce_column = c, ce_alias = alias, ce_agg_type = Agg_SUM\<rparr> rs
           = Inr (if alias = [] then ''SUM('' @ c @ '')'' else alias,
                  if is_signed_integral T then ColumnVector (V_int64 [0]) DataTypeInt64
                  else if is_unsigned_integral T then ColumnVector (V_uint64 [0]) DataTypeUInt64
                  else ColumnVector (V_double [0]) DataTypeFloat64)"
proof -
  note A = accumulators_without_non_null[OF nn]
  show "computeAggregate P T \<lparr>ce_column = c, ce_alias = alias, ce_agg_type = Agg_MIN\<rparr> rs
           = Inl (runtime_error ''No non-NULL values found for MIN calculation'')"
    using A[of P R_int64 T] ne ar by (simp add: computeAggregate_def)
  show "computeAggregate P T \<lparr>ce_column = c, ce_alias = alias, ce_agg_type = Agg_MAX\<rparr> rs
           = Inl (runtime_error ''No non-NULL values found for MAX calculation'')"
    using A[of P R_int64 T] ne ar by (simp add: computeAggregate_def)
  show "computeAggregate P T \<lparr>ce_column = c, ce_alias = alias, ce_agg_type = Agg_AVG\<rparr> rs
           = Inr (if alias = [] then ''AVG('' @ c @ '')'' else alias,
                  ColumnVector (V_double [0]) DataTypeFloat64)"
    using A[of P R_int64 T] ar
    by (simp add: computeAggregate_def result_name_def getAggregateFunctionName_def)
  show "computeAggregate P T \<lparr>ce_column = c, ce_alias = alias, ce_agg_type = Agg_SUM\<rparr> rs
           = Inr (if alias = [] then ''SUM('' @ c @ '')'' else alias,
                  if is_signed_integral T then ColumnVector (V_int64 [0]) DataTypeInt64
                  else if is_unsigned_integral T then ColumnVector (V_uint64 [0]) DataTypeUInt64
                  else ColumnVector (V_double [0]) DataTypeFloat64)"
    using A[of P R_int64 T] A[of P R_uint64 T] A[of P R_double T] ar
    by (auto simp: computeAggregate_def result_name_def getAggregateFunctionName_def
        is_arithmetic_def)
qed


text \<open>
  Claim C3, as amended. Over a list of blocks in which the column has no non-null entry,
  \<open>computeSum\<close> and \<open>computeAvg\<close> return 0; \<open>computeMin\<close> and \<open>computeMax\<close>
  throw the no-non-null-values error when the list has a block, and the no-data error
  when the list is empty. For a SELECT of one such aggregate over an arithmetic column of
  a table whose stored blocks hold the column with null entries only: when the table
  stores a block, MIN and MAX fail with the no-non-null-values error and SUM and AVG
  return one row holding 0; when the table stores no block, no aggregate is computed and
  the SELECT succeeds with no block and no row.
\<close>

theorem aggregates_without_non_null:
  "(no_non_null blocks column_name \<longrightarrow>
      computeSum P R T blocks column_name = Inr 0
      \<and> computeAvg P T blocks column_name = Inr 0
      \<and> (blocks \<noteq> [] \<longrightarrow>
           computeMin P T blocks column_name
             = Inl (runtime_error ''No non-NULL values found for MIN calculation'')
           \<and> computeMax P T blocks column_name
             = Inl (runtime_error ''No non-NULL values found for MAX calculation''))
      \<and> (blocks = [] \<longrightarrow>
           computeMin P T blocks column_name
             = Inl (runtime_error ''No data to compute minimum'')
           \<and> computeMax P T blocks column_name
             = Inl (runtime_error ''No data to compute maximum'')))
   \<and> (tables (sel_table_name ast) = Some storage
        \<and> \<not> sel_select_all ast
        \<and> sel_columns ast = [\<lparr>ce_column = c, ce_alias = alias, ce_agg_type = f\<rparr>]
        \<and> f \<in> {Agg_SUM, Agg_AVG, Agg_MIN, Agg_MAX}
        \<and> hasColumn (ms_structure storage) c
        \<and> column_kind (ms_structure storage) c = Some T
        \<and> is_arithmetic T
        \<and> list_all (\<lambda>b. column_all_null b c) (ms_blocks storage)
      \<longrightarrow>
        (ms_blocks storage = [] \<longrightarrow>
           executeSelect P tables ast
             = Inr (QueryResult_blocks [] [if alias \<noteq> [] then alias else c]))
        \<and> (ms_blocks storage \<noteq> [] \<longrightarrow>
             (f = Agg_MIN \<longrightarrow>
                execute_Select P tables ast
                  = Inr (QueryResult_message False
                           ''No non-NULL values found for MIN calculation''))
             \<and> (f = Agg_MAX \<longrightarrow>
                  execute_Select P tables ast
                    = Inr (QueryResult_message False
                             ''No non-NULL values found for MAX calculation''))
             \<and> (f = Agg_AVG \<longrightarrow>
                  executeSelect P tables ast
                    = Inr (QueryResult_blocks
                             [addColumn Block_empty
                                (if alias = [] then ''AVG('' @ c @ '')'' else alias)
                                (ColumnVector (V_double [0]) DataTypeFloat64)]
                             [if alias = [] then ''AVG('' @ c @ '')'' else alias]))
             \<and> (f = Agg_SUM \<longrightarrow>
                  executeSelect P tables ast
                    = Inr (QueryResult_blocks
                             [addColumn Block_empty
                                (if alias = [] then ''SUM('' @ c @ '')'' else alias)
                                (if is_signed_integral T
                                 then ColumnVector (V_int64 [0]) DataTypeInt64
                                 else if is_unsigned_integral T
                                 then ColumnVector (V_uint64 [0]) DataTypeUInt64
                                 else ColumnVector (V_double [0]) DataTypeFloat64)]
                             [if alias = [] then ''SUM('' @ c @ '')'' else alias]))))"
proof (rule conjI; rule impI)
  assume "no_non_null blocks column_name"
  from accumulators_without_non_null[OF this]
  show "computeSum P R T blocks column_name = Inr 0
      \<and> computeAvg P T blocks column_name = Inr 0
      \<and> (blocks \<noteq> [] \<longrightarrow>
           computeMin P T blocks column_name
             = Inl (runtime_error ''No non-NULL values found for MIN calculation'')
           \<and> computeMax P T blocks column_name
             = Inl (runtime_error ''No non-NULL values found for MAX calculation''))
      \<and> (blocks = [] \<longrightarrow>
           computeMin P T blocks column_name
             = Inl (runtime_error ''No data to compute minimum'')
           \<and> computeMax P T blocks column_name
             = Inl (runtime_error ''No data to compute maximum''))"
    by blast
next
  assume h: "tables (sel_table_name ast) = Some storage
        \<and> \<not> sel_select_all ast
        \<and> sel_columns ast = [\<lparr>ce_column = c, ce_alias = alias, ce_agg_type = f\<rparr>]
        \<and> f \<in> {Agg_SUM, Agg_AVG, Agg_MIN, Agg_MAX}
        \<and> hasColumn (ms_structure storage) c
        \<and> column_kind (ms_structure storage) c = Some T
        \<and> is_arithmetic T
        \<and> list_all (\<lambda>b. column_all_null b c) (ms_blocks storage)"
  then have ar: "is_arithmetic T" by simp
  from h have S: "(ms_blocks storage = [] \<longrightarrow>
            executeSelect P tables ast
              = Inr (QueryResult_blocks [] [if alias \<noteq> [] then alias else c]))
       \<and> (ms_blocks storage \<noteq> [] \<longrightarrow>
            (\<exists>rs. rs \<noteq> [] \<and> no_non_null rs c
               \<and> executeSelect P tables ast =
                   (case computeAggregate P T
                           \<lparr>ce_column = c, ce_alias = alias, ce_agg_type = f\<rparr> rs of
                      Inl x \<Rightarrow> Inl x
                    | Inr r \<Rightarrow>
                        Inr (QueryResult_blocks
                               [addColumn Block_empty
                                  (if alias = []
                                   then getAggregateFunctionName f @ ''('' @ c @ '')''
                                   else alias) (snd r)]
                               [if alias = []
                                then getAggregateFunctionName f @ ''('' @ c @ '')''
                                else alias]))))"
    by (intro select_single_aggregate) simp_all
  show "(ms_blocks storage = [] \<longrightarrow>
           executeSelect P tables ast
             = Inr (QueryResult_blocks [] [if alias \<noteq> [] then alias else c]))
        \<and> (ms_blocks storage \<noteq> [] \<longrightarrow>
             (f = Agg_MIN \<longrightarrow>
                execute_Select P tables ast
                  = Inr (QueryResult_message False
                           ''No non-NULL values found for MIN calculation''))
             \<and> (f = Agg_MAX \<longrightarrow>
                  execute_Select P tables ast
                    = Inr (QueryResult_message False
                             ''No non-NULL values found for MAX calculation''))
             \<and> (f = Agg_AVG \<longrightarrow>
                  executeSelect P tables ast
                    = Inr (QueryResult_blocks
                             [addColumn Block_empty
                                (if alias = [] then ''AVG('' @ c @ '')'' else alias)
                                (ColumnVector (V_double [0]) DataTypeFloat64)]
                             [if alias = [] then ''AVG('' @ c @ '')'' else alias]))
             \<and> (f = Agg_SUM \<longrightarrow>
                  executeSelect P tables ast
                    = Inr (QueryResult_blocks
                             [addColumn Block_empty
                                (if alias = [] then ''SUM('' @ c @ '')'' else alias)
                                (if is_signed_integral T
                                 then ColumnVector (V_int64 [0]) DataTypeInt64
                                 else if is_unsigned_integral T
                                 then ColumnVector (V_uint64 [0]) DataTypeUInt64
                                 else ColumnVector (V_double [0]) DataTypeFloat64)]
                             [if alias = [] then ''SUM('' @ c @ '')'' else alias])))"
  proof (rule conjI)
    show "ms_blocks storage = [] \<longrightarrow>
           executeSelect P tables ast
             = Inr (QueryResult_blocks [] [if alias \<noteq> [] then alias else c])"
      using S by blast
  next
    show "ms_blocks storage \<noteq> [] \<longrightarrow>
             (f = Agg_MIN \<longrightarrow>
                execute_Select P tables ast
                  = Inr (QueryResult_message False
                           ''No non-NULL values found for MIN calculation''))
             \<and> (f = Agg_MAX \<longrightarrow>
                  execute_Select P tables ast
                    = Inr (QueryResult_message False
                             ''No non-NULL values found for MAX calculation''))
             \<and> (f = Agg_AVG \<longrightarrow>
                  executeSelect P tables ast
                    = Inr (QueryResult_blocks
                             [addColumn Block_empty
                                (if alias = [] then ''AVG('' @ c @ '')'' else alias)
                                (ColumnVector (V_double [0]) DataTypeFloat64)]
                             [if alias = [] then ''AVG('' @ c @ '')'' else alias]))
             \<and> (f = Agg_SUM \<longrightarrow>
                  executeSelect P tables ast
                    = Inr (QueryResult_blocks
                             [addColumn Block_empty
                                (if alias = [] then ''SUM('' @ c @ '')'' else alias)
                                (if is_signed_integral T
                                 then ColumnVector (V_int64 [0]) DataTypeInt64
                                 else if is_unsigned_integral T
                                 then ColumnVector (V_uint64 [0]) DataTypeUInt64
                                 else ColumnVector (V_double [0]) DataTypeFloat64)]
                             [if alias = [] then ''SUM('' @ c @ '')'' else alias]))"
    proof (rule impI)
      assume "ms_blocks storage \<noteq> []"
      with S obtain rs where rne: "rs \<noteq> []" and nn: "no_non_null rs c"
        and e: "executeSelect P tables ast =
                   (case computeAggregate P T
                           \<lparr>ce_column = c, ce_alias = alias, ce_agg_type = f\<rparr> rs of
                      Inl x \<Rightarrow> Inl x
                    | Inr r \<Rightarrow>
                        Inr (QueryResult_blocks
                               [addColumn Block_empty
                                  (if alias = []
                                   then getAggregateFunctionName f @ ''('' @ c @ '')''
                                   else alias) (snd r)]
                               [if alias = []
                                then getAggregateFunctionName f @ ''('' @ c @ '')''
                                else alias]))"
        by blast
      note C = computeAggregate_no_non_null[OF nn rne ar, of P "alias"]
      show "(f = Agg_MIN \<longrightarrow>
                execute_Select P tables ast
                  = Inr (QueryResult_message False
                           ''No non-NULL values found for MIN calculation''))
             \<and> (f = Agg_MAX \<longrightarrow>
                  execute_Select P tables ast
                    = Inr (QueryResult_message False
                             ''No non-NULL values found for MAX calculation''))
             \<and> (f = Agg_AVG \<longrightarrow>
                  executeSelect P tables ast
                    = Inr (QueryResult_blocks
                             [addColumn Block_empty
                                (if alias = [] then ''AVG('' @ c @ '')'' else alias)
                                (ColumnVector (V_double [0]) DataTypeFloat64)]
                             [if alias = [] then ''AVG('' @ c @ '')'' else alias]))
             \<and> (f = Agg_SUM \<longrightarrow>
                  executeSelect P tables ast
                    = Inr (QueryResult_blocks
                             [addColumn Block_empty
                                (if alias = [] then ''SUM('' @ c @ '')'' else alias)
                                (if is_signed_integral T
                                 then ColumnVector (V_int64 [0]) DataTypeInt64
                                 else if is_unsigned_integral T
                                 then ColumnVector (V_uint64 [0]) DataTypeUInt64
                                 else ColumnVector (V_double [0]) DataTypeFloat64)]
                             [if alias = [] then ''SUM('' @ c @ '')'' else alias]))"
        using e C
        by (auto simp: execute_Select_def getAggregateFunctionName_def)
    qed
  qed
qed

lemma block_null_all_null: "list_all (\<lambda>b. column_all_null b ''a'') [block_null]"
  by (simp add: column_all_null_def column_named_def block_null_def block_defs upt_rec)

lemma schema_t_a: "hasColumn schema_t ''a'' \<and> column_kind schema_t ''a'' = Some Int32"
  by (simp add: column_kind_def schema_t_def structure_defs)

theorem aggregates_without_non_null_witness:
  "no_non_null [all_null_block] ''x'' \<and> [all_null_block] \<noteq> [] \<and> no_non_null [] ''x''
   \<and> tables_null ''t'' = Some \<lparr>ms_structure = schema_t, ms_blocks = [block_null]\<rparr>
   \<and> tables_empty_t ''t'' = Some \<lparr>ms_structure = schema_t, ms_blocks = []\<rparr>
   \<and> hasColumn schema_t ''a'' \<and> column_kind schema_t ''a'' = Some Int32
   \<and> is_arithmetic Int32
   \<and> list_all (\<lambda>b. column_all_null b ''a'') [block_null]
   \<and> computeSum sample_platform R_int64 Int32 [all_null_block] ''x'' = Inr 0
   \<and> computeAvg sample_platform Int32 [all_null_block] ''x'' = Inr 0
   \<and> computeMin sample_platform Int32 [all_null_block] ''x''
        = Inl (runtime_error ''No non-NULL values found for MIN calculation'')
   \<and> computeMax sample_platform Int32 [all_null_block] ''x''
        = Inl (runtime_error ''No non-NULL values found for MAX calculation'')
   \<and> computeMin sample_platform Int32 [] ''x'' = Inl (runtime_error ''No data to compute minimum'')
   \<and> computeMax sample_platform Int32 [] ''x'' = Inl (runtime_error ''No data to compute maximum'')
   \<and> executeSelect sample_platform tables_empty_t (select_agg_a Agg_MIN)
        = Inr (QueryResult_blocks [] [''a''])
   \<and> execute_Select sample_platform tables_null (select_agg_a Agg_MIN)
        = Inr (QueryResult_message False ''No non-NULL values found for MIN calculation'')
   \<and> execute_Select sample_platform tables_null (select_agg_a Agg_MAX)
        = Inr (QueryResult_message False ''No non-NULL values found for MAX calculation'')
   \<and> executeSelect sample_platform tables_null (select_agg_a Agg_AVG)
        = Inr (QueryResult_blocks
                 [addColumn Block_empty ''AVG(a)'' (ColumnVector (V_double [0]) DataTypeFloat64)]
                 [''AVG(a)''])
   \<and> executeSelect sample_platform tables_null (select_agg_a Agg_SUM)
        = Inr (QueryResult_blocks
                 [addColumn Block_empty ''SUM(a)'' (ColumnVector (V_int64 [0]) DataTypeInt64)]
                 [''SUM(a)''])"
proof -
  let ?s1 = "\<lparr>ms_structure = schema_t, ms_blocks = [block_null]\<rparr>"
  let ?s0 = "\<lparr>ms_structure = schema_t, ms_blocks = []\<rparr>"
  have n1: "no_non_null [all_null_block] ''x''" by (rule all_null_block_no_non_null)
  have n0: "no_non_null [] ''x''" by (simp add: no_non_null_def)
  have t1: "tables_null ''t'' = Some ?s1" by (simp add: tables_null_def)
  have t0: "tables_empty_t ''t'' = Some ?s0" by (simp add: tables_empty_t_def)
  have ar: "is_arithmetic Int32" by (simp add: is_arithmetic_def is_signed_integral_def)
  have sg: "is_signed_integral Int32" by (simp add: is_signed_integral_def)
  note an = block_null_all_null
  have H: "\<And>tables storage f.
      tables ''t'' = Some storage \<Longrightarrow> ms_structure storage = schema_t \<Longrightarrow>
      f \<in> {Agg_SUM, Agg_AVG, Agg_MIN, Agg_MAX} \<Longrightarrow>
      list_all (\<lambda>b. column_all_null b ''a'') (ms_blocks storage) \<Longrightarrow>
      tables (sel_table_name (select_agg_a f)) = Some storage
        \<and> \<not> sel_select_all (select_agg_a f)
        \<and> sel_columns (select_agg_a f)
            = [\<lparr>ce_column = ''a'', ce_alias = [], ce_agg_type = f\<rparr>]
        \<and> f \<in> {Agg_SUM, Agg_AVG, Agg_MIN, Agg_MAX}
        \<and> hasColumn (ms_structure storage) ''a''
        \<and> column_kind (ms_structure storage) ''a'' = Some Int32
        \<and> is_arithmetic Int32
        \<and> list_all (\<lambda>b. column_all_null b ''a'') (ms_blocks storage)"
    using schema_t_a ar by (simp add: select_agg_a_def select_ast_def)
  note f1 = aggregates_without_non_null
    [of "[all_null_block]" "''x''" sample_platform R_int64 Int32]
  note f0 = aggregates_without_non_null
    [of "[]" "''x''" sample_platform R_int64 Int32]
  note g0 = aggregates_without_non_null
    [of _ _ sample_platform _ Int32 tables_empty_t "select_agg_a Agg_MIN" ?s0 "''a''" "[]" Agg_MIN]
  note g1 = aggregates_without_non_null
    [of _ _ sample_platform _ Int32 tables_null "select_agg_a Agg_MIN" ?s1 "''a''" "[]" Agg_MIN]
  note g2 = aggregates_without_non_null
    [of _ _ sample_platform _ Int32 tables_null "select_agg_a Agg_MAX" ?s1 "''a''" "[]" Agg_MAX]
  note g3 = aggregates_without_non_null
    [of _ _ sample_platform _ Int32 tables_null "select_agg_a Agg_AVG" ?s1 "''a''" "[]" Agg_AVG]
  note g4 = aggregates_without_non_null
    [of _ _ sample_platform _ Int32 tables_null "select_agg_a Agg_SUM" ?s1 "''a''" "[]" Agg_SUM]
  have c1: "computeSum sample_platform R_int64 Int32 [all_null_block] ''x'' = Inr 0
   \<and> computeAvg sample_platform Int32 [all_null_block] ''x'' = Inr 0
   \<and> computeMin sample_platform Int32 [all_null_block] ''x''
        = Inl (runtime_error ''No non-NULL values found for MIN calculation'')
   \<and> computeMax sample_platform Int32 [all_null_block] ''x''
        = Inl (runtime_error ''No non-NULL values found for MAX calculation'')"
    using f1 n1 by blast
  have c0: "computeMin sample_platform Int32 [] ''x'' = Inl (runtime_error ''No data to compute minimum'')
   \<and> computeMax sample_platform Int32 [] ''x'' = Inl (runtime_error ''No data to compute maximum'')"
    using f0 n0 by blast
  have e0: "executeSelect sample_platform tables_empty_t (select_agg_a Agg_MIN)
        = Inr (QueryResult_blocks [] [''a''])"
    using g0 H[of tables_empty_t ?s0 Agg_MIN] t0 by simp
  have e1: "execute_Select sample_platform tables_null (select_agg_a Agg_MIN)
        = Inr (QueryResult_message False ''No non-NULL values found for MIN calculation'')"
    using g1 H[of tables_null ?s1 Agg_MIN] t1 an by simp
  have e2: "execute_Select sample_platform tables_null (select_agg_a Agg_MAX)
        = Inr (QueryResult_message False ''No non-NULL values found for MAX calculation'')"
    using g2 H[of tables_null ?s1 Agg_MAX] t1 an by simp
  have e3: "executeSelect sample_platform tables_null (select_agg_a Agg_AVG)
        = Inr (QueryResult_blocks
                 [addColumn Block_empty ''AVG(a)'' (ColumnVector (V_double [0]) DataTypeFloat64)]
                 [''AVG(a)''])"
    using g3 H[of tables_null ?s1 Agg_AVG] t1 an by simp
  have e4: "executeSelect sample_platform tables_null (select_agg_a Agg_SUM)
        = Inr (QueryResult_blocks
                 [addColumn Block_empty ''SUM(a)'' (ColumnVector (V_int64 [0]) DataTypeInt64)]
                 [''SUM(a)''])"
    using g4 H[of tables_null ?s1 Agg_SUM] t1 an sg by simp
  show ?thesis
    using n1 n0 t1 t0 schema_t_a ar an c1 c0 e0 e1 e2 e3 e4 by simp
qed

text \<open>
  The claim as stated fails on a table without rows: \<^verbatim>\<open>SELECT MIN(a) FROM t\<close>
  succeeds there, with no block; and \<open>computeMin\<close> on no block throws the no-data
  error, not the no-non-null-values error.
\<close>

theorem aggregate_on_empty_table_counterexample:
  "executeSelect sample_platform tables_empty_t select_min_a = Inr (QueryResult_blocks [] [''a''])
   \<and> qr_success (QueryResult_blocks [] [''a''])
   \<and> computeMin sample_platform Int32 [] ''a''
        = Inl (runtime_error ''No data to compute minimum'')"
  by (simp add: min_empty QueryResult_blocks_def computeMin_def)

section \<open>INSERT\<close>

lemma scalar_kind_getTypeId: "scalar_kind (getTypeId ty) \<longleftrightarrow> getTypeId ty \<noteq> Nullable"
  by (cases ty)
     (simp_all add: scalar_kind_def is_arithmetic_def is_signed_integral_def
        is_unsigned_integral_def is_floating_point_def)


lemma make_column_None: "make_column ty = None \<longleftrightarrow> getTypeId ty = Nullable"
  by (cases ty) (simp_all add: make_column_def)

lemma make_column_Some:
  "make_column ty = Some c \<Longrightarrow>
     \<exists>d. c = ColumnVector d ty \<and> V_kind d = getTypeId ty \<and> V_size d = 0"
  by (cases ty) (auto simp: make_column_def)

lemma column_kind_Some:
  "column_kind st n = Some T \<longleftrightarrow>
     (\<exists>cd. TableStructure_getColumnByName st n = Inr cd \<and> T = getTypeId (cd_type cd))"
  by (auto simp: column_kind_def split: sum.splits)

lemma create_columns_not_success:
  "create_columns st names = Inr (Inl r) \<Longrightarrow> \<not> qr_success r"
proof (induction names arbitrary: r)
  case Nil
  then show ?case by simp
next
  case (Cons n names)
  then show ?case
    by (auto simp: unsupported_column_def QueryResult_message_def
        split: sum.splits option.splits)
qed

lemma create_columns_success:
  "create_columns st names = Inr (Inr cols) \<Longrightarrow>
     list_all2 (\<lambda>n c. column_fits st n c \<and> IColumn_size c = 0) names cols"
proof (induction names arbitrary: cols)
  case Nil
  then show ?case by simp
next
  case (Cons n names)
  from Cons.prems obtain cd c cs where cd: "TableStructure_getColumnByName st n = Inr cd"
    and c: "make_column (cd_type cd) = Some c"
    and cs: "create_columns st names = Inr (Inr cs)" and cols: "cols = c # cs"
    by (auto split: sum.splits option.splits)
  from make_column_Some[OF c] obtain d where d: "c = ColumnVector d (cd_type cd)"
    "V_kind d = getTypeId (cd_type cd)" "V_size d = 0" by blast
  have "getTypeId (cd_type cd) \<noteq> Nullable" using c make_column_None[of "cd_type cd"] by auto
  then have "column_fits st n c \<and> IColumn_size c = 0"
    using cd d by (simp add: column_fits_def scalar_kind_getTypeId)
  then show ?case using Cons.IH[OF cs] cols by simp
qed



lemma create_columns_all_scalar:
  assumes "list_all (\<lambda>n. \<exists>T. column_kind st n = Some T \<and> T \<noteq> Nullable) names"
  shows "\<exists>cols. create_columns st names = Inr (Inr cols)"
  using assms
proof (induction names)
  case Nil
  then show ?case by simp
next
  case (Cons n names)
  then obtain cd where cd: "TableStructure_getColumnByName st n = Inr cd"
    and k: "getTypeId (cd_type cd) \<noteq> Nullable"
    by (auto simp: column_kind_Some)
  then obtain c where "make_column (cd_type cd) = Some c"
    using make_column_None[of "cd_type cd"] by (cases "make_column (cd_type cd)") auto
  moreover from Cons obtain cols where "create_columns st names = Inr (Inr cols)" by auto
  ultimately show ?case using cd by simp
qed

lemma fill_row_not_success:
  "fill_row P st names row i cols = Inr (Inl r) \<Longrightarrow> \<not> qr_success r"
proof (induction row arbitrary: i cols)
  case Nil
  then show ?case by simp
next
  case (Cons v row)
  then show ?case
    by (auto simp: unsupported_column_def conversion_error_def QueryResult_message_def Let_def
        split: sum.splits option.splits if_splits)
qed

lemma fill_rows_not_success:
  "fill_rows P st names rows cols = Inr (Inl r) \<Longrightarrow> \<not> qr_success r"
proof (induction rows arbitrary: cols)
  case Nil
  then show ?case by simp
next
  case (Cons row rows)
  then show ?case
    by (auto split: sum.splits dest: fill_row_not_success)
qed

lemma MemoryStorage_insert_Inr:
  "MemoryStorage_insert storage block = Inr storage' \<Longrightarrow>
     storage' = storage\<lparr>ms_blocks := ms_blocks storage @ [block]\<rparr>"
  by (auto simp: MemoryStorage_insert_def split: sum.splits if_splits)

lemma executeInsert_cases:
  assumes "executeInsert P tables ast = Inr (res, tables')"
  shows "(\<not> qr_success res \<and> tables' = tables)
    \<or> (\<exists>storage cols0 cols.
          tables (ins_table_name ast) = Some storage
          \<and> find (\<lambda>c. \<not> hasColumn (ms_structure storage) c) (ins_column_names ast) = None
          \<and> ins_values ast \<noteq> []
          \<and> list_all (\<lambda>row. length row = length (target_columns (ms_structure storage) ast))
               (ins_values ast)
          \<and> create_columns (ms_structure storage) (target_columns (ms_structure storage) ast)
               = Inr (Inr cols0)
          \<and> fill_rows P (ms_structure storage) (target_columns (ms_structure storage) ast)
               (ins_values ast) cols0 = Inr (Inr cols)
          \<and> MemoryStorage_insert storage
               (make_block (target_columns (ms_structure storage) ast) cols)
               = Inr (storage\<lparr>ms_blocks := ms_blocks storage
                        @ [make_block (target_columns (ms_structure storage) ast) cols]\<rparr>)
          \<and> tables' = tables(ins_table_name ast \<mapsto>
                storage\<lparr>ms_blocks := ms_blocks storage
                        @ [make_block (target_columns (ms_structure storage) ast) cols]\<rparr>)
          \<and> res = QueryResult_message True
                (to_decimal (length (ins_values ast)) @ '' row(s) inserted successfully''))"
proof (cases "tables (ins_table_name ast)")
  case None
  then show ?thesis using assms
    by (auto simp: executeInsert_def table_missing_def QueryResult_message_def)
next
  case (Some storage)
  let ?st = "ms_structure storage"
  let ?names = "target_columns ?st ast"
  have names: "(if ins_column_names ast = [] then map cd_name (ts_columns ?st)
                else ins_column_names ast) = ?names"
    by (simp add: target_columns_def)
  have ex: "list_ex (\<lambda>row. length row \<noteq> length ?names) (ins_values ast)
            \<longleftrightarrow> \<not> list_all (\<lambda>row. length row = length ?names) (ins_values ast)"
    by (simp add: list_ex_iff list_all_iff)
  have unfold: "executeInsert P tables ast =
      (case (if ins_column_names ast = [] then None
             else find (\<lambda>col_name. \<not> hasColumn ?st col_name) ?names) of
         Some col_name \<Rightarrow> Inr (column_missing col_name, tables)
       | None \<Rightarrow>
           if ins_values ast = []
           then Inr (QueryResult_message False ''No values to insert'', tables)
           else if list_ex (\<lambda>row. length row \<noteq> length ?names) (ins_values ast)
           then Inr (QueryResult_message False
                       ''Values count doesn't match columns count'', tables)
           else
             (case create_columns ?st ?names of
                Inl e \<Rightarrow> Inl e
              | Inr (Inl result) \<Rightarrow> Inr (result, tables)
              | Inr (Inr columns) \<Rightarrow>
                  (case fill_rows P ?st ?names (ins_values ast) columns of
                     Inl e \<Rightarrow> Inl e
                   | Inr (Inl result) \<Rightarrow> Inr (result, tables)
                   | Inr (Inr columns') \<Rightarrow>
                       (case catch_exception
                               (MemoryStorage_insert storage (make_block ?names columns'))
                               (\<lambda>e. QueryResult_message False
                                       (''Error inserting data: '' @ what e)) of
                          Inl e \<Rightarrow> Inl e
                        | Inr (Inl result) \<Rightarrow> Inr (result, tables)
                        | Inr (Inr storage') \<Rightarrow>
                            Inr (QueryResult_message True
                                   (to_decimal (length (ins_values ast))
                                      @ '' row(s) inserted successfully''),
                                 tables(ins_table_name ast \<mapsto> storage'))))))"
    unfolding executeInsert_def Let_def Some option.case names ..
  have fnd: "(if ins_column_names ast = [] then None
             else find (\<lambda>col_name. \<not> hasColumn ?st col_name) ?names)
         = find (\<lambda>c. \<not> hasColumn ?st c) (ins_column_names ast)"
    by (simp add: target_columns_def)
  from assms show ?thesis
    unfolding unfold fnd
    by (auto simp: Some column_missing_def QueryResult_message_def catch_exception_def ex
        split: option.splits sum.splits if_splits
        dest: create_columns_not_success fill_rows_not_success MemoryStorage_insert_Inr)
qed


lemma map_sum_id_Inr: "map_sum id g x = Inr f \<Longrightarrow> \<exists>v. x = Inr v \<and> f = g v"
  by (cases x) auto

lemma convert_value_kind: "convert_value P T s = Some (Inr f) \<Longrightarrow> Field_getTypeId f = T"
  by (cases T) (auto simp: convert_value_def dest!: map_sum_id_Inr)

lemma convert_value_scalar: "scalar_kind T \<Longrightarrow> convert_value P T s \<noteq> None"
  by (cases T)
     (simp_all add: convert_value_def scalar_kind_def is_arithmetic_def is_signed_integral_def
        is_unsigned_integral_def is_floating_point_def)

lemma V_push_back_kind:
  "Field_getTypeId f = V_kind d \<Longrightarrow>
     \<exists>d'. V_push_back d f = Some d' \<and> V_kind d' = V_kind d \<and> V_size d' = Suc (V_size d)"
  by (cases d; cases f; simp add: V_push_back_def)

lemma column_fits_D:
  "column_fits st n c \<Longrightarrow>
     \<exists>cd d. TableStructure_getColumnByName st n = Inr cd \<and> c = ColumnVector d (cd_type cd)
        \<and> V_kind d = getTypeId (cd_type cd) \<and> scalar_kind (getTypeId (cd_type cd))"
  by (auto simp: column_fits_def split: sum.splits IColumn.splits)

lemma insertValue_fits:
  assumes "column_fits st n c" and "TableStructure_getColumnByName st n = Inr cd"
    and "convert_value P (getTypeId (cd_type cd)) s = Some (Inr f)"
  shows "\<exists>c'. insertValue c f = Inr c' \<and> column_fits st n c'
            \<and> IColumn_size c' = Suc (IColumn_size c)"
proof -
  from assms(1,2) obtain d where c: "c = ColumnVector d (cd_type cd)"
    and k: "V_kind d = getTypeId (cd_type cd)" and sk: "scalar_kind (V_kind d)"
    by (auto simp: column_fits_def split: IColumn.splits)
  from convert_value_kind[OF assms(3)] k have "Field_getTypeId f = V_kind d" by simp
  from V_push_back_kind[OF this] obtain d' where d': "V_push_back d f = Some d'"
    "V_kind d' = V_kind d" "V_size d' = Suc (V_size d)" by blast
  then show ?thesis using c k sk assms(2) by (simp add: insertValue_def column_fits_def)
qed

lemma fill_row_result:
  assumes "length cols = length names"
    and "\<forall>j<length names. column_fits st (names ! j) (cols ! j)"
    and "i + length row = length names"
  shows "(\<exists>k<length row. \<exists>e. conversion_fails P st (names ! (i + k)) (row ! k) = Some e
            \<and> fill_row P st names row i cols
                = Inr (Inl (conversion_error (row ! k) (names ! (i + k)) e)))
       \<or> (\<exists>cols'. fill_row P st names row i cols = Inr (Inr cols')
             \<and> length cols' = length names
             \<and> (\<forall>j<length names. column_fits st (names ! j) (cols' ! j)
                   \<and> IColumn_size (cols' ! j)
                       = IColumn_size (cols ! j) + (if i \<le> j then 1 else 0))
             \<and> (\<forall>k<length row. conversion_fails P st (names ! (i + k)) (row ! k) = None))"
  using assms
proof (induction row arbitrary: i cols)
  case Nil
  then show ?case by simp
next
  case (Cons v row)
  then have i: "i < length names" "i < length cols" by simp_all
  from Cons.prems(2) i have fit_i: "column_fits st (names ! i) (cols ! i)" by simp
  from column_fits_D[OF fit_i]
  obtain cd where cd: "TableStructure_getColumnByName st (names ! i) = Inr cd"
    and sk: "scalar_kind (getTypeId (cd_type cd))"
    by blast
  have kind: "column_kind st (names ! i) = Some (getTypeId (cd_type cd))"
    using cd by (simp add: column_kind_def)
  from convert_value_scalar[OF sk] obtain x where
    x: "convert_value P (getTypeId (cd_type cd)) v = Some x" by blast
  show ?case
  proof (cases x)
    case (Inl e)
    then have "fill_row P st names (v # row) i cols
                 = Inr (Inl (conversion_error v (names ! i) e))"
      using i cd x by (simp add: Let_def)
    moreover have "conversion_fails P st (names ! i) v = Some e"
      using kind x Inl by (simp add: conversion_fails_def)
    ultimately have "\<exists>k<length (v # row). \<exists>e. conversion_fails P st (names ! (i + k)) ((v # row) ! k) = Some e
            \<and> fill_row P st names (v # row) i cols
                = Inr (Inl (conversion_error ((v # row) ! k) (names ! (i + k)) e))"
      by (intro exI[of _ 0]) simp
    then show ?thesis by blast
  next
    case (Inr f)
    from insertValue_fits[OF fit_i cd] x Inr obtain c' where
      c': "insertValue (cols ! i) f = Inr c'" "column_fits st (names ! i) c'"
      "IColumn_size c' = Suc (IColumn_size (cols ! i))" by blast
    have step: "fill_row P st names (v # row) i cols
                  = fill_row P st names row (Suc i) (cols[i := c'])"
      using i cd x Inr c'(1) by (simp add: Let_def)
    have nofail: "conversion_fails P st (names ! i) v = None"
      using kind x Inr by (simp add: conversion_fails_def)
    have p1: "length (cols[i := c']) = length names" using Cons.prems(1) by simp
    have p2: "\<forall>j<length names. column_fits st (names ! j) (cols[i := c'] ! j)"
      using Cons.prems(1,2) c'(2) i by (auto simp: nth_list_update)
    have p3: "Suc i + length row = length names" using Cons.prems(3) by simp
    from Cons.IH[OF p1 p2 p3] show ?thesis
    proof (elim disjE exE conjE)
      fix k e
      assume k: "k < length row"
        and f: "conversion_fails P st (names ! (Suc i + k)) (row ! k) = Some e"
        and r: "fill_row P st names row (Suc i) (cols[i := c'])
                  = Inr (Inl (conversion_error (row ! k) (names ! (Suc i + k)) e))"
      have "\<exists>k<length (v # row). \<exists>e. conversion_fails P st (names ! (i + k)) ((v # row) ! k) = Some e
            \<and> fill_row P st names (v # row) i cols
                = Inr (Inl (conversion_error ((v # row) ! k) (names ! (i + k)) e))"
        using k f r step by (intro exI[of _ "Suc k"]) simp
      then show ?thesis by blast
    next
      fix cols'
      assume r: "fill_row P st names row (Suc i) (cols[i := c']) = Inr (Inr cols')"
        and l: "length cols' = length names"
        and fit: "\<forall>j<length names. column_fits st (names ! j) (cols' ! j)
                   \<and> IColumn_size (cols' ! j)
                       = IColumn_size (cols[i := c'] ! j) + (if Suc i \<le> j then 1 else 0)"
        and nf: "\<forall>k<length row. conversion_fails P st (names ! (Suc i + k)) (row ! k) = None"
      have sizes: "\<forall>j<length names. column_fits st (names ! j) (cols' ! j)
                   \<and> IColumn_size (cols' ! j)
                       = IColumn_size (cols ! j) + (if i \<le> j then 1 else 0)"
      proof (intro allI impI)
        fix j assume j: "j < length names"
        with fit have a: "column_fits st (names ! j) (cols' ! j)"
          and b: "IColumn_size (cols' ! j)
                    = IColumn_size (cols[i := c'] ! j) + (if Suc i \<le> j then 1 else 0)"
          by auto
        show "column_fits st (names ! j) (cols' ! j)
                   \<and> IColumn_size (cols' ! j)
                       = IColumn_size (cols ! j) + (if i \<le> j then 1 else 0)"
        proof (cases "j = i")
          case True
          then show ?thesis using a b c'(3) i by simp
        next
          case False
          then show ?thesis using a b by auto
        qed
      qed
      have "\<forall>k<length (v # row). conversion_fails P st (names ! (i + k)) ((v # row) ! k) = None"
        using nf nofail by (auto simp: less_Suc_eq_0_disj)
      then show ?thesis using r l sizes step by auto
    qed
  qed
qed

lemma fill_rows_result:
  assumes "length cols = length names"
    and "\<forall>j<length names. column_fits st (names ! j) (cols ! j) \<and> IColumn_size (cols ! j) = n"
    and "list_all (\<lambda>row. length row = length names) rows"
  shows "(\<exists>row\<in>set rows. \<exists>k<length row. \<exists>e.
            conversion_fails P st (names ! k) (row ! k) = Some e
            \<and> fill_rows P st names rows cols
                = Inr (Inl (conversion_error (row ! k) (names ! k) e)))
       \<or> (\<exists>cols'. fill_rows P st names rows cols = Inr (Inr cols')
             \<and> length cols' = length names
             \<and> (\<forall>j<length names. column_fits st (names ! j) (cols' ! j)
                   \<and> IColumn_size (cols' ! j) = n + length rows)
             \<and> (\<forall>row\<in>set rows. \<forall>k<length row.
                   conversion_fails P st (names ! k) (row ! k) = None))"
  using assms
proof (induction rows arbitrary: cols n)
  case Nil
  then show ?case by simp
next
  case (Cons row rows)
  have len: "0 + length row = length names" using Cons.prems(3) by simp
  have fits: "\<forall>j<length names. column_fits st (names ! j) (cols ! j)"
    using Cons.prems(2) by simp
  from fill_row_result[OF Cons.prems(1) fits len, of P] show ?case
  proof (elim disjE exE conjE)
    fix k e
    assume "k < length row" "conversion_fails P st (names ! (0 + k)) (row ! k) = Some e"
      "fill_row P st names row 0 cols
         = Inr (Inl (conversion_error (row ! k) (names ! (0 + k)) e))"
    then have "\<exists>row'\<in>set (row # rows). \<exists>k<length row'. \<exists>e.
            conversion_fails P st (names ! k) (row' ! k) = Some e
            \<and> fill_rows P st names (row # rows) cols
                = Inr (Inl (conversion_error (row' ! k) (names ! k) e))"
      by (intro bexI[of _ row]) auto
    then show ?thesis by blast
  next
    fix cols'
    assume r: "fill_row P st names row 0 cols = Inr (Inr cols')"
      and l: "length cols' = length names"
      and fit: "\<forall>j<length names. column_fits st (names ! j) (cols' ! j)
                   \<and> IColumn_size (cols' ! j)
                       = IColumn_size (cols ! j) + (if 0 \<le> j then 1 else 0)"
      and nf: "\<forall>k<length row. conversion_fails P st (names ! (0 + k)) (row ! k) = None"
    have fit': "\<forall>j<length names. column_fits st (names ! j) (cols' ! j)
                   \<and> IColumn_size (cols' ! j) = Suc n"
      using fit Cons.prems(2) by simp
    have rest: "list_all (\<lambda>row. length row = length names) rows" using Cons.prems(3) by simp
    have step: "fill_rows P st names (row # rows) cols = fill_rows P st names rows cols'"
      using r by simp
    from Cons.IH[OF l fit' rest] show ?thesis
    proof (elim disjE exE conjE bexE)
      fix row' k e
      assume "row' \<in> set rows" "k < length row'"
        "conversion_fails P st (names ! k) (row' ! k) = Some e"
        "fill_rows P st names rows cols'
           = Inr (Inl (conversion_error (row' ! k) (names ! k) e))"
      then have "\<exists>row'\<in>set (row # rows). \<exists>k<length row'. \<exists>e.
            conversion_fails P st (names ! k) (row' ! k) = Some e
            \<and> fill_rows P st names (row # rows) cols
                = Inr (Inl (conversion_error (row' ! k) (names ! k) e))"
        using step by (intro bexI[of _ row']) auto
      then show ?thesis by blast
    next
      fix cols''
      assume "fill_rows P st names rows cols' = Inr (Inr cols'')"
        "length cols'' = length names"
        "\<forall>j<length names. column_fits st (names ! j) (cols'' ! j)
                   \<and> IColumn_size (cols'' ! j) = Suc n + length rows"
        "\<forall>row\<in>set rows. \<forall>k<length row. conversion_fails P st (names ! k) (row ! k) = None"
      then show ?thesis using step nf by auto
    qed
  qed
qed

lemma make_block_columns_aux:
  "b_columns (foldl (\<lambda>block (col_name, column). addColumn block col_name column) b ncs)
     = b_columns b @ map (\<lambda>(n, c). \<lparr>cw_name = n, cw_column = c\<rparr>) ncs"
  by (induction ncs arbitrary: b) (auto simp: addColumn_def)

lemma make_block_columns:
  "b_columns (make_block names cols)
     = map (\<lambda>(n, c). \<lparr>cw_name = n, cw_column = c\<rparr>) (zip names cols)"
  by (simp add: make_block_def make_block_columns_aux Block_empty_def)

lemma validate_columns_mismatch:
  assumes "list_ex (\<lambda>c. \<not> hasColumn st (cw_name c)) cols
      \<or> list_ex
           (\<lambda>c. case TableStructure_getColumnByName st (cw_name c) of
                  Inl e \<Rightarrow> False
                | Inr table_column \<Rightarrow>
                    getTypeId (getDataType (cw_column c)) \<noteq> getTypeId (cd_type table_column))
           cols"
  shows "validate_columns st cols \<noteq> Inr True"
  using assms
proof (induction cols)
  case Nil
  then show ?case by simp
next
  case (Cons c cols)
  show ?case
  proof (cases "TableStructure_getColumnByName st (cw_name c)")
    case (Inl e)
    then show ?thesis by simp
  next
    case (Inr tc)
    then show ?thesis using Cons by (auto split: if_splits)
  qed
qed

lemma insert_mismatch:
  assumes "block_mismatch (ms_structure storage) block"
  shows "\<exists>e. MemoryStorage_insert storage block = Inl e"
proof (cases "getColumnCount block \<noteq> TableStructure_getColumnCount (ms_structure storage)")
  case True
  then show ?thesis by (simp add: MemoryStorage_insert_def validateBlock_def)
next
  case False
  with assms have "validate_columns (ms_structure storage) (b_columns block) \<noteq> Inr True"
    by (intro validate_columns_mismatch) (simp add: block_mismatch_def)
  then show ?thesis using False
    by (cases "validate_columns (ms_structure storage) (b_columns block)")
       (auto simp: MemoryStorage_insert_def validateBlock_def)
qed

lemma execute_Insert_cases:
  assumes "execute_Insert P tables ast = Inr (res, tables')"
  shows "(\<not> qr_success res \<and> tables' = tables)
       \<or> executeInsert P tables ast = Inr (res, tables')"
  using assms
  by (auto simp: execute_Insert_def QueryResult_message_def split: sum.splits if_splits)

lemma executeInsert_failure:
  assumes "executeInsert P tables ast = Inr (res, tables')" and "\<not> qr_success res"
  shows "tables' = tables"
  using executeInsert_cases[OF assms(1)] assms(2) by (auto simp: QueryResult_message_def)

lemma executeInsert_success:
  assumes "executeInsert P tables ast = Inr (res, tables')" and "qr_success res"
  obtains storage cols0 cols where
    "tables (ins_table_name ast) = Some storage"
    "list_all (\<lambda>row. length row = length (target_columns (ms_structure storage) ast))
       (ins_values ast)"
    "create_columns (ms_structure storage) (target_columns (ms_structure storage) ast)
       = Inr (Inr cols0)"
    "fill_rows P (ms_structure storage) (target_columns (ms_structure storage) ast)
       (ins_values ast) cols0 = Inr (Inr cols)"
    "tables' = tables(ins_table_name ast \<mapsto>
       storage\<lparr>ms_blocks := ms_blocks storage
               @ [make_block (target_columns (ms_structure storage) ast) cols]\<rparr>)"
  using executeInsert_cases[OF assms(1)] assms(2) by blast

lemma names_of_zip:
  "length cols = length names \<Longrightarrow>
     map cw_name (map (\<lambda>(n, c). \<lparr>cw_name = n, cw_column = c\<rparr>) (zip names cols)) = names"
  by (induction cols names rule: list_induct2) auto





text \<open>
  What holds of INSERT and the storage engine: a failing INSERT changes no table; a value
  that fails conversion, in a statement that reaches the conversions, gives the error
  naming the value and the column; a block that fails one of the three tests of
  \<^verbatim>\<open>validateBlock\<close> is rejected; a successful INSERT appends one block with the
  target names, every column as long as the rows of the statement.
\<close>

lemma insert_is_atomic:
  "(\<forall>res tables'. execute_Insert P tables ast = Inr (res, tables') \<and> \<not> qr_success res
       \<longrightarrow> tables' = tables)
   \<and> (tables (ins_table_name ast) = Some storage
        \<and> insert_well_formed (ms_structure storage) ast
        \<and> list_all (\<lambda>c. column_kind (ms_structure storage) c \<noteq> Some Nullable)
             (target_columns (ms_structure storage) ast)
        \<and> list_ex (\<lambda>row. list_ex (\<lambda>k. conversion_fails P (ms_structure storage)
                                       (target_columns (ms_structure storage) ast ! k) (row ! k)
                                     \<noteq> None) [0..<length row])
             (ins_values ast)
      \<longrightarrow> (\<exists>row\<in>set (ins_values ast). \<exists>k<length row. \<exists>e.
             conversion_fails P (ms_structure storage)
               (target_columns (ms_structure storage) ast ! k) (row ! k) = Some e
             \<and> executeInsert P tables ast
                 = Inr (conversion_error (row ! k)
                          (target_columns (ms_structure storage) ast ! k) e, tables)))
   \<and> (block_mismatch (ms_structure storage) block
      \<longrightarrow> (\<exists>e. MemoryStorage_insert storage block = Inl e))
   \<and> (\<forall>res tables'. execute_Insert P tables ast = Inr (res, tables') \<and> qr_success res
      \<longrightarrow> (\<exists>storage' new_block.
             tables (ins_table_name ast) = Some storage'
             \<and> tables' = tables(ins_table_name ast \<mapsto>
                  storage'\<lparr>ms_blocks := ms_blocks storage' @ [new_block]\<rparr>)
             \<and> map cw_name (b_columns new_block) = target_columns (ms_structure storage') ast
             \<and> list_all (\<lambda>c. IColumn_size (cw_column c) = length (ins_values ast))
                  (b_columns new_block)))"
proof (intro conjI allI impI)
  fix res tables'
  assume "execute_Insert P tables ast = Inr (res, tables') \<and> \<not> qr_success res"
  then have e: "execute_Insert P tables ast = Inr (res, tables')" and f: "\<not> qr_success res"
    by simp_all
  from execute_Insert_cases[OF e] show "tables' = tables"
  proof (elim disjE)
    assume "\<not> qr_success res \<and> tables' = tables"
    then show ?thesis by simp
  next
    assume "executeInsert P tables ast = Inr (res, tables')"
    from executeInsert_failure[OF this f] show ?thesis .
  qed
next
  let ?st = "ms_structure storage"
  let ?names = "target_columns ?st ast"
  assume a: "tables (ins_table_name ast) = Some storage
        \<and> insert_well_formed ?st ast
        \<and> list_all (\<lambda>c. column_kind ?st c \<noteq> Some Nullable) ?names
        \<and> list_ex (\<lambda>row. list_ex (\<lambda>k. conversion_fails P ?st (?names ! k) (row ! k) \<noteq> None)
                            [0..<length row])
             (ins_values ast)"
  then have t: "tables (ins_table_name ast) = Some storage"
    and has: "list_all (hasColumn ?st) ?names"
    and v: "ins_values ast \<noteq> []"
    and len: "list_all (\<lambda>row. length row = length ?names) (ins_values ast)"
    by (auto simp: insert_well_formed_def list_all_iff)
  from a have "\<forall>n\<in>set ?names. column_kind ?st n \<noteq> None \<and> column_kind ?st n \<noteq> Some Nullable"
    by (auto simp: insert_well_formed_def list_all_iff)
  then have sc: "list_all (\<lambda>n. \<exists>T. column_kind ?st n = Some T \<and> T \<noteq> Nullable) ?names"
    unfolding list_all_iff by fastforce
  from a obtain row0 where row0: "row0 \<in> set (ins_values ast)"
    "list_ex (\<lambda>k. conversion_fails P ?st (?names ! k) (row0 ! k) \<noteq> None) [0..<length row0]"
    unfolding list_ex_iff[of _ "ins_values ast"] by blast
  from row0(2) obtain k0 where k0: "k0 < length row0"
    "conversion_fails P ?st (?names ! k0) (row0 ! k0) \<noteq> None"
    unfolding list_ex_iff by auto
  from row0(1) k0 have fails: "\<exists>row\<in>set (ins_values ast). \<exists>k<length row.
                  conversion_fails P ?st (?names ! k) (row ! k) \<noteq> None"
    by blast
  from create_columns_all_scalar[OF sc] obtain cols0 where
    cols0: "create_columns ?st ?names = Inr (Inr cols0)" by blast
  from create_columns_success[OF cols0] have l0: "length cols0 = length ?names"
    and fit0: "\<forall>j<length ?names. column_fits ?st (?names ! j) (cols0 ! j)
                 \<and> IColumn_size (cols0 ! j) = 0"
    by (auto simp: list_all2_conv_all_nth)
  from fill_rows_result[OF l0 fit0 len, of P] fails
  obtain row k e where r: "row \<in> set (ins_values ast)" "k < length row"
    "conversion_fails P ?st (?names ! k) (row ! k) = Some e"
    "fill_rows P ?st ?names (ins_values ast) cols0
       = Inr (Inl (conversion_error (row ! k) (?names ! k) e))"
    by fastforce
  have f: "(if ins_column_names ast = [] then None
            else find (\<lambda>col_name. \<not> hasColumn ?st col_name)
                   (if ins_column_names ast = [] then map cd_name (ts_columns ?st)
                    else ins_column_names ast)) = None"
    using has by (auto simp: target_columns_def find_None_iff list_all_iff)
  have l: "\<not> list_ex (\<lambda>row. length row \<noteq> length ?names) (ins_values ast)"
    using len by (simp add: list_ex_iff list_all_iff)
  have "executeInsert P tables ast
          = Inr (conversion_error (row ! k) (?names ! k) e, tables)"
    using t v l cols0 r(4) f
    by (simp add: executeInsert_def Let_def target_columns_def)
  with r show "\<exists>row\<in>set (ins_values ast). \<exists>k<length row. \<exists>e.
             conversion_fails P ?st (?names ! k) (row ! k) = Some e
             \<and> executeInsert P tables ast
                 = Inr (conversion_error (row ! k) (?names ! k) e, tables)"
    by blast
next
  assume "block_mismatch (ms_structure storage) block"
  then show "\<exists>e. MemoryStorage_insert storage block = Inl e" by (rule insert_mismatch)
next
  fix res tables'
  assume a: "execute_Insert P tables ast = Inr (res, tables') \<and> qr_success res"
  with execute_Insert_cases have e: "executeInsert P tables ast = Inr (res, tables')" by blast
  from a have "qr_success res" by simp
  from executeInsert_success[OF e this] obtain storage' cols0 cols where
    t: "tables (ins_table_name ast) = Some storage'"
    and len: "list_all (\<lambda>row. length row = length (target_columns (ms_structure storage') ast))
               (ins_values ast)"
    and cols0: "create_columns (ms_structure storage')
                  (target_columns (ms_structure storage') ast) = Inr (Inr cols0)"
    and cols: "fill_rows P (ms_structure storage') (target_columns (ms_structure storage') ast)
                 (ins_values ast) cols0 = Inr (Inr cols)"
    and tb: "tables' = tables(ins_table_name ast \<mapsto>
                storage'\<lparr>ms_blocks := ms_blocks storage'
                        @ [make_block (target_columns (ms_structure storage') ast) cols]\<rparr>)"
    by blast
  let ?st = "ms_structure storage'"
  let ?names = "target_columns ?st ast"
  from create_columns_success[OF cols0] have l0: "length cols0 = length ?names"
    and fit0: "\<forall>j<length ?names. column_fits ?st (?names ! j) (cols0 ! j)
                 \<and> IColumn_size (cols0 ! j) = 0"
    by (auto simp: list_all2_conv_all_nth)
  from fill_rows_result[OF l0 fit0 len, of P] cols
  have l: "length cols = length ?names"
    and sz: "\<forall>j<length ?names. IColumn_size (cols ! j) = length (ins_values ast)"
    by auto
  have n: "map cw_name (b_columns (make_block ?names cols)) = ?names"
    using l by (simp only: make_block_columns names_of_zip)
  have s: "list_all (\<lambda>c. IColumn_size (cw_column c) = length (ins_values ast))
             (b_columns (make_block ?names cols))"
    using l sz by (auto simp: make_block_columns list_all_iff in_set_zip)
  from t tb n s show "\<exists>storage' new_block.
             tables (ins_table_name ast) = Some storage'
             \<and> tables' = tables(ins_table_name ast \<mapsto>
                  storage'\<lparr>ms_blocks := ms_blocks storage' @ [new_block]\<rparr>)
             \<and> map cw_name (b_columns new_block) = target_columns (ms_structure storage') ast
             \<and> list_all (\<lambda>c. IColumn_size (cw_column c) = length (ins_values ast))
                  (b_columns new_block)"
    by blast
qed

text \<open>
  Claim C4, at \<^verbatim>\<open>INSERT INTO t (a, a) VALUES (1, 2)\<close> on the empty table
  \<open>t (b Int32, a Int32)\<close>. The block has the columns \<open>a, a\<close>, the schema the columns
  \<open>b, a\<close>; the storage engine accepts the block and stores it, and a later
  \<^verbatim>\<open>SELECT b FROM t\<close> fails in the read of the stored block.
\<close>

theorem insert_accepts_duplicate_target:
  "executeInsert sample_platform tables_empty_t insert_t_aa
     = Inr (QueryResult_message True ''1 row(s) inserted successfully'', tables_aa)
   \<and> tables_aa ''t'' = Some \<lparr>ms_structure = schema_t, ms_blocks = [block_aa]\<rparr>
   \<and> map cw_name (b_columns block_aa) = [''a'', ''a'']
   \<and> map cd_name (ts_columns schema_t) = [''b'', ''a'']
   \<and> MemoryStorage_insert \<lparr>ms_structure = schema_t, ms_blocks = []\<rparr> block_aa
     = Inr \<lparr>ms_structure = schema_t, ms_blocks = [block_aa]\<rparr>
   \<and> executeSelect sample_platform tables_aa select_b
     = Inr (QueryResult_message False
              (''Error reading data: Column '' @ sq @ ''b'' @ sq @ '' not found in block''))"
  by (simp add: insert_t_aa_result select_b_aa_result)
     (simp add: tables_aa_def block_aa_def schema_t_def storage_defs structure_defs block_defs)

section \<open>LIMIT\<close>

lemma V_fields_length: "length (V_fields d) = V_size d"
  by (cases d) simp_all






lemma column_fields_length: "column_ok c \<Longrightarrow> length (column_fields c) = IColumn_size c"
  by (cases c) (simp_all add: V_fields_length)













lemma valid_sizes:
  "isValid block \<Longrightarrow> c \<in> set (b_columns block) \<Longrightarrow>
     IColumn_size (cw_column c) = getRowCount block"
  by (cases "b_columns block") (auto simp: isValid_def getRowCount_def list_all_iff)















section \<open>COUNT(*)\<close>

lemma getColumnByName_Inr:
  "getColumnByName b c = Inr col \<longleftrightarrow>
     (\<exists>i. b_column_indices b c = Some i \<and> i < length (b_columns b) \<and> col = b_columns b ! i)"
  by (auto simp: getColumnByName_def getColumnIndex_def getColumnByIndex_def
      split: option.splits)

lemma valid_column_size:
  assumes "isValid b" and "getColumnByName b c = Inr col"
  shows "IColumn_size (cw_column col) = getRowCount b"
proof -
  from assms(2) obtain i where i: "i < length (b_columns b)" and col: "col = b_columns b ! i"
    by (auto simp: getColumnByName_Inr)
  then obtain c0 cs where cs: "b_columns b = c0 # cs" by (cases "b_columns b") auto
  show ?thesis
  proof (cases i)
    case 0
    then show ?thesis using cs col by (simp add: getRowCount_def)
  next
    case (Suc j)
    then have "col \<in> set cs" using i cs col by simp
    then show ?thesis using assms(1) cs by (simp add: isValid_def getRowCount_def list_all_iff)
  qed
qed

lemma read_block_single:
  "getColumnByName b c = Inr col \<Longrightarrow>
     read_block b [c] Block_empty = Inr (addColumn Block_empty c (cw_column col))"
  by simp

lemma getRowCount_single:
  "getRowCount (addColumn Block_empty c column) = IColumn_size column"
  by (simp add: getRowCount_def addColumn_def Block_empty_def)

lemma read_blocks_single:
  assumes "list_all (\<lambda>b. isValid b \<and> column_named b c \<noteq> None) bs"
  shows "\<exists>rs. read_blocks bs [c] = Inr rs \<and> map getRowCount rs = map getRowCount bs
            \<and> length rs = length bs"
  using assms
proof (induction bs)
  case Nil
  then show ?case by simp
next
  case (Cons b bs)
  then obtain rs where rs: "read_blocks bs [c] = Inr rs"
      "map getRowCount rs = map getRowCount bs" "length rs = length bs"
    by auto
  from Cons.prems obtain col where col: "getColumnByName b c = Inr col" and v: "isValid b"
    by (auto simp: column_named_def split: sum.splits)
  have "read_blocks (b # bs) [c] = Inr (addColumn Block_empty c (cw_column col) # rs)"
    using rs(1) col by simp
  moreover have "getRowCount (addColumn Block_empty c (cw_column col)) = getRowCount b"
    using valid_column_size[OF v col] by (simp add: getRowCount_single)
  ultimately show ?case using rs by simp
qed

lemma count_star_aggregate:
  assumes "ce_column e = ''*''" and "ce_agg_type e = Agg_COUNT"
  shows "aggregate_columns P st blocks [e] Block_empty [] =
     Inr (Inr (addColumn Block_empty (result_name e)
                 (ColumnVector (V_uint64 [word_of_nat (sum_list (map getRowCount blocks))])
                    DataTypeUInt64),
               [result_name e]))"
  using assms
  by (simp add: aggregate_dispatch_def computeAggregate_def result_name_def Let_def)

lemma count_star_result:
  assumes t: "tables (sel_table_name ast) = Some storage"
    and a: "\<not> sel_select_all ast"
    and c: "sel_columns ast = [\<lparr>ce_column = ''*'', ce_alias = alias, ce_agg_type = Agg_COUNT\<rparr>]"
    and s: "ts_columns (ms_structure storage) = first # others"
    and h: "hasColumn (ms_structure storage) (cd_name first)"
    and b: "list_all (\<lambda>b. isValid b \<and> column_named b (cd_name first) \<noteq> None)
              (ms_blocks storage)"
  shows "(ms_blocks storage \<noteq> [] \<longrightarrow>
            executeSelect P tables ast =
              Inr (QueryResult_blocks
                     [addColumn Block_empty (if alias = [] then ''COUNT(*)'' else alias)
                        (ColumnVector
                           (V_uint64 [word_of_nat (sum_list (map getRowCount (ms_blocks storage)))])
                           DataTypeUInt64)]
                     [if alias = [] then ''COUNT(*)'' else alias]))
       \<and> (ms_blocks storage = [] \<longrightarrow>
            executeSelect P tables ast =
              Inr (QueryResult_blocks [] [if alias \<noteq> [] then alias else ''*'']))"
proof -
  let ?e = "\<lparr>ce_column = ''*'', ce_alias = alias, ce_agg_type = Agg_COUNT\<rparr>"
  let ?st = "ms_structure storage"
  have r: "resolve_columns ?st [?e] [] False = Inr (Inr ([cd_name first], True))"
    using s by (simp add: TableStructure_getColumnByIndex_def)
  have f: "find (\<lambda>col_name. \<not> hasColumn ?st col_name) [cd_name first] = None"
    using h by simp
  from read_blocks_single[OF b] obtain rs where
    rs: "read_blocks (ms_blocks storage) [cd_name first] = Inr rs"
      "map getRowCount rs = map getRowCount (ms_blocks storage)"
      "length rs = length (ms_blocks storage)"
    by blast
  have n: "result_name ?e = (if alias = [] then ''COUNT(*)'' else alias)"
    by (simp add: result_name_def getAggregateFunctionName_def)
  show ?thesis
  proof (intro conjI impI)
    assume ne: "ms_blocks storage \<noteq> []"
    then have "rs \<noteq> []" using rs(3) by auto
    then show "executeSelect P tables ast =
              Inr (QueryResult_blocks
                     [addColumn Block_empty (if alias = [] then ''COUNT(*)'' else alias)
                        (ColumnVector
                           (V_uint64 [word_of_nat (sum_list (map getRowCount (ms_blocks storage)))])
                           DataTypeUInt64)]
                     [if alias = [] then ''COUNT(*)'' else alias])"
      using ne rs(1,2) t a h
      by (simp add: executeSelect_def c r MemoryStorage_read_def catch_exception_def
          count_star_aggregate n Let_def del: resolve_columns.simps aggregate_columns.simps)
  next
    assume "ms_blocks storage = []"
    then show "executeSelect P tables ast =
              Inr (QueryResult_blocks [] [if alias \<noteq> [] then alias else ''*''])"
      using t a h
      by (simp add: executeSelect_def c r MemoryStorage_read_def catch_exception_def
          apply_limit_def Let_def del: resolve_columns.simps)
  qed
qed

lemma make_block_indices_aux:
  assumes "length cols = length names" and "n \<in> set names"
  shows "\<exists>i. b_column_indices
               (foldl (\<lambda>block (col_name, column). addColumn block col_name column) acc
                  (zip names cols)) n = Some i
            \<and> i < length (b_columns acc) + length names"
  using assms
proof (induction cols names arbitrary: acc rule: list_induct2)
  case Nil
  then show ?case by simp
next
  case (Cons c cols m names)
  show ?case
  proof (cases "n \<in> set names")
    case True
    from Cons.IH[OF True, of "addColumn acc m c"] show ?thesis
      by (auto simp: addColumn_def)
  next
    case False
    then have m: "m = n" using Cons.prems by simp
    have "\<And>b. n \<notin> set names \<Longrightarrow> length cols = length names \<Longrightarrow>
            b_column_indices
              (foldl (\<lambda>block (col_name, column). addColumn block col_name column) b
                 (zip names cols)) n = b_column_indices b n"
    proof -
      fix b show "n \<notin> set names \<Longrightarrow> length cols = length names \<Longrightarrow>
            b_column_indices
              (foldl (\<lambda>block (col_name, column). addColumn block col_name column) b
                 (zip names cols)) n = b_column_indices b n"
      proof (induction names arbitrary: b cols)
        case Nil
        then show ?case by simp
      next
        case (Cons x xs)
        then obtain y ys where "cols = y # ys" by (cases cols) auto
        then show ?case using Cons by (simp add: addColumn_def)
      qed
    qed
    from this[OF False Cons.hyps, of "addColumn acc m c"] m show ?thesis
      by (simp add: addColumn_def)
  qed
qed

lemma make_block_has_column:
  assumes "length cols = length names" and "n \<in> set names"
  shows "column_named (make_block names cols) n \<noteq> None"
proof -
  from make_block_indices_aux[OF assms, of Block_empty]
  obtain i where "b_column_indices (make_block names cols) n = Some i" "i < length names"
    by (auto simp: make_block_def Block_empty_def)
  moreover have "length (b_columns (make_block names cols)) = length names"
    using assms(1) by (simp add: make_block_columns)
  ultimately show ?thesis
    by (simp add: column_named_def getColumnByName_def getColumnIndex_def getColumnByIndex_def)
qed

lemma isValid_equal_sizes:
  "list_all (\<lambda>c. IColumn_size (cw_column c) = n) (b_columns block) \<Longrightarrow> isValid block"
  by (cases "b_columns block") (auto simp: isValid_def list_all_iff)

lemma getRowCount_equal_sizes:
  "list_all (\<lambda>c. IColumn_size (cw_column c) = n) (b_columns block) \<Longrightarrow>
   b_columns block \<noteq> [] \<Longrightarrow> getRowCount block = n"
  by (cases "b_columns block") (auto simp: getRowCount_def)

lemma insert_appends_valid_block:
  assumes e: "executeInsert P tables iast = Inr (res, tables')" and ok: "qr_success res"
  obtains storage new_block where
    "tables (ins_table_name iast) = Some storage"
    "tables' = tables(ins_table_name iast \<mapsto>
       storage\<lparr>ms_blocks := ms_blocks storage @ [new_block]\<rparr>)"
    "isValid new_block"
    "\<forall>n\<in>set (target_columns (ms_structure storage) iast).
       column_named new_block n \<noteq> None \<and> getRowCount new_block = length (ins_values iast)"
    "map cw_name (b_columns new_block) = target_columns (ms_structure storage) iast"
    "list_all (\<lambda>c. IColumn_size (cw_column c) = length (ins_values iast)) (b_columns new_block)"
proof -
  from executeInsert_success[OF e ok] obtain storage cols0 cols where
    t: "tables (ins_table_name iast) = Some storage"
    and len: "list_all (\<lambda>row. length row = length (target_columns (ms_structure storage) iast))
               (ins_values iast)"
    and cols0: "create_columns (ms_structure storage)
                  (target_columns (ms_structure storage) iast) = Inr (Inr cols0)"
    and cols: "fill_rows P (ms_structure storage) (target_columns (ms_structure storage) iast)
                 (ins_values iast) cols0 = Inr (Inr cols)"
    and tb: "tables' = tables(ins_table_name iast \<mapsto>
                storage\<lparr>ms_blocks := ms_blocks storage
                        @ [make_block (target_columns (ms_structure storage) iast) cols]\<rparr>)"
    by blast
  let ?st = "ms_structure storage"
  let ?names = "target_columns ?st iast"
  let ?nb = "make_block ?names cols"
  from create_columns_success[OF cols0] have l0: "length cols0 = length ?names"
    and fit0: "\<forall>j<length ?names. column_fits ?st (?names ! j) (cols0 ! j)
                 \<and> IColumn_size (cols0 ! j) = 0"
    by (auto simp: list_all2_conv_all_nth)
  from fill_rows_result[OF l0 fit0 len, of P] cols
  have l: "length cols = length ?names"
    and sz: "\<forall>j<length ?names. IColumn_size (cols ! j) = length (ins_values iast)"
    by auto
  have n: "map cw_name (b_columns ?nb) = ?names"
    using l by (simp only: make_block_columns names_of_zip)
  have s: "list_all (\<lambda>c. IColumn_size (cw_column c) = length (ins_values iast)) (b_columns ?nb)"
    using l sz by (auto simp: make_block_columns list_all_iff in_set_zip)
  have v: "isValid ?nb" using s by (rule isValid_equal_sizes)
  have h: "\<forall>n\<in>set ?names. column_named ?nb n \<noteq> None
             \<and> getRowCount ?nb = length (ins_values iast)"
  proof
    fix m assume m: "m \<in> set ?names"
    then have "b_columns ?nb \<noteq> []" using n by auto
    then show "column_named ?nb m \<noteq> None \<and> getRowCount ?nb = length (ins_values iast)"
      using make_block_has_column[OF l m] getRowCount_equal_sizes[OF s] by simp
  qed
  from t tb v h n s show ?thesis by (rule that)
qed

lemma count_result_rows:
  "rows_of (qr_blocks (count_result name n)) = [[F_uint64 (word_of_nat n)]]
   \<and> rowCount (count_result name n) = 1 \<and> qr_success (count_result name n)
   \<and> qr_column_names (count_result name n) = [name]"
  by (simp add: count_result_def QueryResult_blocks_def rows_of_def block_rows_def
      rowCount_def getRowCount_def addColumn_def Block_empty_def)

text \<open>
  Claim C1, as amended. On a table whose schema has a first column and whose stored blocks
  are valid and hold that column, \<^verbatim>\<open>SELECT COUNT(*)\<close> succeeds. When the table
  stores a block, the result is one block of one column and one row, holding the sum of
  the row counts of the stored blocks as an unsigned 64-bit value. When the table stores
  no block, the result has no block and no row. After a successful INSERT into the table
  that targets its first column, the count is the earlier sum plus the number of rows of
  the INSERT.
\<close>

theorem count_star_counts_rows:
  assumes t: "tables (sel_table_name ast) = Some storage"
    and a: "\<not> sel_select_all ast"
    and c: "sel_columns ast = [\<lparr>ce_column = ''*'', ce_alias = alias, ce_agg_type = Agg_COUNT\<rparr>]"
    and s: "ts_columns (ms_structure storage) = first # others"
    and h: "hasColumn (ms_structure storage) (cd_name first)"
    and b: "list_all (\<lambda>b. isValid b \<and> column_named b (cd_name first) \<noteq> None)
              (ms_blocks storage)"
  shows "(ms_blocks storage \<noteq> [] \<longrightarrow>
            executeSelect P tables ast =
              Inr (count_result (if alias = [] then ''COUNT(*)'' else alias)
                     (sum_list (map getRowCount (ms_blocks storage))))
            \<and> rows_of (qr_blocks (count_result (if alias = [] then ''COUNT(*)'' else alias)
                     (sum_list (map getRowCount (ms_blocks storage)))))
                = [[F_uint64 (word_of_nat (sum_list (map getRowCount (ms_blocks storage))))]])
       \<and> (ms_blocks storage = [] \<longrightarrow>
            executeSelect P tables ast =
              Inr (QueryResult_blocks [] [if alias \<noteq> [] then alias else ''*'']))
       \<and> (\<forall>iast res tables'.
            executeInsert P tables iast = Inr (res, tables') \<and> qr_success res
            \<and> ins_table_name iast = sel_table_name ast
            \<and> cd_name first \<in> set (target_columns (ms_structure storage) iast)
            \<longrightarrow> executeSelect P tables' ast =
                  Inr (count_result (if alias = [] then ''COUNT(*)'' else alias)
                         (sum_list (map getRowCount (ms_blocks storage))
                            + length (ins_values iast))))"
proof (intro conjI allI impI)
  assume "ms_blocks storage \<noteq> []"
  then show "executeSelect P tables ast =
              Inr (count_result (if alias = [] then ''COUNT(*)'' else alias)
                     (sum_list (map getRowCount (ms_blocks storage))))"
    using count_star_result[where tables = tables and ast = ast and P = P, OF t a c s h b]
    by (simp add: count_result_def)
next
  show "rows_of (qr_blocks (count_result (if alias = [] then ''COUNT(*)'' else alias)
                     (sum_list (map getRowCount (ms_blocks storage)))))
                = [[F_uint64 (word_of_nat (sum_list (map getRowCount (ms_blocks storage))))]]"
    using count_result_rows by blast
next
  assume "ms_blocks storage = []"
  then show "executeSelect P tables ast =
              Inr (QueryResult_blocks [] [if alias \<noteq> [] then alias else ''*''])"
    using count_star_result[where tables = tables and ast = ast and P = P, OF t a c s h b]
    by simp
next
  fix iast res tables'
  assume i: "executeInsert P tables iast = Inr (res, tables') \<and> qr_success res
            \<and> ins_table_name iast = sel_table_name ast
            \<and> cd_name first \<in> set (target_columns (ms_structure storage) iast)"
  then have e: "executeInsert P tables iast = Inr (res, tables')" and ok: "qr_success res"
    and nm: "ins_table_name iast = sel_table_name ast"
    and f: "cd_name first \<in> set (target_columns (ms_structure storage) iast)"
    by simp_all
  from insert_appends_valid_block[OF e ok] obtain storage0 new_block where
    t0: "tables (ins_table_name iast) = Some storage0"
    and tb: "tables' = tables(ins_table_name iast \<mapsto>
               storage0\<lparr>ms_blocks := ms_blocks storage0 @ [new_block]\<rparr>)"
    and v: "isValid new_block"
    and hc: "\<forall>n\<in>set (target_columns (ms_structure storage0) iast).
               column_named new_block n \<noteq> None
               \<and> getRowCount new_block = length (ins_values iast)"
    by blast
  from t0 t nm have st: "storage0 = storage" by simp
  let ?storage' = "storage\<lparr>ms_blocks := ms_blocks storage @ [new_block]\<rparr>"
  have t': "tables' (sel_table_name ast) = Some ?storage'" using tb st nm by simp
  have s': "ts_columns (ms_structure ?storage') = first # others" using s by simp
  have h': "hasColumn (ms_structure ?storage') (cd_name first)" using h by simp
  from hc st f have nb: "column_named new_block (cd_name first) \<noteq> None"
    and rc: "getRowCount new_block = length (ins_values iast)" by auto
  have b': "list_all (\<lambda>b. isValid b \<and> column_named b (cd_name first) \<noteq> None)
              (ms_blocks ?storage')"
    using b v nb by simp
  from count_star_result[where tables = tables' and ast = ast and P = P, OF t' a c s' h' b'] rc
  show "executeSelect P tables' ast =
                  Inr (count_result (if alias = [] then ''COUNT(*)'' else alias)
                         (sum_list (map getRowCount (ms_blocks storage))
                            + length (ins_values iast)))"
    by (simp add: count_result_def)
qed

lemma block_t_valid: "isValid block_t \<and> column_named block_t ''b'' \<noteq> None"
  by (simp add: block_t_def isValid_def column_named_def getColumnByName_def
      getColumnIndex_def getColumnByIndex_def)

lemma getRowCount_block_t: "getRowCount block_t = 2"
  by (simp add: block_t_def getRowCount_def)

theorem count_star_counts_rows_witness:
  "tables_t (sel_table_name select_count_star)
      = Some \<lparr>ms_structure = schema_t, ms_blocks = [block_t]\<rparr>
   \<and> tables_empty_t (sel_table_name select_count_star)
      = Some \<lparr>ms_structure = schema_t, ms_blocks = []\<rparr>
   \<and> \<not> sel_select_all select_count_star
   \<and> sel_columns select_count_star
      = [\<lparr>ce_column = ''*'', ce_alias = [], ce_agg_type = Agg_COUNT\<rparr>]
   \<and> ts_columns schema_t = \<lparr>cd_name = ''b'', cd_type = DataTypeInt32\<rparr>
        # [\<lparr>cd_name = ''a'', cd_type = DataTypeInt32\<rparr>]
   \<and> hasColumn schema_t ''b''
   \<and> list_all (\<lambda>b. isValid b \<and> column_named b ''b'' \<noteq> None) [block_t]
   \<and> executeInsert sample_platform tables_empty_t insert_t
        = Inr (QueryResult_message True ''2 row(s) inserted successfully'', tables_t)
   \<and> qr_success (QueryResult_message True ''2 row(s) inserted successfully'')
   \<and> ins_table_name insert_t = sel_table_name select_count_star
   \<and> ''b'' \<in> set (target_columns schema_t insert_t)
   \<and> executeSelect sample_platform tables_t select_count_star = Inr (count_result ''COUNT(*)'' 2)
   \<and> rows_of (qr_blocks (count_result ''COUNT(*)'' 2)) = [[F_uint64 2]]
   \<and> executeSelect sample_platform tables_empty_t select_count_star
        = Inr (QueryResult_blocks [] [''*''])"
proof -
  let ?s1 = "\<lparr>ms_structure = schema_t, ms_blocks = [block_t]\<rparr>"
  let ?s0 = "\<lparr>ms_structure = schema_t, ms_blocks = []\<rparr>"
  let ?first = "\<lparr>cd_name = ''b'', cd_type = DataTypeInt32\<rparr>"
  let ?others = "[\<lparr>cd_name = ''a'', cd_type = DataTypeInt32\<rparr>]"
  have t1: "tables_t (sel_table_name select_count_star) = Some ?s1"
    by (simp add: tables_t_def select_count_star_def select_ast_def)
  have t0: "tables_empty_t (sel_table_name select_count_star) = Some ?s0"
    by (simp add: tables_empty_t_def select_count_star_def select_ast_def)
  have a: "\<not> sel_select_all select_count_star"
    by (simp add: select_count_star_def select_ast_def)
  have c: "sel_columns select_count_star
      = [\<lparr>ce_column = ''*'', ce_alias = [], ce_agg_type = Agg_COUNT\<rparr>]"
    by (simp add: select_count_star_def select_ast_def)
  have s1: "ts_columns (ms_structure ?s1) = ?first # ?others" by (simp add: schema_t_def)
  have s0: "ts_columns (ms_structure ?s0) = ?first # ?others" by (simp add: schema_t_def)
  have h1: "hasColumn (ms_structure ?s1) (cd_name ?first)"
    by (simp add: schema_t_def hasColumn_def)
  have h0: "hasColumn (ms_structure ?s0) (cd_name ?first)"
    by (simp add: schema_t_def hasColumn_def)
  have b1: "list_all (\<lambda>b. isValid b \<and> column_named b (cd_name ?first) \<noteq> None) (ms_blocks ?s1)"
    using block_t_valid by simp
  have b0: "list_all (\<lambda>b. isValid b \<and> column_named b (cd_name ?first) \<noteq> None) (ms_blocks ?s0)"
    by simp
  have tc: "''b'' \<in> set (target_columns schema_t insert_t)"
    by (simp add: target_columns_def insert_t_def schema_t_def)
  have ins: "executeInsert sample_platform tables_empty_t insert_t
        = Inr (QueryResult_message True ''2 row(s) inserted successfully'', tables_t)"
    by (rule insert_t_result)
  have ok: "qr_success (QueryResult_message True ''2 row(s) inserted successfully'')"
    by (simp add: QueryResult_message_def)
  have nm: "ins_table_name insert_t = sel_table_name select_count_star"
    by (simp add: insert_t_def select_count_star_def select_ast_def)
  have len: "length (ins_values insert_t) = 2" by (simp add: insert_t_def)
  note w1 = count_star_counts_rows
    [where tables = tables_t and ast = select_count_star and P = sample_platform,
     OF t1 a c s1 h1 b1]
  note w0 = count_star_counts_rows
    [where tables = tables_empty_t and ast = select_count_star and P = sample_platform,
     OF t0 a c s0 h0 b0]
  have r1: "executeSelect sample_platform tables_t select_count_star
              = Inr (count_result ''COUNT(*)'' 2)"
    using w1 getRowCount_block_t by simp
  have r0: "executeSelect sample_platform tables_empty_t select_count_star
              = Inr (QueryResult_blocks [] [''*''])"
    using w0 by simp
  note w0c = w0[THEN conjunct2, THEN conjunct2, rule_format,
    of insert_t "QueryResult_message True ''2 row(s) inserted successfully''" tables_t]
  have r2: "executeSelect sample_platform tables_t select_count_star
              = Inr (count_result ''COUNT(*)'' (0 + 2))"
    using w0c ins ok nm tc len by simp
  have rows: "rows_of (qr_blocks (count_result ''COUNT(*)'' 2)) = [[F_uint64 2]]"
    using count_result_rows[of "''COUNT(*)''" 2] by simp
  show ?thesis
    using t1 t0 a c s1 h1 b1 ins ok nm tc r1 r0 r2 rows by simp
qed

text \<open>
  The claim as stated fails on a table without rows: the result of
  \<^verbatim>\<open>SELECT COUNT(*) FROM t\<close>, right after \<^verbatim>\<open>CREATE TABLE\<close>, has no row.
\<close>

theorem count_star_empty_table_counterexample:
  "executeCreateTable Map.empty create_t
     = (QueryResult_message True ''Table created successfully'', tables_empty_t)
   \<and> executeSelect sample_platform tables_empty_t select_count_star
     = Inr (QueryResult_blocks [] [''*''])
   \<and> rows_of (qr_blocks (QueryResult_blocks [] [''*''])) = []"
  by (simp add: create_t_result count_star_empty QueryResult_blocks_def rows_of_def)

section \<open>The column order of a SELECT\<close>

text \<open>
  Claim C2, at \<^verbatim>\<open>SELECT b, a FROM t\<close> on the table \<open>t (b Int32, a Int32)\<close>
  holding the rows \<open>(1, 2)\<close> and \<open>(3, 4)\<close>. The column names of the result are
  \<open>b, a\<close>, as requested; its block holds the column \<open>a\<close> first and the column \<open>b\<close>
  second, the names having been sorted for the read.
\<close>

theorem select_returns_sorted_columns:
  "executeSelect sample_platform tables_t select_b_a
     = Inr (QueryResult_blocks
              [\<lparr>b_columns =
                  [\<lparr>cw_name = ''a'', cw_column = ColumnVector (V_int32 [2, 4]) DataTypeInt32\<rparr>,
                   \<lparr>cw_name = ''b'', cw_column = ColumnVector (V_int32 [1, 3]) DataTypeInt32\<rparr>],
                b_column_indices = [''a'' \<mapsto> 0, ''b'' \<mapsto> 1]\<rparr>]
              [''b'', ''a''])
   \<and> executeInsert sample_platform tables_empty_t insert_t
     = Inr (QueryResult_message True ''2 row(s) inserted successfully'', tables_t)
   \<and> executeCreateTable Map.empty create_t
     = (QueryResult_message True ''Table created successfully'', tables_empty_t)"
  by (simp only: select_b_a_result insert_t_result create_t_result simp_thms)

end
